theory Spec2Isabelle
  imports Main
begin


section \<open>Thrown values and JavaScript string helpers\<close>

text \<open>
  Strings are lists of code units. The model covers texts whose code units are below 256
  (Isabelle's \<open>char\<close>); \<open>length\<close> is then JavaScript's \<open>.length\<close>.

  A thrown value is a \<open>SocialPostingError\<close> (message, optional code, optional details),
  any other \<open>Error\<close> instance (its message) or a value that is not an \<open>Error\<close>
  (its \<open>String(err)\<close>). The details of a \<open>SocialPostingError\<close> are kept as the
  string the library stores there (a slice of the response body).
\<close>

datatype thrown =
    SocialPostingError string "string option" "string option"
  | JsError string
  | NonError string

text \<open>\<open>err instanceof Error ? err.message : String(err)\<close>\<close>

fun err_message :: "thrown \<Rightarrow> string" where
  "err_message (SocialPostingError m c d) = m"
| "err_message (JsError m) = m"
| "err_message (NonError s) = s"

definition is_space :: "char \<Rightarrow> bool" where
  "is_space c = (of_char c \<in> {9, 10, 11, 12, 13, 32, 160 :: nat})"

definition trim :: "string \<Rightarrow> string" where
  "trim s = rev (dropWhile is_space (rev (dropWhile is_space s)))"

fun starts_with :: "string \<Rightarrow> string \<Rightarrow> bool" where
  "starts_with s [] = True"
| "starts_with [] (p # ps) = False"
| "starts_with (c # cs) (p # ps) = (c = p \<and> starts_with cs ps)"

fun contains :: "string \<Rightarrow> string \<Rightarrow> bool" where
  "contains [] pat = (pat = [])"
| "contains (c # cs) pat = (starts_with (c # cs) pat \<or> contains cs pat)"

definition is_digit :: "char \<Rightarrow> bool" where
  "is_digit c = (48 \<le> (of_char c :: nat) \<and> (of_char c :: nat) \<le> 57)"

definition is_upper :: "char \<Rightarrow> bool" where
  "is_upper c = (65 \<le> (of_char c :: nat) \<and> (of_char c :: nat) \<le> 90)"

definition is_lower :: "char \<Rightarrow> bool" where
  "is_lower c = (97 \<le> (of_char c :: nat) \<and> (of_char c :: nat) \<le> 122)"

text \<open>The class \<open>\w\<close> of a JavaScript regular expression.\<close>

definition is_word :: "char \<Rightarrow> bool" where
  "is_word c = (is_digit c \<or> is_upper c \<or> is_lower c \<or> c = CHR ''_'')"

definition to_lower :: "char \<Rightarrow> char" where
  "to_lower c =
     (case map_of (zip ''ABCDEFGHIJKLMNOPQRSTUVWXYZ'' ''abcdefghijklmnopqrstuvwxyz'') c of
        Some l \<Rightarrow> l
      | None \<Rightarrow> c)"

section \<open>lib/request: the retry policy\<close>

text \<open>
  \<open>/\b(429|5\d{2})\b/.test(d)\<close>: three code units \<open>429\<close> or \<open>5dd\<close> with no word
  character directly before or after them. The scan carries whether the previous code
  unit was a word character.
\<close>

definition status_here :: "string \<Rightarrow> bool" where
  "status_here s =
     (case s of
        a # b # c # rest \<Rightarrow>
          ((a = CHR ''4'' \<and> b = CHR ''2'' \<and> c = CHR ''9'') \<or>
           (a = CHR ''5'' \<and> is_digit b \<and> is_digit c)) \<and>
          (case rest of [] \<Rightarrow> True | d # ds \<Rightarrow> \<not> is_word d)
      | _ \<Rightarrow> False)"

fun status_scan :: "bool \<Rightarrow> string \<Rightarrow> bool" where
  "status_scan prev_word [] = False"
| "status_scan prev_word (c # cs) =
     ((\<not> prev_word \<and> status_here (c # cs)) \<or> status_scan (is_word c) cs)"

definition status_pattern :: "string \<Rightarrow> bool" where
  "status_pattern d = status_scan False d"

text \<open>\<open>/timeout|ECONNRESET|ETIMEDOUT|ENOTFOUND/i.test(err.message)\<close>\<close>

definition transient_pattern :: "string \<Rightarrow> bool" where
  "transient_pattern m =
     (let l = map to_lower m in
        contains l ''timeout'' \<or> contains l ''econnreset'' \<or>
        contains l ''etimedout'' \<or> contains l ''enotfound'')"

fun isRetryableError :: "thrown \<Rightarrow> bool" where
  "isRetryableError (SocialPostingError m c d) =
     (if c = Some ''NETWORK_ERROR'' then True
      else if c = Some ''API_ERROR'' \<and>
              (case d of None \<Rightarrow> False | Some t \<Rightarrow> t \<noteq> [] \<and> status_pattern t) then True
      else transient_pattern m)"
| "isRetryableError (JsError m) = transient_pattern m"
| "isRetryableError (NonError s) = False"

text \<open>
  \<open>withRetries(fn, options)\<close>. The operation \<open>fn\<close> has effects, so it is a
  transformer of a state \<open>'s\<close> that returns what it threw (\<open>Inl\<close>) or its result
  (\<open>Inr\<close>); \<open>sleep\<close> is the state's account of \<open>setTimeout(r, delayMs)\<close>.
  \<open>lastErr\<close> is \<open>None\<close> while it is still \<open>undefined\<close>.
\<close>

record retry_options =
  retries :: "int option"
  retryDelayMs :: "int option"

function withRetries_loop ::
  "(nat \<Rightarrow> 's \<Rightarrow> 's) \<Rightarrow> ('s \<Rightarrow> (thrown + 'a) \<times> 's) \<Rightarrow> nat \<Rightarrow> nat \<Rightarrow> nat \<Rightarrow>
   thrown option \<Rightarrow> 's \<Rightarrow> (thrown + 'a \<times> nat) \<times> 's" where
  "withRetries_loop sleep fn n delayMs attempt lastErr s =
     (if attempt \<le> n + 1 then
        (case fn s of
           (Inr result, s') \<Rightarrow> (Inr (result, attempt), s')
         | (Inl e, s') \<Rightarrow>
             if attempt \<le> n \<and> isRetryableError e
             then withRetries_loop sleep fn n delayMs (attempt + 1) (Some e) (sleep delayMs s')
             else (Inl e, s'))
      else (Inl (case lastErr of Some e \<Rightarrow> e | None \<Rightarrow> NonError ''undefined''), s))"
  by pat_completeness auto
termination
  by (relation "measure (\<lambda>(sleep, fn, n, delayMs, attempt, lastErr, s). n + 1 - attempt)") auto

declare withRetries_loop.simps [simp del]

definition withRetries ::
  "(nat \<Rightarrow> 's \<Rightarrow> 's) \<Rightarrow> ('s \<Rightarrow> (thrown + 'a) \<times> 's) \<Rightarrow> retry_options \<Rightarrow> 's \<Rightarrow>
   (thrown + 'a \<times> nat) \<times> 's" where
  "withRetries sleep fn options s =
     (let n = nat (max 0 (case retries options of None \<Rightarrow> 0 | Some r \<Rightarrow> r));
          delayMs = nat (max 0 (case retryDelayMs options of None \<Rightarrow> 1000 | Some d \<Rightarrow> d))
      in withRetries_loop sleep fn n delayMs 1 None s)"

text \<open>
  A probe for statements about how often \<open>withRetries\<close> invokes its operation: the
  state is the trace of invocations and waits, and \<open>scripted f\<close> is the operation whose
  \<open>k\<close>-th invocation (counted from 1) throws or returns \<open>f k\<close>.
\<close>

datatype probe_event = Invoked | Slept nat

definition probe_sleep :: "nat \<Rightarrow> probe_event list \<Rightarrow> probe_event list" where
  "probe_sleep ms tr = tr @ [Slept ms]"

definition calls :: "probe_event list \<Rightarrow> nat" where
  "calls tr = length (filter (\<lambda>e. e = Invoked) tr)"

definition scripted ::
  "(nat \<Rightarrow> thrown + 'a) \<Rightarrow> probe_event list \<Rightarrow> (thrown + 'a) \<times> probe_event list" where
  "scripted f tr = (f (Suc (calls tr)), tr @ [Invoked])"

section \<open>types: the data model\<close>

text \<open>
  \<open>PlatformCode = "f" | "i" | "l" | "t"\<close>. The four codes are the whole type, so a
  branch of the source for any other string has no counterpart here.
\<close>

datatype platform_code = CodeF | CodeI | CodeL | CodeT

record meta_config =
  pageAccessToken :: string
  pageId :: string
  instagramBusinessAccountId :: "string option"
  adAccountId :: "string option"

record linkedin_config =
  linkedin_accessToken :: string
  personUrn :: "string option"
  organizationUrn :: "string option"

record threads_config =
  threads_userId :: string
  threads_accessToken :: string

text \<open>
  A field the source declares \<open>string\<close> is a string here, and a missing value is the
  empty string: every test the source makes on such a field (\<open>!x\<close>, \<open>!x?.trim()\<close>)
  gives the same answer for \<open>undefined\<close> and for \<open>""\<close>. Optional fields are options,
  since \<open>??\<close> tells \<open>undefined\<close> from \<open>""\<close>.
\<close>

record social_config =
  meta :: "meta_config option"
  linkedin :: "linkedin_config option"
  threads :: "threads_config option"

text \<open>\<open>PlatformResult\<close>; \<open>postedAt\<close> is the clock reading the ISO timestamp is taken from.\<close>

record platform_result =
  platform :: string
  code :: platform_code
  postId :: "string option"
  error :: "string option"
  content :: "string option"
  permalink :: "string option"
  postedAt :: "nat option"
  attempt :: "nat option"

record failed_entry =
  failed_platform :: string
  failed_error :: string

datatype batch_status = Full | Partial | Failed

record cross_post_result =
  platformResults :: "platform_result list"
  failed :: "failed_entry list"
  batchStatus :: batch_status
  maxAttempt :: "nat option"

text \<open>What an adapter's publish returns (\<open>InstagramPostResult\<close>, \<open>ThreadsPostResult\<close>, ...).\<close>

record post_result =
  post_postId :: string
  post_permalink :: "string option"

definition CODE_TO_PLATFORM_LABEL :: "platform_code \<Rightarrow> string" where
  "CODE_TO_PLATFORM_LABEL c =
     (case c of CodeF \<Rightarrow> ''Facebook'' | CodeI \<Rightarrow> ''Instagram''
              | CodeL \<Rightarrow> ''LinkedIn'' | CodeT \<Rightarrow> ''Threads'')"

section \<open>The environment: JSON values, requests, the network and the clock\<close>

text \<open>
  A parsed JSON value, as far as the source reads one: strings and objects. The pairs of
  an object stand in the order \<open>Object.keys\<close> gives, with distinct keys. A field the
  source declares as a string is read with \<open>str_field\<close>; the declared response types
  exclude any other kind of value there.
\<close>

datatype json = JStr string | JObj "(string \<times> json) list"

fun field :: "json \<Rightarrow> string \<Rightarrow> json option" where
  "field (JObj kvs) k = map_of kvs k"
| "field (JStr s) k = None"

definition str_field :: "json \<Rightarrow> string \<Rightarrow> string option" where
  "str_field j k = (case field j k of Some (JStr s) \<Rightarrow> Some s | _ \<Rightarrow> None)"

text \<open>\<open>!x\<close> for an optional string: \<open>undefined\<close> and \<open>""\<close> are falsy.\<close>

definition truthy :: "string option \<Rightarrow> bool" where
  "truthy x = (case x of None \<Rightarrow> False | Some s \<Rightarrow> s \<noteq> [])"

text \<open>
  A request as \<open>fetchWithTimeout\<close> sends it. The query parameters, the form fields and
  the headers are kept as pairs; percent-encoding (\<open>URLSearchParams\<close>,
  \<open>encodeURIComponent\<close>) is transport encoding and is not modelled. A form or body
  value that the source passes through \<open>JSON.stringify\<close> is kept as the JSON value.
\<close>

record request =
  http_method :: string
  url :: string
  query :: "(string \<times> string) list"
  form :: "(string \<times> json) list"
  req_headers :: "(string \<times> string) list"

text \<open>
  A response: its status, its body text, what \<open>JSON.parse\<close> makes of the body
  (\<open>None\<close> when it throws) and its headers. \<open>Response.ok\<close> is a status from 200 to 299.
\<close>

record response =
  status :: nat
  body :: string
  parsed :: "json option"
  resp_headers :: "(string \<times> string) list"

definition ok :: "response \<Rightarrow> bool" where
  "ok r = (200 \<le> status r \<and> status r \<le> 299)"

text \<open>
  One fetch either rejects (with an \<open>Error\<close>'s message, or \<open>None\<close> for a value that
  is not an \<open>Error\<close>; the abort after \<open>timeoutMs\<close> is such a rejection) or resolves with
  a response, after \<open>elapsed\<close> milliseconds.
\<close>

datatype fetch_outcome = Rejected "string option" | Resolved response

record reply =
  elapsed :: nat
  outcome :: fetch_outcome

text \<open>
  The world is the clock (\<open>Date.now()\<close>, in milliseconds) and the trace of what the
  library did to its surroundings. The network and the injected callbacks answer from
  the world they are called in, so they may behave differently from call to call.
\<close>

datatype event =
    Fetch request
  | Sleep nat
  | UploadImage
  | ContentAdapter platform_code
  | PlatformStart platform_code
  | PlatformDone platform_code platform_result

record world =
  now :: nat
  trace :: "event list"

type_synonym network = "world \<Rightarrow> request \<Rightarrow> reply"

type_synonym 'a io = "world \<Rightarrow> (thrown + 'a) \<times> world"

definition sleep :: "nat \<Rightarrow> world \<Rightarrow> world" where
  "sleep ms w = w\<lparr>now := now w + ms, trace := trace w @ [Sleep ms]\<rparr>"

section \<open>lib/request: fetch, JSON and API errors\<close>

text \<open>\<open>String(n)\<close> and \<open>`${n}`\<close> for a natural number.\<close>

fun show_nat :: "nat \<Rightarrow> string" where
  "show_nat n =
     (if n < 10 then [''0123456789'' ! n]
      else show_nat (n div 10) @ [''0123456789'' ! (n mod 10)])"

text \<open>
  \<open>fetchWithTimeout\<close>: the request goes out, the clock moves on, and a rejected fetch is
  rethrown as a \<open>SocialPostingError\<close> with code \<open>NETWORK_ERROR\<close> (its details, the
  caught value, are kept as that value's message).
\<close>

definition fetched :: "network \<Rightarrow> request \<Rightarrow> world \<Rightarrow> world" where
  "fetched net req w = w\<lparr>now := now w + elapsed (net w req), trace := trace w @ [Fetch req]\<rparr>"

definition fetchWithTimeout :: "network \<Rightarrow> request \<Rightarrow> response io" where
  "fetchWithTimeout net req w =
     (let rp = net w req;
          w' = fetched net req w
      in case outcome rp of
           Rejected m \<Rightarrow>
             (Inl (SocialPostingError (case m of Some s \<Rightarrow> s | None \<Rightarrow> ''Request failed'')
                     (Some ''NETWORK_ERROR'') m), w')
         | Resolved r \<Rightarrow> (Inr r, w'))"

text \<open>
  \<open>parseJson(text, fallback, errorContext)\<close>, given the response whose body \<open>text\<close> is:
  \<open>JSON.parse(text || "{}")\<close>.
\<close>

definition parseJson :: "response \<Rightarrow> string \<Rightarrow> thrown + json" where
  "parseJson r errorContext =
     (if body r = [] then Inr (JObj [])
      else case parsed r of
             Some j \<Rightarrow> Inr j
           | None \<Rightarrow> Inl (SocialPostingError (errorContext @ '': invalid JSON'') None
                          (Some (take 200 (body r)))))"

text \<open>
  \<open>throwIfNotOk(response, body, platformName)\<close>: \<open>None\<close> when nothing is thrown.
  The message is the first of \<open>error.message\<close>, \<open>error.error_user_msg\<close> and
  \<open>message\<close> that is defined, when that is a non-empty string; \<open>JSON.parse\<close> of an
  empty body throws.
\<close>

definition api_error_message :: "response \<Rightarrow> string \<Rightarrow> string" where
  "api_error_message r platformName =
     (let dflt = platformName @ '' API error: '' @ show_nat (status r) in
      if body r = [] then dflt
      else case parsed r of
             None \<Rightarrow> dflt
           | Some p \<Rightarrow>
               (let err = (case field p ''error'' of Some e \<Rightarrow> e | None \<Rightarrow> JObj []);
                    msg = (case field err ''message'' of
                             Some m \<Rightarrow> Some m
                           | None \<Rightarrow>
                               (case field err ''error_user_msg'' of
                                  Some m \<Rightarrow> Some m
                                | None \<Rightarrow> field p ''message''))
                in case msg of
                     Some (JStr s) \<Rightarrow> if s \<noteq> [] then s else dflt
                   | _ \<Rightarrow> dflt))"

definition throwIfNotOk :: "response \<Rightarrow> string \<Rightarrow> thrown option" where
  "throwIfNotOk r platformName =
     (if ok r then None
      else Some (SocialPostingError (api_error_message r platformName) (Some ''API_ERROR'')
                   (Some (take 500 (body r)))))"

text \<open>
  The three lines every adapter repeats after a fetch, \<open>res.text()\<close>,
  \<open>throwIfNotOk(res, text, name)\<close> and \<open>parseJson(text, {}, name)\<close>, with the response
  kept beside the parsed value.
\<close>

definition fetch_json :: "network \<Rightarrow> request \<Rightarrow> string \<Rightarrow> (response \<times> json) io" where
  "fetch_json net req name w =
     (case fetchWithTimeout net req w of
        (Inl e, w') \<Rightarrow> (Inl e, w')
      | (Inr r, w') \<Rightarrow>
          (case throwIfNotOk r name of
             Some e \<Rightarrow> (Inl e, w')
           | None \<Rightarrow>
               (case parseJson r name of
                  Inl e \<Rightarrow> (Inl e, w')
                | Inr j \<Rightarrow> (Inr (r, j), w'))))"

text \<open>
  The best-effort permalink lookup of the publish adapters: a \<open>GET\<close> of one field inside
  \<open>try { ... } catch { }\<close>, read only when the response is ok and the field is a
  non-empty string; \<open>dflt\<close> is the permalink held before the lookup.
\<close>

definition fetch_permalink ::
  "network \<Rightarrow> request \<Rightarrow> string \<Rightarrow> string \<Rightarrow> string option \<Rightarrow> world \<Rightarrow> string option \<times> world" where
  "fetch_permalink net req name fld dflt w =
     (case fetchWithTimeout net req w of
        (Inl e, w') \<Rightarrow> (dflt, w')
      | (Inr r, w') \<Rightarrow>
          (if ok r then
             (case parseJson r name of
                Inl e \<Rightarrow> (dflt, w')
              | Inr j \<Rightarrow> (if truthy (str_field j fld) then str_field j fld else dflt, w'))
           else (dflt, w')))"

definition post_form :: "string \<Rightarrow> (string \<times> json) list \<Rightarrow> request" where
  "post_form u kvs =
     \<lparr>http_method = ''POST'', url = u, query = [], form = kvs,
      req_headers = [(''Content-Type'', ''application/x-www-form-urlencoded'')]\<rparr>"

definition get_fields :: "string \<Rightarrow> string \<Rightarrow> string \<Rightarrow> request" where
  "get_fields u flds token =
     \<lparr>http_method = ''GET'', url = u, query = [(''fields'', flds), (''access_token'', token)],
      form = [], req_headers = []\<rparr>"

lemma fetch_json_now: "fetch_json net req name w = (x, w') \<Longrightarrow> now w \<le> now w'"
  by (auto simp: fetch_json_def fetchWithTimeout_def fetched_def Let_def
           split: fetch_outcome.splits option.splits sum.splits)

section \<open>platforms/instagram: the two-phase publish\<close>

definition META_BASE :: string where
  "META_BASE = ''https://graph.facebook.com/v24.0''"

definition POLL_INTERVAL_MS :: nat where
  "POLL_INTERVAL_MS = 2000"

definition POLL_MAX_WAIT_MS :: nat where
  "POLL_MAX_WAIT_MS = 30000"

definition social_error :: "string \<Rightarrow> thrown" where
  "social_error m = SocialPostingError m None None"

text \<open>The three requests of \<open>postToInstagram\<close>.\<close>

definition instagram_create_request :: "string \<Rightarrow> string \<Rightarrow> string \<Rightarrow> string \<Rightarrow> request" where
  "instagram_create_request token igUserId imageUrl content_text =
     post_form (META_BASE @ ''/'' @ igUserId @ ''/media'')
       ([(''access_token'', JStr token), (''image_url'', JStr imageUrl),
         (''media_type'', JStr ''IMAGE'')] @
        (if trim content_text \<noteq> [] then [(''caption'', JStr (trim content_text))] else []))"

definition instagram_status_request :: "string \<Rightarrow> string \<Rightarrow> request" where
  "instagram_status_request token creationId =
     get_fields (META_BASE @ ''/'' @ creationId) ''status_code'' token"

definition instagram_publish_request :: "string \<Rightarrow> string \<Rightarrow> string \<Rightarrow> request" where
  "instagram_publish_request token igUserId creationId =
     post_form (META_BASE @ ''/'' @ igUserId @ ''/media_publish'')
       [(''access_token'', JStr token), (''creation_id'', JStr creationId)]"

text \<open>
  The polling loop of \<open>postToInstagram\<close>,
  \<open>while (Date.now() < deadline) { ... }\<close>: \<open>None\<close> when the loop is left by
  \<open>break\<close> or by the deadline, \<open>Some e\<close> when \<open>e\<close> is thrown inside it.
\<close>

function instagram_poll ::
  "network \<Rightarrow> string \<Rightarrow> string \<Rightarrow> nat \<Rightarrow> world \<Rightarrow> thrown option \<times> world" where
  "instagram_poll net creationId token deadline w =
     (if now w < deadline then
        (case fetch_json net (instagram_status_request token creationId) ''Instagram'' w of
           (Inl e, w') \<Rightarrow> (Some e, w')
         | (Inr (statusRes, statusData), w') \<Rightarrow>
             (let statusCode = (case str_field statusData ''status_code'' of
                                  Some s \<Rightarrow> s | None \<Rightarrow> ''UNKNOWN'')
              in if statusCode = ''FINISHED'' \<or> statusCode = ''PUBLISHED'' then (None, w')
                 else if statusCode = ''ERROR'' \<or> statusCode = ''EXPIRED'' then
                   (Some (SocialPostingError (''Instagram container '' @ statusCode) None
                            (Some (take 200 (body statusRes)))), w')
                 else instagram_poll net creationId token deadline (sleep POLL_INTERVAL_MS w')))
      else (None, w))"
  by pat_completeness auto
termination
proof (relation "measure (\<lambda>(net, creationId, token, deadline, w). deadline - now w)")
  show "wf (measure (\<lambda>(net, creationId, token, deadline, w). deadline - now w))"
    by simp
next
  fix net :: network and creationId token :: string and deadline :: nat and w x1 w' x2 y2 z
  assume "now w < deadline"
    and "(x1, w') = fetch_json net (instagram_status_request token creationId) ''Instagram'' w"
  then have "now w \<le> now w'"
    using fetch_json_now[of net _ _ w x1 w'] by simp
  with \<open>now w < deadline\<close>
  show "((net, creationId, token, deadline, sleep POLL_INTERVAL_MS w'), net, creationId, token, deadline, w)
          \<in> measure (\<lambda>(net, creationId, token, deadline, w). deadline - now w)"
    by (simp add: sleep_def POLL_INTERVAL_MS_def)
qed

declare instagram_poll.simps [simp del]

text \<open>The second phase of \<open>postToInstagram\<close>: \<open>media_publish\<close>, then the permalink.\<close>

definition instagram_publish ::
  "network \<Rightarrow> string \<Rightarrow> string \<Rightarrow> string \<Rightarrow> post_result io" where
  "instagram_publish net token igUserId creationId w =
     (case fetch_json net (instagram_publish_request token igUserId creationId) ''Instagram'' w of
        (Inl e, w1) \<Rightarrow> (Inl e, w1)
      | (Inr (publishRes, publishData), w1) \<Rightarrow>
          (if \<not> truthy (str_field publishData ''id'') then
             (Inl (SocialPostingError ''Instagram did not return media id'' None
                     (Some (take 200 (body publishRes)))), w1)
           else
             (let mediaId = the (str_field publishData ''id'');
                  (permalink, w2) =
                     fetch_permalink net (get_fields (META_BASE @ ''/'' @ mediaId) ''permalink'' token)
                       ''Instagram permalink'' ''permalink'' None (sleep 1500 w1)
              in (Inr \<lparr>post_postId = mediaId, post_permalink = permalink\<rparr>, w2))))"

text \<open>\<open>postToInstagram(config, { content, imageUrl })\<close>\<close>

definition postToInstagram :: "network \<Rightarrow> meta_config \<Rightarrow> string \<Rightarrow> string \<Rightarrow> post_result io" where
  "postToInstagram net config content_text imageUrl w =
     (if trim (pageAccessToken config) = [] then
        (Inl (social_error ''Meta pageAccessToken is required for Instagram''), w)
      else if \<not> truthy (map_option trim (instagramBusinessAccountId config)) then
        (Inl (social_error ''Meta instagramBusinessAccountId is required for Instagram''), w)
      else
        (let igUserId = trim (the (instagramBusinessAccountId config));
             token = pageAccessToken config
         in case fetch_json net (instagram_create_request token igUserId imageUrl content_text)
                   ''Instagram'' w of
              (Inl e, w1) \<Rightarrow> (Inl e, w1)
            | (Inr (res, data), w1) \<Rightarrow>
                (if \<not> truthy (str_field data ''id'') then
                   (Inl (SocialPostingError ''Instagram did not return container id'' None
                           (Some (take 200 (body res)))), w1)
                 else
                   (let creationId = the (str_field data ''id'') in
                    case instagram_poll net creationId token (now w1 + POLL_MAX_WAIT_MS) w1 of
                      (Some e, w2) \<Rightarrow> (Inl e, w2)
                    | (None, w2) \<Rightarrow> instagram_publish net token igUserId creationId w2))))"

section \<open>platforms/threads\<close>

definition THREADS_BASE :: string where
  "THREADS_BASE = ''https://graph.threads.net/v1.0''"

definition THREADS_TEXT_MAX_LENGTH :: nat where
  "THREADS_TEXT_MAX_LENGTH = 500"

record threads_params =
  threads_content :: string
  threads_imageUrl :: "string option"
  altText :: "string option"
  linkAttachment :: "string option"

text \<open>\<open>if (x?.trim()) form.set(key, x.trim())\<close>\<close>

definition opt_field :: "string \<Rightarrow> string option \<Rightarrow> (string \<times> json) list" where
  "opt_field k x =
     (if truthy (map_option trim x) then [(k, JStr (trim (the x)))] else [])"

text \<open>The two requests of \<open>postToThreads\<close>.\<close>

definition threads_create_request :: "threads_config \<Rightarrow> threads_params \<Rightarrow> request" where
  "threads_create_request config params =
     (let txt = trim (threads_content params);
          is_image = truthy (map_option trim (threads_imageUrl params))
      in post_form (THREADS_BASE @ ''/'' @ threads_userId config @ ''/threads'')
           ([(''access_token'', JStr (threads_accessToken config)),
             (''media_type'', JStr (if is_image then ''IMAGE'' else ''TEXT''))] @
            (if txt \<noteq> [] then [(''text'', JStr txt)] else []) @
            opt_field ''image_url'' (threads_imageUrl params) @
            opt_field ''alt_text'' (altText params) @
            opt_field ''link_attachment'' (linkAttachment params) @
            (if is_image then [] else [(''auto_publish_text'', JStr ''true'')])))"

definition threads_publish_request :: "threads_config \<Rightarrow> string \<Rightarrow> request" where
  "threads_publish_request config creationId =
     post_form (THREADS_BASE @ ''/'' @ threads_userId config @ ''/threads_publish'')
       [(''access_token'', JStr (threads_accessToken config)), (''creation_id'', JStr creationId)]"

text \<open>
  The part of \<open>postToThreads\<close> after the container is created: for an image, the
  \<open>threads_publish\<close> call, whose id replaces the container's when it has one; then the
  check that there is an id, and the permalink.
\<close>

definition threads_finish ::
  "network \<Rightarrow> threads_config \<Rightarrow> bool \<Rightarrow> response \<Rightarrow> string option \<Rightarrow> post_result io" where
  "threads_finish net config is_image res containerId w =
     (case (if is_image \<and> truthy containerId then
              (case fetch_json net (threads_publish_request config (the containerId))
                      ''Threads'' w of
                 (Inl e, w1) \<Rightarrow> (Inl e, w1)
               | (Inr (publishRes, publishData), w1) \<Rightarrow>
                   (Inr (if truthy (str_field publishData ''id'')
                         then str_field publishData ''id'' else containerId), w1))
            else (Inr containerId, w)) of
        (Inl e, w1) \<Rightarrow> (Inl e, w1)
      | (Inr finalId, w1) \<Rightarrow>
          (if \<not> truthy finalId then
             (Inl (SocialPostingError ''Threads did not return media id'' None
                     (Some (take 200 (body res)))), w1)
           else
             (let (permalink, w2) =
                    fetch_permalink net
                      (get_fields (THREADS_BASE @ ''/'' @ the finalId) ''permalink''
                         (threads_accessToken config))
                      ''Threads permalink'' ''permalink'' None w1
              in (Inr \<lparr>post_postId = the finalId, post_permalink = permalink\<rparr>, w2))))"

text \<open>\<open>postToThreads(config, { content, imageUrl, altText, linkAttachment })\<close>\<close>

definition postToThreads :: "network \<Rightarrow> threads_config \<Rightarrow> threads_params \<Rightarrow> post_result io" where
  "postToThreads net config params w =
     (if trim (threads_userId config) = [] then
        (Inl (social_error ''Threads userId is required''), w)
      else if trim (threads_accessToken config) = [] then
        (Inl (social_error ''Threads accessToken is required''), w)
      else
        (let txt = trim (threads_content params);
             is_image = truthy (map_option trim (threads_imageUrl params))
         in if txt = [] \<and> \<not> is_image then
              (Inl (social_error ''Threads post requires content or image''), w)
            else if length txt > THREADS_TEXT_MAX_LENGTH then
              (Inl (social_error (''Threads post text cannot exceed '' @
                      show_nat THREADS_TEXT_MAX_LENGTH @ '' characters'')), w)
            else
              (case fetch_json net (threads_create_request config params) ''Threads'' w of
                 (Inl e, w1) \<Rightarrow> (Inl e, w1)
               | (Inr (res, data), w1) \<Rightarrow>
                   threads_finish net config is_image res (str_field data ''id'') w1)))"

section \<open>platforms/meta: the ad provisioning pipeline\<close>

datatype ad_status = ACTIVE | PAUSED

definition status_string :: "ad_status \<Rightarrow> string" where
  "status_string s = (case s of ACTIVE \<Rightarrow> ''ACTIVE'' | PAUSED \<Rightarrow> ''PAUSED'')"

text \<open>
  The parameters of \<open>runMetaAds\<close>. \<open>targetingSpec\<close> is the value of
  \<open>toMetaTargetingSpec(params.targeting)\<close>, which only travels into the ad-set request;
  \<open>dailyBudget\<close> is a whole number of currency units.
\<close>

record ads_params =
  ads_content :: string
  ads_imageUrl :: string
  targetingSpec :: json
  dailyBudget :: nat
  campaignName :: "string option"
  adSetName :: "string option"
  startImmediately :: "bool option"

record ads_result =
  campaignId :: string
  adSetId :: string
  adId :: string
  ads_status :: ad_status
  ads_error :: "string option"

text \<open>The requests of the five stages, each a form posted to the ad account.\<close>

definition ad_image_request :: "string \<Rightarrow> string \<Rightarrow> string \<Rightarrow> request" where
  "ad_image_request accountId accessToken imageUrl =
     post_form (META_BASE @ ''/'' @ accountId @ ''/adimages'')
       [(''url'', JStr imageUrl), (''access_token'', JStr accessToken)]"

definition campaign_request :: "string \<Rightarrow> string \<Rightarrow> string \<Rightarrow> ad_status \<Rightarrow> request" where
  "campaign_request accountId accessToken name st =
     post_form (META_BASE @ ''/'' @ accountId @ ''/campaigns'')
       [(''name'', JStr name), (''objective'', JStr ''OUTCOME_ENGAGEMENT''),
        (''status'', JStr (status_string st)), (''access_token'', JStr accessToken)]"

definition ad_set_request ::
  "string \<Rightarrow> string \<Rightarrow> string \<Rightarrow> string \<Rightarrow> nat \<Rightarrow> json \<Rightarrow> string \<Rightarrow> ad_status \<Rightarrow> request" where
  "ad_set_request accountId accessToken campaign name budget targeting page st =
     post_form (META_BASE @ ''/'' @ accountId @ ''/adsets'')
       [(''campaign_id'', JStr campaign), (''name'', JStr name),
        (''daily_budget'', JStr (show_nat budget)), (''targeting'', targeting),
        (''promoted_object'', JObj [(''page_id'', JStr page)]),
        (''status'', JStr (status_string st)), (''billing_event'', JStr ''IMPRESSIONS''),
        (''optimization_goal'', JStr ''REACH''), (''access_token'', JStr accessToken)]"

definition creative_request :: "string \<Rightarrow> string \<Rightarrow> string \<Rightarrow> string \<Rightarrow> string \<Rightarrow> request" where
  "creative_request accountId accessToken page imageHash msg =
     post_form (META_BASE @ ''/'' @ accountId @ ''/adcreatives'')
       [(''name'', JStr (''Creative '' @ take 50 msg)),
        (''object_story_spec'',
           JObj [(''page_id'', JStr page),
                 (''photo_data'', JObj [(''image_hash'', JStr imageHash), (''caption'', JStr msg)])]),
        (''access_token'', JStr accessToken)]"

definition ad_request ::
  "string \<Rightarrow> string \<Rightarrow> string \<Rightarrow> string \<Rightarrow> string \<Rightarrow> ad_status \<Rightarrow> request" where
  "ad_request accountId accessToken adSet creative name st =
     post_form (META_BASE @ ''/'' @ accountId @ ''/ads'')
       [(''adset_id'', JStr adSet), (''creative'', JObj [(''creative_id'', JStr creative)]),
        (''name'', JStr name), (''status'', JStr (status_string st)),
        (''access_token'', JStr accessToken)]"

text \<open>
  \<open>uploadMetaAdImage\<close>: the hash of the first image of the response, where
  \<open>Object.keys(data.images)[0]\<close> is the first pair of the object.
\<close>

definition first_image_hash :: "json \<Rightarrow> string" where
  "first_image_hash data =
     (case field data ''images'' of
        Some (JObj ((k, v) # rest)) \<Rightarrow>
          (if k \<noteq> [] then (case str_field v ''hash'' of Some h \<Rightarrow> h | None \<Rightarrow> []) else [])
      | _ \<Rightarrow> [])"

definition uploadMetaAdImage :: "network \<Rightarrow> string \<Rightarrow> string \<Rightarrow> string \<Rightarrow> string io" where
  "uploadMetaAdImage net accountId accessToken imageUrl w =
     (case fetch_json net (ad_image_request accountId accessToken imageUrl) ''Meta'' w of
        (Inl e, w') \<Rightarrow> (Inl e, w')
      | (Inr (res, data), w') \<Rightarrow>
          (if first_image_hash data = [] then (Inl (social_error ''Meta did not return image hash''), w')
           else (Inr (first_image_hash data), w')))"

text \<open>
  The stages that create a resource and read its id, \<open>createMetaCampaign\<close>,
  \<open>createMetaAdSet\<close>, \<open>createMetaAdCreative\<close> and
  \<open>createMetaAdRecordAndReturnId\<close>, differ in the request and in the message of the error
  for a missing id.
\<close>

definition create_with_id :: "network \<Rightarrow> request \<Rightarrow> string \<Rightarrow> string io" where
  "create_with_id net req missing w =
     (case fetch_json net req ''Meta'' w of
        (Inl e, w') \<Rightarrow> (Inl e, w')
      | (Inr (res, data), w') \<Rightarrow>
          (if \<not> truthy (str_field data ''id'') then (Inl (social_error missing), w')
           else (Inr (the (str_field data ''id'')), w')))"

definition createMetaCampaign ::
  "network \<Rightarrow> string \<Rightarrow> string \<Rightarrow> string \<Rightarrow> ad_status \<Rightarrow> string io" where
  "createMetaCampaign net accountId accessToken name st =
     create_with_id net (campaign_request accountId accessToken name st)
       ''Meta did not return campaign id''"

definition createMetaAdSet ::
  "network \<Rightarrow> string \<Rightarrow> string \<Rightarrow> string \<Rightarrow> string \<Rightarrow> nat \<Rightarrow> json \<Rightarrow> string \<Rightarrow> ad_status \<Rightarrow>
   string io" where
  "createMetaAdSet net accountId accessToken campaign name budget targeting page st =
     create_with_id net (ad_set_request accountId accessToken campaign name budget targeting page st)
       ''Meta did not return ad set id''"

definition createMetaAdCreative ::
  "network \<Rightarrow> string \<Rightarrow> string \<Rightarrow> string \<Rightarrow> string \<Rightarrow> string \<Rightarrow> string io" where
  "createMetaAdCreative net accountId accessToken page imageHash msg =
     create_with_id net (creative_request accountId accessToken page imageHash msg)
       ''Meta did not return creative id''"

definition createMetaAdRecordAndReturnId ::
  "network \<Rightarrow> string \<Rightarrow> string \<Rightarrow> string \<Rightarrow> string \<Rightarrow> string \<Rightarrow> ad_status \<Rightarrow> string io" where
  "createMetaAdRecordAndReturnId net accountId accessToken adSet creative name st =
     create_with_id net (ad_request accountId accessToken adSet creative name st)
       ''Meta did not return ad id''"

text \<open>\<open>createMetaAdRecord\<close>: the same request, with nothing read from the response.\<close>

definition createMetaAdRecord ::
  "network \<Rightarrow> string \<Rightarrow> string \<Rightarrow> string \<Rightarrow> string \<Rightarrow> string \<Rightarrow> ad_status \<Rightarrow> unit io" where
  "createMetaAdRecord net accountId accessToken adSet creative name st w =
     (case fetchWithTimeout net (ad_request accountId accessToken adSet creative name st) w of
        (Inl e, w') \<Rightarrow> (Inl e, w')
      | (Inr res, w') \<Rightarrow>
          (case throwIfNotOk res ''Meta'' of Some e \<Rightarrow> (Inl e, w') | None \<Rightarrow> (Inr (), w')))"

definition ad_account :: "string \<Rightarrow> string" where
  "ad_account adAccount = (if starts_with adAccount ''act_'' then adAccount else ''act_'' @ adAccount)"

text \<open>
  \<open>runMetaAds(config, params)\<close> of platforms/meta, which the client imports as
  \<open>metaRunMetaAds\<close>. The default names read the clock after the image upload.
\<close>

definition metaRunMetaAds :: "network \<Rightarrow> meta_config \<Rightarrow> ads_params \<Rightarrow> ads_result io" where
  "metaRunMetaAds net config params w =
     (if \<not> truthy (map_option trim (adAccountId config)) then
        (Inl (social_error ''Meta adAccountId is required for runMetaAds''), w)
      else if trim (pageAccessToken config) = [] then
        (Inl (social_error ''Meta pageAccessToken is required''), w)
      else
        (let accountId = ad_account (the (adAccountId config));
             token = pageAccessToken config;
             st = (if startImmediately params = Some True then ACTIVE else PAUSED)
         in case uploadMetaAdImage net accountId token (ads_imageUrl params) w of
              (Inl e, w1) \<Rightarrow> (Inl e, w1)
            | (Inr imageHash, w1) \<Rightarrow>
                (let cName = (case campaignName params of
                                Some n \<Rightarrow> n | None \<Rightarrow> ''Campaign '' @ show_nat (now w1));
                     sName = (case adSetName params of
                                Some n \<Rightarrow> n | None \<Rightarrow> ''AdSet '' @ show_nat (now w1))
                 in case createMetaCampaign net accountId token cName st w1 of
                      (Inl e, w2) \<Rightarrow> (Inl e, w2)
                    | (Inr campaign, w2) \<Rightarrow>
                        (case createMetaAdSet net accountId token campaign sName
                                (dailyBudget params) (targetingSpec params) (pageId config) st w2 of
                           (Inl e, w3) \<Rightarrow> (Inl e, w3)
                         | (Inr adSet, w3) \<Rightarrow>
                             (case createMetaAdCreative net accountId token (pageId config)
                                     imageHash (ads_content params) w3 of
                                (Inl e, w4) \<Rightarrow> (Inl e, w4)
                              | (Inr creative, w4) \<Rightarrow>
                                  (case createMetaAdRecordAndReturnId net accountId token adSet
                                          creative sName st w4 of
                                     (Inl e, w5) \<Rightarrow> (Inl e, w5)
                                   | (Inr ad, w5) \<Rightarrow>
                                       (Inr \<lparr>campaignId = campaign, adSetId = adSet, adId = ad,
                                             ads_status = st, ads_error = None\<rparr>, w5)))))))"

section \<open>client: runMetaAds\<close>

definition ads_failure :: "string \<Rightarrow> ads_result" where
  "ads_failure msg =
     \<lparr>campaignId = [], adSetId = [], adId = [], ads_status = PAUSED, ads_error = Some msg\<rparr>"

text \<open>\<open>SocialPostingClient.runMetaAds(params)\<close>: it returns a result and never throws.\<close>

definition runMetaAds :: "network \<Rightarrow> social_config \<Rightarrow> ads_params \<Rightarrow> world \<Rightarrow> ads_result \<times> world" where
  "runMetaAds net config params w =
     (case meta config of
        None \<Rightarrow> (ads_failure ''Meta config missing (pageAccessToken, pageId)'', w)
      | Some metaConfig \<Rightarrow>
          (if pageAccessToken metaConfig = [] \<or> pageId metaConfig = [] then
             (ads_failure ''Meta config missing (pageAccessToken, pageId)'', w)
           else if \<not> truthy (map_option trim (adAccountId metaConfig)) then
             (ads_failure ''Meta adAccountId is required for runMetaAds'', w)
           else
             (case metaRunMetaAds net metaConfig params w of
                (Inr result, w') \<Rightarrow> (result, w')
              | (Inl err, w') \<Rightarrow> (ads_failure (err_message err), w'))))"

section \<open>The adapters' reply and delete operations\<close>

definition LINKEDIN_BASE :: string where
  "LINKEDIN_BASE = ''https://api.linkedin.com/v2''"

definition linkedin_headers :: "string \<Rightarrow> (string \<times> string) list" where
  "linkedin_headers token =
     [(''X-Restli-Protocol-Version'', ''2.0.0''), (''Authorization'', ''Bearer '' @ token)]"

text \<open>\<open>replyToComment\<close> of platforms/meta (\<open>metaReplyToComment\<close> in the client).\<close>

definition metaReplyToComment :: "network \<Rightarrow> meta_config \<Rightarrow> string \<Rightarrow> string \<Rightarrow> string io" where
  "metaReplyToComment net config comment msg w =
     (if trim (pageAccessToken config) = [] then
        (Inl (social_error ''Meta pageAccessToken is required''), w)
      else
        (case fetch_json net
                (post_form (META_BASE @ ''/'' @ comment @ ''/comments'')
                   [(''message'', JStr msg), (''access_token'', JStr (pageAccessToken config))])
                ''Meta'' w of
           (Inl e, w') \<Rightarrow> (Inl e, w')
         | (Inr (res, data), w') \<Rightarrow>
             (if \<not> truthy (str_field data ''id'') then
                (Inl (social_error ''Meta did not return reply id''), w')
              else (Inr (the (str_field data ''id'')), w'))))"

text \<open>\<open>replyToComment\<close> of platforms/instagram (\<open>instagramReplyToComment\<close>).\<close>

definition instagramReplyToComment ::
  "network \<Rightarrow> meta_config \<Rightarrow> string \<Rightarrow> string \<Rightarrow> string io" where
  "instagramReplyToComment net config comment msg w =
     (if trim (pageAccessToken config) = [] then
        (Inl (social_error ''Meta pageAccessToken is required for Instagram''), w)
      else
        (case fetch_json net
                (post_form (META_BASE @ ''/'' @ comment @ ''/replies'')
                   [(''message'', JStr msg), (''access_token'', JStr (pageAccessToken config))])
                ''Instagram'' w of
           (Inl e, w') \<Rightarrow> (Inl e, w')
         | (Inr (res, data), w') \<Rightarrow>
             (if \<not> truthy (str_field data ''id'') then
                (Inl (social_error ''Instagram did not return reply id''), w')
              else (Inr (the (str_field data ''id'')), w'))))"

text \<open>
  \<open>replyToComment(config, postId, message, parentCommentId?)\<close> of platforms/linkedin
  (\<open>linkedInReplyToComment\<close>). The body is a JSON object, kept as its fields; the id of
  the new comment is read from the response headers, whose names are in lower case.
\<close>

definition linkedin_comment_request ::
  "linkedin_config \<Rightarrow> string \<Rightarrow> string \<Rightarrow> string option \<Rightarrow> request" where
  "linkedin_comment_request config post msg parentCommentId =
     \<lparr>http_method = ''POST'',
      url = LINKEDIN_BASE @ ''/socialActions/'' @ post @ ''/comments'',
      query = [],
      form = (case (case personUrn config of Some p \<Rightarrow> Some p | None \<Rightarrow> organizationUrn config) of
                Some a \<Rightarrow> [(''actor'', JStr a)] | None \<Rightarrow> []) @
             [(''message'', JObj [(''text'', JStr msg)]), (''object'', JStr post)] @
             (if truthy parentCommentId then [(''parentComment'', JStr (the parentCommentId))]
              else []),
      req_headers = (''Content-Type'', ''application/json'') #
                    linkedin_headers (linkedin_accessToken config)\<rparr>"

definition linkedInReplyToComment ::
  "network \<Rightarrow> linkedin_config \<Rightarrow> string \<Rightarrow> string \<Rightarrow> string option \<Rightarrow> string io" where
  "linkedInReplyToComment net config post msg parentCommentId w =
     (if trim (linkedin_accessToken config) = [] then
        (Inl (social_error ''LinkedIn accessToken is required''), w)
      else
        (case fetchWithTimeout net (linkedin_comment_request config post msg parentCommentId) w of
           (Inl e, w') \<Rightarrow> (Inl e, w')
         | (Inr res, w') \<Rightarrow>
             (case throwIfNotOk res ''LinkedIn'' of
                Some e \<Rightarrow> (Inl e, w')
              | None \<Rightarrow>
                  (let idHeader = (case map_of (resp_headers res) ''x-restli-id'' of
                                     Some h \<Rightarrow> Some h
                                   | None \<Rightarrow> map_of (resp_headers res) ''id'')
                   in if \<not> truthy idHeader then
                        (Inl (social_error ''LinkedIn did not return comment id''), w')
                      else (Inr (the idHeader), w')))))"

text \<open>\<open>replyToPost\<close> of platforms/threads (\<open>threadsReplyToPost\<close>).\<close>

definition threadsReplyToPost ::
  "network \<Rightarrow> threads_config \<Rightarrow> string \<Rightarrow> string \<Rightarrow> string io" where
  "threadsReplyToPost net config post msg w =
     (if trim (threads_userId config) = [] \<or> trim (threads_accessToken config) = [] then
        (Inl (social_error ''Threads userId and accessToken are required''), w)
      else if length (trim msg) > THREADS_TEXT_MAX_LENGTH then
        (Inl (social_error (''Threads reply cannot exceed '' @ show_nat THREADS_TEXT_MAX_LENGTH @
                '' characters'')), w)
      else
        (case fetch_json net
                (post_form (THREADS_BASE @ ''/'' @ threads_userId config @ ''/threads'')
                   [(''access_token'', JStr (threads_accessToken config)),
                    (''media_type'', JStr ''TEXT''), (''text'', JStr (trim msg)),
                    (''reply_to_id'', JStr post), (''auto_publish_text'', JStr ''true'')])
                ''Threads'' w of
           (Inl e, w') \<Rightarrow> (Inl e, w')
         | (Inr (res, data), w') \<Rightarrow>
             (if \<not> truthy (str_field data ''id'') then
                (Inl (social_error ''Threads did not return reply id''), w')
              else (Inr (the (str_field data ''id'')), w'))))"

text \<open>
  The \<open>deletePost\<close> functions of the four adapters. Each of the three that reach the
  vendor sends one \<open>DELETE\<close> and throws unless the response is ok; Instagram's takes its
  arguments and throws.
\<close>

definition delete_call :: "network \<Rightarrow> request \<Rightarrow> string \<Rightarrow> unit io" where
  "delete_call net req name w =
     (case fetchWithTimeout net req w of
        (Inl e, w') \<Rightarrow> (Inl e, w')
      | (Inr res, w') \<Rightarrow>
          (case throwIfNotOk res name of Some e \<Rightarrow> (Inl e, w') | None \<Rightarrow> (Inr (), w')))"

definition metaDeletePost :: "network \<Rightarrow> meta_config \<Rightarrow> string \<Rightarrow> unit io" where
  "metaDeletePost net config post w =
     (if trim (pageAccessToken config) = [] then
        (Inl (social_error ''Meta pageAccessToken is required''), w)
      else delete_call net
             \<lparr>http_method = ''DELETE'', url = META_BASE @ ''/'' @ post,
              query = [(''access_token'', pageAccessToken config)], form = [], req_headers = []\<rparr>
             ''Meta'' w)"

definition instagramDeletePost :: "meta_config option \<Rightarrow> string \<Rightarrow> thrown + unit" where
  "instagramDeletePost config post =
     Inl (social_error ''Instagram does not support deleting posts via API'')"

definition linkedInDeletePost :: "network \<Rightarrow> linkedin_config \<Rightarrow> string \<Rightarrow> unit io" where
  "linkedInDeletePost net config post w =
     (if trim (linkedin_accessToken config) = [] then
        (Inl (social_error ''LinkedIn accessToken is required''), w)
      else delete_call net
             \<lparr>http_method = ''DELETE'', url = LINKEDIN_BASE @ ''/ugcPosts/'' @ post,
              query = [], form = [], req_headers = linkedin_headers (linkedin_accessToken config)\<rparr>
             ''LinkedIn'' w)"

definition threadsDeletePost :: "network \<Rightarrow> threads_config \<Rightarrow> string \<Rightarrow> unit io" where
  "threadsDeletePost net config post w =
     (if trim (threads_accessToken config) = [] then
        (Inl (social_error ''Threads accessToken is required''), w)
      else delete_call net
             \<lparr>http_method = ''DELETE'', url = THREADS_BASE @ ''/'' @ post,
              query = [(''access_token'', threads_accessToken config)], form = [], req_headers = []\<rparr>
             ''Threads'' w)"

section \<open>client: deletePost\<close>

record delete_params =
  del_channel :: platform_code
  del_postId :: string

record delete_result =
  success :: bool
  del_error :: "string option"

definition delete_outcome :: "(thrown + unit) \<times> world \<Rightarrow> delete_result \<times> world" where
  "delete_outcome r =
     (case r of
        (Inr u, w') \<Rightarrow> (\<lparr>success = True, del_error = None\<rparr>, w')
      | (Inl err, w') \<Rightarrow> (\<lparr>success = False, del_error = Some (err_message err)\<rparr>, w'))"

text \<open>
  \<open>SocialPostingClient.deletePost(params)\<close>. Whatever an adapter throws is caught and
  returned as a failure; for Instagram the inner \<open>catch\<close> returns, and were nothing
  thrown the code would fall through to \<open>Unknown channel\<close>.
\<close>

definition deletePost ::
  "network \<Rightarrow> social_config \<Rightarrow> delete_params \<Rightarrow> world \<Rightarrow> delete_result \<times> world" where
  "deletePost net config params w =
     (case del_channel params of
        CodeF \<Rightarrow>
          (case meta config of
             None \<Rightarrow> (\<lparr>success = False, del_error = Some ''Meta config missing''\<rparr>, w)
           | Some metaConfig \<Rightarrow>
               if pageAccessToken metaConfig = [] then
                 (\<lparr>success = False, del_error = Some ''Meta config missing''\<rparr>, w)
               else delete_outcome (metaDeletePost net metaConfig (del_postId params) w))
      | CodeI \<Rightarrow>
          (case instagramDeletePost (meta config) (del_postId params) of
             Inl e \<Rightarrow> (\<lparr>success = False, del_error = Some (err_message e)\<rparr>, w)
           | Inr u \<Rightarrow> (\<lparr>success = False, del_error = Some ''Unknown channel''\<rparr>, w))
      | CodeL \<Rightarrow>
          (case linkedin config of
             None \<Rightarrow> (\<lparr>success = False, del_error = Some ''LinkedIn config missing''\<rparr>, w)
           | Some linkedInConfig \<Rightarrow>
               if linkedin_accessToken linkedInConfig = [] then
                 (\<lparr>success = False, del_error = Some ''LinkedIn config missing''\<rparr>, w)
               else delete_outcome (linkedInDeletePost net linkedInConfig (del_postId params) w))
      | CodeT \<Rightarrow>
          (case threads config of
             None \<Rightarrow> (\<lparr>success = False, del_error = Some ''Threads config missing''\<rparr>, w)
           | Some threadsConfig \<Rightarrow>
               if threads_accessToken threadsConfig = [] then
                 (\<lparr>success = False, del_error = Some ''Threads config missing''\<rparr>, w)
               else delete_outcome (threadsDeletePost net threadsConfig (del_postId params) w)))"

section \<open>client: replyToComments\<close>

record reply_request =
  channel :: platform_code
  message :: string
  commentId :: "string option"
  reply_postId :: "string option"

record reply_result =
  reply_channel :: string
  reply_code :: platform_code
  reply_commentId :: "string option"
  replyId :: "string option"

record reply_issue =
  issue_channel :: string
  issue_code :: platform_code
  issue_error :: string

record reply_batch =
  results :: "reply_result list"
  reply_failed :: "reply_issue list"
  skipped :: "reply_issue list"
  reply_world :: world

record reply_to_comments_result =
  batch_results :: "reply_result list"
  batch_failed :: "reply_issue list"
  batch_skipped :: "reply_issue list"
  batch_status :: batch_status

definition skip :: "reply_request \<Rightarrow> string \<Rightarrow> reply_batch \<Rightarrow> reply_batch" where
  "skip req msg st =
     st\<lparr>skipped := skipped st @
           [\<lparr>issue_channel = CODE_TO_PLATFORM_LABEL (channel req), issue_code = channel req,
             issue_error = msg\<rparr>]\<rparr>"

text \<open>
  What follows an attempt: the reply id is pushed to \<open>results\<close> (with the request's
  comment id when \<open>with_comment\<close>), or the \<open>catch\<close> pushes the error to \<open>failed\<close>.
\<close>

definition attempted ::
  "reply_request \<Rightarrow> bool \<Rightarrow> reply_batch \<Rightarrow> (thrown + string) \<times> world \<Rightarrow> reply_batch" where
  "attempted req with_comment st r =
     (case r of
        (Inr rid, w') \<Rightarrow>
          st\<lparr>results := results st @
                [\<lparr>reply_channel = CODE_TO_PLATFORM_LABEL (channel req), reply_code = channel req,
                  reply_commentId = (if with_comment then commentId req else None),
                  replyId = Some rid\<rparr>],
             reply_world := w'\<rparr>
      | (Inl err, w') \<Rightarrow>
          st\<lparr>reply_failed := reply_failed st @
                [\<lparr>issue_channel = CODE_TO_PLATFORM_LABEL (channel req), issue_code = channel req,
                  issue_error = err_message err\<rparr>],
             reply_world := w'\<rparr>)"

text \<open>The body of the inner loop, for one request.\<close>

definition reply_one :: "network \<Rightarrow> social_config \<Rightarrow> reply_batch \<Rightarrow> reply_request \<Rightarrow> reply_batch" where
  "reply_one net config st req =
     (case channel req of
        CodeF \<Rightarrow>
          (if (case meta config of None \<Rightarrow> True | Some mc \<Rightarrow> pageAccessToken mc = []) \<or>
              \<not> truthy (commentId req)
           then skip req ''Meta config or commentId missing'' st
           else attempted req True st
                  (metaReplyToComment net (the (meta config)) (the (commentId req)) (message req)
                     (reply_world st)))
      | CodeI \<Rightarrow>
          (if (case meta config of None \<Rightarrow> True | Some mc \<Rightarrow> pageAccessToken mc = []) \<or>
              \<not> truthy (commentId req)
           then skip req ''Meta Instagram config or commentId missing'' st
           else attempted req True st
                  (instagramReplyToComment net (the (meta config)) (the (commentId req))
                     (message req) (reply_world st)))
      | CodeL \<Rightarrow>
          (if (case linkedin config of None \<Rightarrow> True | Some lc \<Rightarrow> linkedin_accessToken lc = []) \<or>
              \<not> truthy (reply_postId req)
           then skip req ''LinkedIn config or postId missing'' st
           else attempted req True st
                  (linkedInReplyToComment net (the (linkedin config)) (the (reply_postId req))
                     (message req) (commentId req) (reply_world st)))
      | CodeT \<Rightarrow>
          (if (case threads config of
                 None \<Rightarrow> True
               | Some tc \<Rightarrow> threads_userId tc = [] \<or> threads_accessToken tc = []) \<or>
              \<not> truthy (reply_postId req)
           then skip req ''Threads config or postId missing'' st
           else attempted req False st
                  (threadsReplyToPost net (the (threads config)) (the (reply_postId req))
                     (message req) (reply_world st))))"

text \<open>\<open>Math.min(50, Math.max(1, options?.batchLimit ?? 10))\<close>\<close>

definition batch_limit :: "int option \<Rightarrow> nat" where
  "batch_limit opt = nat (min 50 (max 1 (case opt of None \<Rightarrow> 10 | Some b \<Rightarrow> b)))"

lemma batch_limit_pos: "0 < batch_limit opt"
  by (simp add: batch_limit_def)

text \<open>
  The outer loop, \<open>for (let i = 0; i < replies.length; i += batchLimit)\<close>, over the
  chunk \<open>replies.slice(i, i + batchLimit)\<close>.
\<close>

function reply_chunks ::
  "network \<Rightarrow> social_config \<Rightarrow> int option \<Rightarrow> reply_request list \<Rightarrow> nat \<Rightarrow> reply_batch \<Rightarrow>
   reply_batch" where
  "reply_chunks net config opt replies i st =
     (if i < length replies then
        reply_chunks net config opt replies (i + batch_limit opt)
          (foldl (reply_one net config) st (take (batch_limit opt) (drop i replies)))
      else st)"
  by pat_completeness auto
termination reply_chunks
  by (relation "measure (\<lambda>(net, config, opt, replies, i, st). length replies - i)")
     (use batch_limit_pos in \<open>auto simp: diff_less_mono2\<close>)

declare reply_chunks.simps [simp del]

definition replyToComments ::
  "network \<Rightarrow> social_config \<Rightarrow> reply_request list \<Rightarrow> int option \<Rightarrow> world \<Rightarrow>
   reply_to_comments_result \<times> world" where
  "replyToComments net config replies batchLimit w =
     (let st = reply_chunks net config batchLimit replies 0
                 \<lparr>results = [], reply_failed = [], skipped = [], reply_world = w\<rparr>
      in (\<lparr>batch_results = results st, batch_failed = reply_failed st, batch_skipped = skipped st,
           batch_status = (if length (reply_failed st) = 0 then Full
                           else if length (results st) = 0 then Failed else Partial)\<rparr>,
          reply_world st))"

section \<open>utils: hashtags and sanitizing\<close>

datatype hashtags = TagArray "string list" | TagString string

text \<open>\<open>t.replace(/^#/, "")\<close>\<close>

fun strip_hash :: "string \<Rightarrow> string" where
  "strip_hash [] = []"
| "strip_hash (c # cs) = (if c = CHR ''#'' then cs else c # cs)"

definition is_separator :: "char \<Rightarrow> bool" where
  "is_separator c = (is_space c \<or> c = CHR '','')"

text \<open>
  \<open>s.split(/[\s,]+/)\<close>: the pieces between the runs of separators, an empty piece
  before a leading run and after a trailing one included. \<open>cur\<close> is the piece being
  read, reversed.
\<close>

function split_tags :: "string \<Rightarrow> string \<Rightarrow> string list" where
  "split_tags cur [] = [rev cur]"
| "split_tags cur (c # cs) =
     (if is_separator c then rev cur # split_tags [] (dropWhile is_separator cs)
      else split_tags (c # cur) cs)"
  by pat_completeness auto
termination split_tags
  by (relation "measure (\<lambda>(cur, s). length s)")
     (auto simp: less_Suc_eq_le length_dropWhile_le)

definition normalizeHashtags :: "hashtags option \<Rightarrow> string list" where
  "normalizeHashtags tags =
     (case tags of
        None \<Rightarrow> []
      | Some (TagArray ts) \<Rightarrow>
          filter (\<lambda>t. t \<noteq> []) (map (\<lambda>t. if trim t \<noteq> [] then strip_hash (trim t) else []) ts)
      | Some (TagString s) \<Rightarrow>
          filter (\<lambda>t. t \<noteq> []) (map (\<lambda>t. strip_hash (trim t)) (split_tags [] s)))"

text \<open>\<open>parts.join(" ")\<close>\<close>

fun join_spaces :: "string list \<Rightarrow> string" where
  "join_spaces [] = []"
| "join_spaces [p] = p"
| "join_spaces (p # q # ps) = p @ '' '' @ join_spaces (q # ps)"

definition appendHashtags :: "string \<Rightarrow> hashtags option \<Rightarrow> string" where
  "appendHashtags content_text tags =
     (let parts = normalizeHashtags tags
      in if parts = [] then content_text
         else trim (content_text @ [CHR 0x0A] @
                    join_spaces (map (\<lambda>p. if starts_with p ''#'' then p else CHR ''#'' # p) parts)))"

fun replace_crlf :: "string \<Rightarrow> string" where
  "replace_crlf (a # b # cs) =
     (if a = CHR 0x0D \<and> b = CHR 0x0A then CHR 0x0A # replace_crlf cs
      else a # replace_crlf (b # cs))"
| "replace_crlf cs = cs"

definition replace_cr :: "string \<Rightarrow> string" where
  "replace_cr s = map (\<lambda>c. if c = CHR 0x0D then CHR 0x0A else c) s"

text \<open>
  \<open>sanitizeContent\<close>. The replacement character U+FFFD is not a code unit below 256,
  so its removal changes nothing on the texts of this model.
\<close>

definition sanitizeContent :: "string \<Rightarrow> string" where
  "sanitizeContent s = trim (replace_cr (replace_crlf s))"

section \<open>platforms/meta: publishing a photo, with an optional ad\<close>

record meta_post_params =
  meta_content :: string
  meta_imageUrl :: string
  meta_targeting :: "json option"
  meta_createAd :: "bool option"
  meta_dailyBudget :: "nat option"
  meta_campaignName :: "string option"
  meta_adSetName :: "string option"

text \<open>
  \<open>createMetaAd\<close>, called by \<open>postToMeta\<close> with status \<open>PAUSED\<close>, the page of the
  configuration and the targeting and budget of the post.
\<close>

definition createMetaAd ::
  "network \<Rightarrow> meta_config \<Rightarrow> meta_post_params \<Rightarrow> json \<Rightarrow> nat \<Rightarrow> unit io" where
  "createMetaAd net config params targeting budget w =
     (let accountId = ad_account (the (adAccountId config));
          token = pageAccessToken config
      in case uploadMetaAdImage net accountId token (meta_imageUrl params) w of
           (Inl e, w1) \<Rightarrow> (Inl e, w1)
         | (Inr imageHash, w1) \<Rightarrow>
             (let cName = (case meta_campaignName params of
                             Some n \<Rightarrow> n | None \<Rightarrow> ''Campaign '' @ show_nat (now w1));
                  sName = (case meta_adSetName params of
                             Some n \<Rightarrow> n | None \<Rightarrow> ''AdSet '' @ show_nat (now w1))
              in case createMetaCampaign net accountId token cName PAUSED w1 of
                   (Inl e, w2) \<Rightarrow> (Inl e, w2)
                 | (Inr campaign, w2) \<Rightarrow>
                     (case createMetaAdSet net accountId token campaign sName budget targeting
                             (pageId config) PAUSED w2 of
                        (Inl e, w3) \<Rightarrow> (Inl e, w3)
                      | (Inr adSet, w3) \<Rightarrow>
                          (case createMetaAdCreative net accountId token (pageId config) imageHash
                                  (meta_content params) w3 of
                             (Inl e, w4) \<Rightarrow> (Inl e, w4)
                           | (Inr creative, w4) \<Rightarrow>
                               createMetaAdRecord net accountId token adSet creative sName
                                 PAUSED w4))))"

text \<open>\<open>postToMeta(config, params)\<close>\<close>

definition postToMeta :: "network \<Rightarrow> meta_config \<Rightarrow> meta_post_params \<Rightarrow> post_result io" where
  "postToMeta net config params w =
     (if trim (pageAccessToken config) = [] then
        (Inl (social_error ''Meta pageAccessToken is required''), w)
      else if trim (pageId config) = [] then
        (Inl (social_error ''Meta pageId is required''), w)
      else
        (case fetch_json net
                (post_form (META_BASE @ ''/'' @ pageId config @ ''/photos'')
                   [(''url'', JStr (meta_imageUrl params)), (''caption'', JStr (meta_content params)),
                    (''access_token'', JStr (pageAccessToken config))])
                ''Meta'' w of
           (Inl e, w1) \<Rightarrow> (Inl e, w1)
         | (Inr (res, data), w1) \<Rightarrow>
             (let post = (case str_field data ''post_id'' of
                            Some p \<Rightarrow> p
                          | None \<Rightarrow> (case str_field data ''id'' of Some i \<Rightarrow> i | None \<Rightarrow> []))
              in if post = [] then
                   (Inl (SocialPostingError ''Meta did not return post id'' None
                           (Some (take 200 (body res)))), w1)
                 else
                   (let (link, w2) =
                          fetch_permalink net
                            (get_fields (META_BASE @ ''/'' @ post) ''permalink_url''
                               (pageAccessToken config))
                            ''Meta permalink'' ''permalink_url''
                            (Some (''https://www.facebook.com/'' @ pageId config @ ''/posts/'' @ post))
                            w1
                    in if meta_createAd params = Some True \<and> meta_targeting params \<noteq> None \<and>
                          meta_dailyBudget params \<noteq> None \<and> truthy (adAccountId config)
                       then
                         (case createMetaAd net config params (the (meta_targeting params))
                                 (the (meta_dailyBudget params)) w2 of
                            (Inl e, w3) \<Rightarrow> (Inl e, w3)
                          | (Inr u, w3) \<Rightarrow>
                              (Inr \<lparr>post_postId = post, post_permalink = link\<rparr>, w3))
                       else (Inr \<lparr>post_postId = post, post_permalink = link\<rparr>, w2)))))"

section \<open>client: crossPost\<close>

datatype post_as = Person | Organization

record cross_post_params =
  postOn :: "platform_code list"
  param_content :: string
  imageUrl :: "string option"
  imageBuffer :: "nat list option"
  hashtags :: "hashtags option"
  platformContent :: "platform_code \<Rightarrow> string option"
  contentSuffix :: "string option"
  targeting :: "json option"
  createAd :: "bool option"
  param_dailyBudget :: "nat option"
  param_campaignName :: "string option"
  param_adSetName :: "string option"
  threadsUserId :: "string option"
  threadsAccessToken :: "string option"
  param_altText :: "string option"
  param_linkAttachment :: "string option"
  param_retries :: "int option"
  param_retryDelayMs :: "int option"
  linkedinPostAs :: "post_as option"

text \<open>
  \<open>SocialPostingClientOptions\<close>, with the two progress callbacks beside the others. The
  injected functions are the caller's code: each answers from the world it is called in
  and may throw. \<open>uploadImage\<close> is given the buffer (its other two arguments are the
  constants \<open>"image/png"\<close> and \<open>{}\<close>); a progress callback returns what it threw, if
  anything.
\<close>

record client_options =
  uploadImage :: "(world \<Rightarrow> nat list \<Rightarrow> thrown + string) option"
  contentAdapter :: "(world \<Rightarrow> string \<Rightarrow> string \<Rightarrow> platform_code \<Rightarrow> thrown + string) option"
  option_contentSuffix :: "string option"
  onPlatformStart :: "(world \<Rightarrow> string \<Rightarrow> platform_code \<Rightarrow> thrown option) option"
  onPlatformDone ::
    "(world \<Rightarrow> string \<Rightarrow> platform_code \<Rightarrow> platform_result \<Rightarrow> thrown option) option"

text \<open>
  \<open>postToLinkedIn(config, { content, imageUrl })\<close> is a parameter of the model: any
  function of the configuration, the content, the image URL and the world. What is
  proved holds for every such function.
\<close>

type_synonym linkedin_adapter = "linkedin_config \<Rightarrow> string \<Rightarrow> string option \<Rightarrow> post_result io"

text \<open>The variables of the loop: the two lists, \<open>maxAttempt\<close>, and the world.\<close>

record cross_state =
  st_results :: "platform_result list"
  st_failed :: "failed_entry list"
  st_maxAttempt :: nat
  st_world :: world

text \<open>\<open>this.options.progress?.onPlatformStart?.(label, code)\<close> and its companion.\<close>

definition notify_start :: "client_options \<Rightarrow> platform_code \<Rightarrow> world \<Rightarrow> thrown option \<times> world" where
  "notify_start options c w =
     (case onPlatformStart options of
        None \<Rightarrow> (None, w)
      | Some cb \<Rightarrow> (cb w (CODE_TO_PLATFORM_LABEL c) c, w\<lparr>trace := trace w @ [PlatformStart c]\<rparr>))"

definition notify_done ::
  "client_options \<Rightarrow> platform_code \<Rightarrow> platform_result \<Rightarrow> world \<Rightarrow> thrown option \<times> world" where
  "notify_done options c pr w =
     (case onPlatformDone options of
        None \<Rightarrow> (None, w)
      | Some cb \<Rightarrow>
          (cb w (CODE_TO_PLATFORM_LABEL c) c pr, w\<lparr>trace := trace w @ [PlatformDone c pr]\<rparr>))"

text \<open>
  The three statements with which the loop records a failure: \<open>failed.push\<close>,
  \<open>platformResults.push(pr)\<close> and the done callback. The first component of the
  result is what the callback threw.
\<close>

definition push_failure ::
  "client_options \<Rightarrow> platform_code \<Rightarrow> string \<Rightarrow> string \<Rightarrow> string \<Rightarrow> cross_state \<Rightarrow>
   thrown option \<times> cross_state" where
  "push_failure options c content_text failed_msg result_msg st =
     (let label = CODE_TO_PLATFORM_LABEL c;
          pr = \<lparr>platform = label, code = c, postId = None, error = Some result_msg,
                content = Some content_text, permalink = None, postedAt = None, attempt = None\<rparr>;
          (thrown, w') = notify_done options c pr (st_world st)
      in (thrown,
          st\<lparr>st_failed := st_failed st @ [\<lparr>failed_platform = label, failed_error = failed_msg\<rparr>],
             st_results := st_results st @ [pr], st_world := w'\<rparr>))"

text \<open>
  The statements the four branches share once the configuration is there. \<open>doPost\<close>
  wraps the adapter's result into a \<open>PlatformResult\<close>; \<open>withRetries\<close> runs it when
  \<open>retries > 0\<close>, else it runs once with attempt 1; the result with its attempt is
  pushed and reported. The first component of \<open>run_adapter\<close> is what was thrown inside
  the \<open>try\<close> block.
\<close>

definition doPost :: "platform_code \<Rightarrow> string \<Rightarrow> post_result io \<Rightarrow> platform_result io" where
  "doPost c content_text adapter w =
     (case adapter w of
        (Inl e, w') \<Rightarrow> (Inl e, w')
      | (Inr result, w') \<Rightarrow>
          (Inr \<lparr>platform = CODE_TO_PLATFORM_LABEL c, code = c, postId = Some (post_postId result),
                error = None, content = Some content_text, permalink = post_permalink result,
                postedAt = Some (now w'), attempt = None\<rparr>, w'))"

definition post_with_retries ::
  "cross_post_params \<Rightarrow> platform_result io \<Rightarrow> (platform_result \<times> nat) io" where
  "post_with_retries params post w =
     (let n = max 0 (case param_retries params of None \<Rightarrow> 0 | Some r \<Rightarrow> r);
          delayMs = max 0 (case param_retryDelayMs params of None \<Rightarrow> 1000 | Some d \<Rightarrow> d)
      in if n > 0 then withRetries sleep post \<lparr>retries = Some n, retryDelayMs = Some delayMs\<rparr> w
         else (case post w of
                 (Inl e, w') \<Rightarrow> (Inl e, w')
               | (Inr pr, w') \<Rightarrow> (Inr (pr, 1), w')))"

definition run_adapter ::
  "client_options \<Rightarrow> cross_post_params \<Rightarrow> platform_code \<Rightarrow> string \<Rightarrow> post_result io \<Rightarrow>
   cross_state \<Rightarrow> thrown option \<times> cross_state" where
  "run_adapter options params c content_text adapter st =
     (case post_with_retries params (doPost c content_text adapter) (st_world st) of
        (Inl e, w') \<Rightarrow> (Some e, st\<lparr>st_world := w'\<rparr>)
      | (Inr (pr, k), w') \<Rightarrow>
          (let withAttempt = pr\<lparr>attempt := Some k\<rparr>;
               (thrown, w2) = notify_done options c withAttempt w'
           in (thrown,
               st\<lparr>st_maxAttempt := max (st_maxAttempt st) k,
                  st_results := st_results st @ [withAttempt], st_world := w2\<rparr>)))"

text \<open>
  The content sent to one platform: the override or the base content with its suffix,
  the adapter's version when there is an adapter and a non-empty content, the hashtags,
  the sanitizing. The adapter is called outside the \<open>try\<close> block: what it throws
  leaves \<open>crossPost\<close>.
\<close>

definition prepare_content ::
  "client_options \<Rightarrow> cross_post_params \<Rightarrow> platform_code \<Rightarrow> string io" where
  "prepare_content options params c w =
     (let suffix = (case contentSuffix params of
                      Some s \<Rightarrow> s
                    | None \<Rightarrow> (case option_contentSuffix options of Some s \<Rightarrow> s | None \<Rightarrow> []));
          baseContent = (if suffix \<noteq> [] \<and> param_content params \<noteq> []
                         then trim (param_content params @ [CHR 0x0A] @ suffix)
                         else param_content params);
          content0 = (case platformContent params c of Some t \<Rightarrow> trim t | None \<Rightarrow> baseContent)
      in case (case contentAdapter options of
                 None \<Rightarrow> (Inr content0, w)
               | Some adapt \<Rightarrow>
                   if content0 \<noteq> [] then
                     (case adapt w content0 (CODE_TO_PLATFORM_LABEL c) c of
                        Inl e \<Rightarrow> Inl e
                      | Inr t \<Rightarrow> Inr (trim t),
                      w\<lparr>trace := trace w @ [ContentAdapter c]\<rparr>)
                   else (Inr content0, w)) of
           (Inl e, w') \<Rightarrow> (Inl e, w')
         | (Inr content1, w') \<Rightarrow>
             (Inr (sanitizeContent (appendHashtags content1 (hashtags params))), w'))"

text \<open>
  The body of the \<open>try\<close> block for one platform. The first component of the result is
  what was thrown inside the block; the lists keep what was pushed before the throw.
\<close>

definition attempt_platform ::
  "network \<Rightarrow> linkedin_adapter \<Rightarrow> social_config \<Rightarrow> client_options \<Rightarrow> cross_post_params \<Rightarrow>
   string option \<Rightarrow> platform_code \<Rightarrow> string \<Rightarrow> cross_state \<Rightarrow> thrown option \<times> cross_state" where
  "attempt_platform net li config options params img c content_text st =
     (case c of
        CodeF \<Rightarrow>
          (if (case meta config of None \<Rightarrow> True
               | Some mc \<Rightarrow> pageAccessToken mc = [] \<or> pageId mc = []) then
             push_failure options c content_text ''Meta config missing (pageAccessToken, pageId)''
               ''Meta config missing (pageAccessToken, pageId)'' st
           else if \<not> truthy img then
             push_failure options c content_text
               ''Facebook requires imageUrl (or imageBuffer + uploadImage)''
               ''Facebook requires imageUrl (or imageBuffer + uploadImage)'' st
           else
             run_adapter options params c content_text
               (postToMeta net (the (meta config))
                  \<lparr>meta_content = content_text, meta_imageUrl = the img,
                   meta_targeting = targeting params, meta_createAd = createAd params,
                   meta_dailyBudget = param_dailyBudget params,
                   meta_campaignName = param_campaignName params,
                   meta_adSetName = param_adSetName params\<rparr>) st)
      | CodeI \<Rightarrow>
          (if (case meta config of None \<Rightarrow> True
               | Some mc \<Rightarrow> pageAccessToken mc = [] \<or> \<not> truthy (instagramBusinessAccountId mc))
           then
             push_failure options c content_text
               ''Meta config missing (pageAccessToken, instagramBusinessAccountId)''
               ''Meta config missing (pageAccessToken, instagramBusinessAccountId)'' st
           else if \<not> truthy img then
             push_failure options c content_text
               ''Instagram requires imageUrl (or imageBuffer + uploadImage)''
               ''Instagram requires imageUrl (or imageBuffer + uploadImage)'' st
           else
             run_adapter options params c content_text
               (postToInstagram net (the (meta config)) content_text (the img)) st)
      | CodeL \<Rightarrow>
          (if (case linkedin config of None \<Rightarrow> True | Some lc \<Rightarrow> linkedin_accessToken lc = []) then
             push_failure options c content_text ''LinkedIn config missing (accessToken)''
               ''LinkedIn config missing (accessToken)'' st
           else
             (let lc = the (linkedin config);
                  postAs = (case linkedinPostAs params of None \<Rightarrow> Person | Some p \<Rightarrow> p);
                  authorUrn =
                    (if postAs = Organization
                     then (case organizationUrn lc of
                             Some u \<Rightarrow> Some (trim u) | None \<Rightarrow> map_option trim (personUrn lc))
                     else (case personUrn lc of
                             Some u \<Rightarrow> Some (trim u) | None \<Rightarrow> map_option trim (organizationUrn lc)))
              in if \<not> truthy authorUrn then
                   push_failure options c content_text
                     (''LinkedIn config missing (personUrn or organizationUrn); linkedinPostAs='' @
                      (if postAs = Organization then ''organization'' else ''person''))
                     ''LinkedIn config missing (personUrn or organizationUrn)'' st
                 else
                   run_adapter options params c content_text
                     (li (lc\<lparr>personUrn := (if postAs = Person then authorUrn else None),
                            organizationUrn := (if postAs = Organization then authorUrn else None)\<rparr>)
                        content_text img) st))
      | CodeT \<Rightarrow>
          (let uid = (case threadsUserId params of
                        Some u \<Rightarrow> Some (trim u)
                      | None \<Rightarrow> map_option (\<lambda>tc. trim (threads_userId tc)) (threads config));
               tok = (case threadsAccessToken params of
                        Some t \<Rightarrow> Some (trim t)
                      | None \<Rightarrow> map_option (\<lambda>tc. trim (threads_accessToken tc)) (threads config))
           in if \<not> truthy uid \<or> \<not> truthy tok then
                push_failure options c content_text
                  ''Threads config missing (userId, accessToken) or pass in params''
                  ''Threads config missing (userId, accessToken)'' st
              else
                run_adapter options params c content_text
                  (postToThreads net \<lparr>threads_userId = the uid, threads_accessToken = the tok\<rparr>
                     \<lparr>threads_content = content_text, threads_imageUrl = img,
                      altText = param_altText params,
                      linkAttachment = param_linkAttachment params\<rparr>) st))"

text \<open>
  One turn of the loop over \<open>params.postOn\<close>: the content, the start callback, the
  \<open>try\<close> block, and the \<open>catch\<close> block for what the \<open>try\<close> block threw. The first
  component of the result is what leaves \<open>crossPost\<close> uncaught.
\<close>

definition post_one ::
  "network \<Rightarrow> linkedin_adapter \<Rightarrow> social_config \<Rightarrow> client_options \<Rightarrow> cross_post_params \<Rightarrow>
   string option \<Rightarrow> platform_code \<Rightarrow> cross_state \<Rightarrow> thrown option \<times> cross_state" where
  "post_one net li config options params img c st =
     (case prepare_content options params c (st_world st) of
        (Inl e, w1) \<Rightarrow> (Some e, st\<lparr>st_world := w1\<rparr>)
      | (Inr content_text, w1) \<Rightarrow>
          (case notify_start options c w1 of
             (Some e, w2) \<Rightarrow> (Some e, st\<lparr>st_world := w2\<rparr>)
           | (None, w2) \<Rightarrow>
               (case attempt_platform net li config options params img c content_text
                       (st\<lparr>st_world := w2\<rparr>) of
                  (None, st') \<Rightarrow> (None, st')
                | (Some err, st') \<Rightarrow>
                    push_failure options c content_text (err_message err) (err_message err) st')))"

fun cross_loop ::
  "network \<Rightarrow> linkedin_adapter \<Rightarrow> social_config \<Rightarrow> client_options \<Rightarrow> cross_post_params \<Rightarrow>
   string option \<Rightarrow> platform_code list \<Rightarrow> cross_state \<Rightarrow> thrown option \<times> cross_state" where
  "cross_loop net li config options params img [] st = (None, st)"
| "cross_loop net li config options params img (c # cs) st =
     (case post_one net li config options params img c st of
        (Some e, st') \<Rightarrow> (Some e, st')
      | (None, st') \<Rightarrow> cross_loop net li config options params img cs st')"

text \<open>\<open>SocialPostingClient.crossPost(params)\<close>\<close>

definition derive_status :: "platform_result list \<Rightarrow> failed_entry list \<Rightarrow> batch_status" where
  "derive_status rs fs =
     (if length fs = 0 then Full
      else if length (filter (\<lambda>r. truthy (postId r)) rs) = 0 then Failed
      else Partial)"

definition crossPost ::
  "network \<Rightarrow> linkedin_adapter \<Rightarrow> social_config \<Rightarrow> client_options \<Rightarrow> cross_post_params \<Rightarrow>
   cross_post_result io" where
  "crossPost net li config options params w =
     (let url0 = map_option trim (imageUrl params);
          has_buffer = (case imageBuffer params of Some b \<Rightarrow> b \<noteq> [] | None \<Rightarrow> False)
      in case (if \<not> truthy url0 \<and> has_buffer \<and> uploadImage options \<noteq> None then
                 (case the (uploadImage options) w (the (imageBuffer params)) of
                    Inl e \<Rightarrow> Inl e
                  | Inr u \<Rightarrow> Inr (Some u),
                  w\<lparr>trace := trace w @ [UploadImage]\<rparr>)
               else (Inr url0, w)) of
           (Inl e, w1) \<Rightarrow> (Inl e, w1)
         | (Inr img, w1) \<Rightarrow>
             if \<not> truthy img \<and> has_buffer then
               (Inl (JsError (''imageBuffer provided but no uploadImage option; '' @
                              ''pass imageUrl or set uploadImage in options'')), w1)
             else
               (case cross_loop net li config options params img (postOn params)
                       \<lparr>st_results = [], st_failed = [], st_maxAttempt = 1, st_world = w1\<rparr> of
                  (Some e, st) \<Rightarrow> (Inl e, st_world st)
                | (None, st) \<Rightarrow>
                    (Inr \<lparr>platformResults = st_results st, failed = st_failed st,
                          batchStatus = derive_status (st_results st) (st_failed st),
                          maxAttempt = (if st_maxAttempt st > 1 then Some (st_maxAttempt st)
                                        else None)\<rparr>,
                     st_world st)))"

section \<open>Scripted surroundings\<close>

text \<open>
  A network that answers the \<open>k\<close>-th fetch of a run with the \<open>k\<close>-th reply of a
  script (and rejects once the script is used up), a reply that resolves with status 200
  and a body \<open>txt\<close> that parses to \<open>j\<close> (in particular a body with one status
  code, or with one id), and the count of finalize calls
  (\<open>POST .../media_publish\<close>) in a trace.
\<close>

fun is_fetch :: "event \<Rightarrow> bool" where
  "is_fetch (Fetch r) = True"
| "is_fetch e = False"

definition fetches :: "event list \<Rightarrow> nat" where
  "fetches tr = length (filter is_fetch tr)"

definition script_net :: "reply list \<Rightarrow> network" where
  "script_net rs w req =
     (if fetches (trace w) < length rs then rs ! fetches (trace w)
      else \<lparr>elapsed = 0, outcome = Rejected (Some ''script exhausted'')\<rparr>)"

definition json_reply :: "nat \<Rightarrow> string \<Rightarrow> json \<Rightarrow> reply" where
  "json_reply ms txt j =
     \<lparr>elapsed = ms,
      outcome = Resolved \<lparr>status = 200, body = txt, parsed = Some j, resp_headers = []\<rparr>\<rparr>"

definition status_text :: "string \<Rightarrow> string" where
  \<open>status_text s = ''{"status_code":"'' @ s @ ''"}''\<close>

definition status_reply :: "nat \<Rightarrow> string \<Rightarrow> reply" where
  "status_reply ms s = json_reply ms (status_text s) (JObj [(''status_code'', JStr s)])"

definition id_text :: "string \<Rightarrow> string" where
  \<open>id_text i = ''{"id":"'' @ i @ ''"}''\<close>

definition id_reply :: "nat \<Rightarrow> string \<Rightarrow> reply" where
  "id_reply ms i = json_reply ms (id_text i) (JObj [(''id'', JStr i)])"

fun is_finalize :: "string \<Rightarrow> event \<Rightarrow> bool" where
  "is_finalize igUserId (Fetch r) =
     (http_method r = ''POST'' \<and> url r = META_BASE @ ''/'' @ igUserId @ ''/media_publish'')"
| "is_finalize igUserId e = False"

definition finalize_calls :: "string \<Rightarrow> event list \<Rightarrow> nat" where
  "finalize_calls igUserId tr = length (filter (is_finalize igUserId) tr)"

text \<open>The \<open>id\<close> a reply carries: that of an ok response whose body parses to an object
  with a string \<open>id\<close>.\<close>

definition returned_id :: "reply \<Rightarrow> string option" where
  "returned_id rp =
     (case outcome rp of
        Rejected m \<Rightarrow> None
      | Resolved r \<Rightarrow>
          (if ok r then (case parseJson r [] of Inl e \<Rightarrow> None | Inr j \<Rightarrow> str_field j ''id'')
           else None))"

definition terminal_status :: "string \<Rightarrow> bool" where
  "terminal_status s = (s \<in> {''FINISHED'', ''PUBLISHED'', ''ERROR'', ''EXPIRED''})"

definition flaky :: "nat \<Rightarrow> thrown + nat" where
  "flaky k = (if k \<le> 2 then Inl (SocialPostingError ''fetch failed'' (Some ''NETWORK_ERROR'') None) else Inr 7)"

text \<open>A Meta configuration and the replies of an Instagram publish, for concrete runs.\<close>

definition ig_config :: meta_config where
  \<open>ig_config = \<lparr>pageAccessToken = ''PAGE-TOKEN'', pageId = ''1001'',
                 instagramBusinessAccountId = Some ''1784'', adAccountId = None\<rparr>\<close>

definition ig_permalink :: reply where
  \<open>ig_permalink = json_reply 100 ''{"permalink":"https://www.instagram.com/p/m7/"}''
                    (JObj [(''permalink'', JStr ''https://www.instagram.com/p/m7/'')])\<close>

text \<open>A Threads configuration, an image post, and a reply with an empty JSON object.\<close>

definition th_config :: threads_config where
  "th_config = \<lparr>threads_userId = ''77'', threads_accessToken = ''TH-TOKEN''\<rparr>"

definition th_image_post :: threads_params where
  "th_image_post = \<lparr>threads_content = ''Hi'', threads_imageUrl = Some ''https://example.com/a.png'',
                     altText = None, linkAttachment = None\<rparr>"

definition empty_object_reply :: reply where
  "empty_object_reply = json_reply 100 ''{}'' (JObj [])"

text \<open>
  For the ad pipeline: the endpoints of the five stages in order, what a reply carries
  (the parsed body of an ok response), whether stage \<open>i\<close> succeeds on a reply (an image
  hash for stage 0, an id for the others), and the number of leading stages that succeed
  on a script of replies.
\<close>

definition ad_stage_urls :: "string \<Rightarrow> string list" where
  "ad_stage_urls accountId =
     map (\<lambda>p. META_BASE @ ''/'' @ accountId @ p)
       [''/adimages'', ''/campaigns'', ''/adsets'', ''/adcreatives'', ''/ads'']"

definition reply_json :: "reply \<Rightarrow> json option" where
  "reply_json rp =
     (case outcome rp of
        Rejected m \<Rightarrow> None
      | Resolved r \<Rightarrow>
          (if ok r then (case parseJson r [] of Inl e \<Rightarrow> None | Inr j \<Rightarrow> Some j) else None))"

definition stage_succeeds :: "nat \<Rightarrow> reply \<Rightarrow> bool" where
  "stage_succeeds i rp =
     (case reply_json rp of
        None \<Rightarrow> False
      | Some j \<Rightarrow> if i = 0 then first_image_hash j \<noteq> [] else truthy (str_field j ''id''))"

fun leading_successes :: "nat \<Rightarrow> reply list \<Rightarrow> nat" where
  "leading_successes i [] = 0"
| "leading_successes i (rp # rps) =
     (if stage_succeeds i rp then Suc (leading_successes (Suc i) rps) else 0)"

text \<open>A Meta configuration with an ad account, and an ad to run.\<close>

definition ads_config :: social_config where
  "ads_config = \<lparr>meta = Some \<lparr>pageAccessToken = ''PAGE-TOKEN'', pageId = ''1001'',
                                instagramBusinessAccountId = None, adAccountId = Some ''42''\<rparr>,
                  linkedin = None, threads = None\<rparr>"

definition an_ad :: ads_params where
  "an_ad = \<lparr>ads_content = ''Buy'', ads_imageUrl = ''https://example.com/ad.png'',
            targetingSpec = JObj [], dailyBudget = 500, campaignName = Some ''Spring'',
            adSetName = Some ''Set'', startImmediately = None\<rparr>"

definition hash_reply :: reply where
  \<open>hash_reply = json_reply 100 ''{"images":{"ad.png":{"hash":"h1"}}}''
                   (JObj [(''images'', JObj [(''ad.png'', JObj [(''hash'', JStr ''h1'')])])])\<close>

definition rejected_reply :: reply where
  \<open>rejected_reply =
     \<lparr>elapsed = 100,
      outcome = Resolved \<lparr>status = 400, body = ''{"error":{"message":"Invalid parameter"}}'',
                  parsed = Some (JObj [(''error'', JObj [(''message'', JStr ''Invalid parameter'')])]),
                  resp_headers = []\<rparr>\<rparr>\<close>

text \<open>The requests a run added to the trace, in order.\<close>

fun requests_of :: "event list \<Rightarrow> request list" where
  "requests_of [] = []"
| "requests_of (Fetch r # tr) = r # requests_of tr"
| "requests_of (e # tr) = requests_of tr"

definition new_events :: "world \<Rightarrow> world \<Rightarrow> event list" where
  "new_events w w' = drop (length (trace w)) (trace w')"

text \<open>The configuration passes every check made before the first stage of the pipeline.\<close>

definition ads_ready :: "social_config \<Rightarrow> bool" where
  "ads_ready config =
     (case meta config of
        None \<Rightarrow> False
      | Some mc \<Rightarrow> trim (pageAccessToken mc) \<noteq> [] \<and> pageId mc \<noteq> [] \<and>
                   truthy (map_option trim (adAccountId mc)))"

text \<open>
  A vendor reply that rejects a request with the very words of Instagram's unsupported
  deletion, a LinkedIn configuration, and a reply request for LinkedIn with a post id
  and no comment id.
\<close>

definition same_words_reply :: reply where
  \<open>same_words_reply =
     \<lparr>elapsed = 100,
      outcome = Resolved
        \<lparr>status = 400,
         body = ''{"error":{"message":"Instagram does not support deleting posts via API"}}'',
         parsed = Some (JObj [(''error'',
                    JObj [(''message'', JStr ''Instagram does not support deleting posts via API'')])]),
         resp_headers = []\<rparr>\<rparr>\<close>

definition li_config :: social_config where
  "li_config = \<lparr>meta = None,
                 linkedin = Some \<lparr>linkedin_accessToken = ''LI-TOKEN'',
                                  personUrn = Some ''urn:li:person:1'', organizationUrn = None\<rparr>,
                 threads = None\<rparr>"

definition li_reply_without_comment :: reply_request where
  "li_reply_without_comment =
     \<lparr>channel = CodeL, message = ''Thanks'', commentId = None,
      reply_postId = Some ''urn:li:share:1''\<rparr>"

definition li_comment_created :: reply where
  "li_comment_created =
     \<lparr>elapsed = 100,
      outcome = Resolved \<lparr>status = 201, body = [], parsed = None,
                          resp_headers = [(''x-restli-id'', ''6789'')]\<rparr>\<rparr>"

text \<open>
  For \<open>crossPost\<close>: a done callback that never throws (or none), the results of a batch
  that carry an error, and the texts Threads refuses.
\<close>

definition quiet :: "client_options \<Rightarrow> bool" where
  "quiet options =
     (case onPlatformDone options of
        None \<Rightarrow> True
      | Some cb \<Rightarrow> \<forall>w label c pr. cb w label c pr = None)"

definition has_error :: "platform_result \<Rightarrow> bool" where
  "has_error r = (error r \<noteq> None)"

definition has_postId :: "platform_result \<Rightarrow> bool" where
  "has_postId r = truthy (postId r)"

definition too_long :: "string option \<Rightarrow> bool" where
  "too_long t = (case t of None \<Rightarrow> False | Some s \<Rightarrow> length (trim s) > THREADS_TEXT_MAX_LENGTH)"

text \<open>
  A content is blank when it trims to nothing; a call gives no image when it has no
  image URL that is not blank and no image bytes. A result respects the guard of Threads
  when, being for channel \<open>t\<close> with a content too long for Threads, or with a blank
  content when the image \<open>img\<close> handed to the adapters is absent, it carries an error and
  no post id. \<open>appended img c ct st st' new\<close>: the loop state \<open>st'\<close> has the results of
  \<open>st\<close> and then \<open>new\<close>, all for platform \<open>c\<close> with content \<open>ct\<close> and respecting the
  guard of Threads, and one more \<open>failed\<close> entry for each new result with an error.
\<close>

definition blank :: "string option \<Rightarrow> bool" where
  "blank t = (case t of None \<Rightarrow> True | Some s \<Rightarrow> trim s = [])"

definition no_image :: "cross_post_params \<Rightarrow> bool" where
  "no_image params =
     (\<not> truthy (map_option trim (imageUrl params)) \<and>
      (case imageBuffer params of None \<Rightarrow> True | Some b \<Rightarrow> b = []))"

definition threads_guard_respected :: "string option \<Rightarrow> platform_result \<Rightarrow> bool" where
  "threads_guard_respected img x =
     (code x = CodeT \<and> (too_long (content x) \<or> (blank (content x) \<and> \<not> truthy img))
        \<longrightarrow> has_error x \<and> postId x = None)"

definition appended ::
  "string option \<Rightarrow> platform_code \<Rightarrow> string \<Rightarrow> cross_state \<Rightarrow> cross_state \<Rightarrow>
   platform_result list \<Rightarrow> bool" where
  "appended img c ct st st' new =
     (st_results st' = st_results st @ new \<and>
      list_all (\<lambda>x. code x = c \<and> content x = Some ct \<and> threads_guard_respected img x) new \<and>
      length (st_failed st') = length (st_failed st) + length (filter has_error new))"

text \<open>
  A client for Threads alone, with no options, a LinkedIn adapter that is never reached,
  a text post for Threads, and a listener for finished platforms (one that stores the
  posts made, say) that throws when it is handed a post that succeeded.
\<close>

definition threads_only :: social_config where
  "threads_only = \<lparr>meta = None, linkedin = None, threads = Some th_config\<rparr>"

definition linkedin_offline :: linkedin_adapter where
  "linkedin_offline lc content_text img w = (Inl (social_error ''LinkedIn is offline''), w)"

definition plain_options :: client_options where
  "plain_options = \<lparr>uploadImage = None, contentAdapter = None, option_contentSuffix = None,
                     onPlatformStart = None, onPlatformDone = None\<rparr>"

definition text_post :: cross_post_params where
  "text_post = \<lparr>postOn = [CodeT], param_content = ''Hello'', imageUrl = None,
                 imageBuffer = None, hashtags = None, platformContent = (\<lambda>c. None),
                 contentSuffix = None, targeting = None, createAd = None,
                 param_dailyBudget = None, param_campaignName = None, param_adSetName = None,
                 threadsUserId = None, threadsAccessToken = None, param_altText = None,
                 param_linkAttachment = None, param_retries = None, param_retryDelayMs = None,
                 linkedinPostAs = None\<rparr>"

definition failing_store :: "world \<Rightarrow> string \<Rightarrow> platform_code \<Rightarrow> platform_result \<Rightarrow> thrown option" where
  "failing_store w label c pr =
     (if error pr = None then Some (JsError ''store unavailable'') else None)"

definition storing_options :: client_options where
  "storing_options = plain_options\<lparr>onPlatformDone := Some failing_store\<rparr>"

definition start_world :: world where
  "start_world = \<lparr>now = 0, trace = []\<rparr>"

text \<open>A text of 501 letters, one more than Threads takes.\<close>

definition long_text :: string where
  "long_text = replicate 501 (CHR ''a'')"

text \<open>A text of two spaces, blank once trimmed.\<close>

definition blank_text :: string where
  "blank_text = [CHR 0x20, CHR 0x20]"

text \<open>The status of a batch, read off its list of results alone.\<close>

definition outcome_status :: "platform_result list \<Rightarrow> batch_status" where
  "outcome_status rs =
     (if filter has_error rs = [] then Full
      else if filter has_postId rs = [] then Failed
      else Partial)"

section \<open>Theorems: the retry policy\<close>

lemma calls_simps [simp]:
  "calls [] = 0" "calls (Invoked # tr) = Suc (calls tr)" "calls (Slept d # tr) = calls tr"
  "calls (xs @ ys) = calls xs + calls ys"
  by (simp_all add: calls_def)

lemma loop_char:
  "1 \<le> a \<Longrightarrow> a \<le> n + 1 \<Longrightarrow> calls tr = a - 1 \<Longrightarrow>
   withRetries_loop probe_sleep (scripted f) n d a le tr = (res, tr') \<Longrightarrow>
   a \<le> calls tr' \<and> calls tr' \<le> n + 1 \<and>
   tr' = tr @ concat (replicate (calls tr' - a) [Invoked, Slept d]) @ [Invoked] \<and>
   (\<forall>j. a \<le> j \<and> j < calls tr' \<longrightarrow> (\<exists>e. f j = Inl e \<and> isRetryableError e)) \<and>
   res = (case f (calls tr') of Inr v \<Rightarrow> Inr (v, calls tr') | Inl e \<Rightarrow> Inl e) \<and>
   (calls tr' \<le> n \<longrightarrow> (case f (calls tr') of Inl e \<Rightarrow> \<not> isRetryableError e | Inr v \<Rightarrow> True))"
proof (induction probe_sleep "scripted f" n d a le tr arbitrary: res tr' rule: withRetries_loop.induct)
  case (1 n d a le tr)
  from "1.prems" have fa: "scripted f tr = (f a, tr @ [Invoked])"
    by (simp add: scripted_def)
  note run = "1.prems"(4)[unfolded withRetries_loop.simps[of probe_sleep "scripted f" n d a le tr]]
  show ?case
  proof (cases "f a")
    case (Inr v)
    with fa run "1.prems"(2) have "res = Inr (v, a)" "tr' = tr @ [Invoked]"
      by simp_all
    moreover from this "1.prems" have "calls tr' = a" by simp
    ultimately show ?thesis using "1.prems"(1-3) Inr by auto
  next
    case (Inl e)
    show ?thesis
    proof (cases "a \<le> n \<and> isRetryableError e")
      case True
      with fa run Inl "1.prems"(2)
      have next_run: "withRetries_loop probe_sleep (scripted f) n d (a + 1) (Some e)
                 (probe_sleep d (tr @ [Invoked])) = (res, tr')"
        by simp
      have c: "calls (probe_sleep d (tr @ [Invoked])) = a + 1 - 1"
        using "1.prems" by (simp add: probe_sleep_def)
      from True have le: "a + 1 \<le> n + 1" by simp
      note IH = "1.hyps"[OF "1.prems"(2) fa[symmetric] Inl True _ le c next_run]
      then have IH': "a + 1 \<le> calls tr'" "calls tr' \<le> n + 1"
        "tr' = probe_sleep d (tr @ [Invoked]) @ concat (replicate (calls tr' - (a + 1)) [Invoked, Slept d]) @ [Invoked]"
        "\<forall>j. a + 1 \<le> j \<and> j < calls tr' \<longrightarrow> (\<exists>e. f j = Inl e \<and> isRetryableError e)"
        "res = (case f (calls tr') of Inr v \<Rightarrow> Inr (v, calls tr') | Inl e \<Rightarrow> Inl e)"
        "calls tr' \<le> n \<longrightarrow> (case f (calls tr') of Inl e \<Rightarrow> \<not> isRetryableError e | Inr v \<Rightarrow> True)"
        by simp_all
      from IH'(1) have m: "calls tr' - a = Suc (calls tr' - Suc a)"
        by simp
      have shape: "tr' = tr @ concat (replicate (calls tr' - a) [Invoked, Slept d]) @ [Invoked]"
        using IH'(3) by (simp add: m probe_sleep_def del: calls_simps)
      have early: "\<forall>j. a \<le> j \<and> j < calls tr' \<longrightarrow> (\<exists>e. f j = Inl e \<and> isRetryableError e)"
      proof (intro allI impI)
        fix j assume j: "a \<le> j \<and> j < calls tr'"
        show "\<exists>e. f j = Inl e \<and> isRetryableError e"
        proof (cases "j = a")
          case True
          then show ?thesis using Inl \<open>a \<le> n \<and> isRetryableError e\<close> by simp
        next
          case False
          with j have "a + 1 \<le> j \<and> j < calls tr'" by simp
          with IH'(4) show ?thesis by blast
        qed
      qed
      from IH'(1,2,5,6) shape early show ?thesis by simp
    next
      case False
      with fa run Inl "1.prems"(2) have "res = Inl e" "tr' = tr @ [Invoked]"
        by auto
      moreover from this "1.prems" have "calls tr' = a" by simp
      ultimately show ?thesis using "1.prems"(1-3) Inl False by auto
    qed
  qed
qed

text \<open>
  Claim C4. For every operation and every number of retries \<open>n\<close>, \<open>withRetries\<close>
  invokes the operation at least once and at most \<open>n + 1\<close> times; every invocation
  but the last failed with a retryable error and was followed by one wait of the fixed
  delay; the result is the last invocation's: its value with the 1-based number of that
  invocation, or its error. The run stops before invocation \<open>n + 1\<close> only on a success
  or a permanent error, so a permanent first failure means exactly one invocation whose
  error propagates, and \<open>n + 1\<close> transient failures propagate the last error.
\<close>

theorem withRetries_policy:
  "case withRetries probe_sleep (scripted f)
          \<lparr>retries = Some (int n), retryDelayMs = Some (int d)\<rparr> [] of
     (res, tr) \<Rightarrow>
       1 \<le> calls tr \<and> calls tr \<le> n + 1 \<and>
       tr = concat (replicate (calls tr - 1) [Invoked, Slept d]) @ [Invoked] \<and>
       (\<forall>j. 1 \<le> j \<and> j < calls tr \<longrightarrow> (\<exists>e. f j = Inl e \<and> isRetryableError e)) \<and>
       res = (case f (calls tr) of Inr v \<Rightarrow> Inr (v, calls tr) | Inl e \<Rightarrow> Inl e) \<and>
       (calls tr \<le> n \<longrightarrow>
          (case f (calls tr) of Inl e \<Rightarrow> \<not> isRetryableError e | Inr v \<Rightarrow> True)) \<and>
       (\<forall>e. f 1 = Inl e \<and> \<not> isRetryableError e \<longrightarrow> calls tr = 1 \<and> res = Inl e) \<and>
       ((\<forall>j. 1 \<le> j \<and> j \<le> n + 1 \<longrightarrow> (\<exists>e. f j = Inl e \<and> isRetryableError e)) \<longrightarrow>
          calls tr = n + 1 \<and> (\<exists>e. f (n + 1) = Inl e \<and> res = Inl e))"
proof -
  obtain res tr where run:
    "withRetries_loop probe_sleep (scripted f) n d 1 None [] = (res, tr)"
    by (cases "withRetries_loop probe_sleep (scripted f) n d 1 None []")
  have wr: "withRetries probe_sleep (scripted f)
      \<lparr>retries = Some (int n), retryDelayMs = Some (int d)\<rparr> [] = (res, tr)"
    using run by (simp add: withRetries_def)
  have base: "(1::nat) \<le> 1" "1 \<le> n + 1" "calls [] = 1 - 1"
    by simp_all
  note ch = loop_char[OF base run]
  then have c1: "1 \<le> calls tr" and c2: "calls tr \<le> n + 1"
    and c3: "tr = concat (replicate (calls tr - 1) [Invoked, Slept d]) @ [Invoked]"
    and c4: "\<forall>j. 1 \<le> j \<and> j < calls tr \<longrightarrow> (\<exists>e. f j = Inl e \<and> isRetryableError e)"
    and c5: "res = (case f (calls tr) of Inr v \<Rightarrow> Inr (v, calls tr) | Inl e \<Rightarrow> Inl e)"
    and c6: "calls tr \<le> n \<longrightarrow>
          (case f (calls tr) of Inl e \<Rightarrow> \<not> isRetryableError e | Inr v \<Rightarrow> True)"
    by simp_all
  have c7: "\<forall>e. f 1 = Inl e \<and> \<not> isRetryableError e \<longrightarrow> calls tr = 1 \<and> res = Inl e"
  proof (intro allI impI)
    fix e assume e: "f 1 = Inl e \<and> \<not> isRetryableError e"
    have "\<not> 1 < calls tr"
    proof
      assume "1 < calls tr"
      with c4 have "\<exists>e'. f 1 = Inl e' \<and> isRetryableError e'" by simp
      with e show False by auto
    qed
    with c1 have one: "calls tr = 1" by simp
    with c5 e show "calls tr = 1 \<and> res = Inl e" by simp
  qed
  have c8: "(\<forall>j. 1 \<le> j \<and> j \<le> n + 1 \<longrightarrow> (\<exists>e. f j = Inl e \<and> isRetryableError e)) \<longrightarrow>
          calls tr = n + 1 \<and> (\<exists>e. f (n + 1) = Inl e \<and> res = Inl e)"
  proof
    assume all: "\<forall>j. 1 \<le> j \<and> j \<le> n + 1 \<longrightarrow> (\<exists>e. f j = Inl e \<and> isRetryableError e)"
    have "\<not> calls tr \<le> n"
    proof
      assume le: "calls tr \<le> n"
      with all c1 obtain e where "f (calls tr) = Inl e" "isRetryableError e" by auto
      with c6 le show False by simp
    qed
    with c2 have full: "calls tr = n + 1" by simp
    from all obtain e where "f (n + 1) = Inl e" by auto
    with c5 full show "calls tr = n + 1 \<and> (\<exists>e. f (n + 1) = Inl e \<and> res = Inl e)" by simp
  qed
  show ?thesis
    unfolding wr prod.case by (rule conjI c1 c2 c3 c4 c5 c6 c7 c8)+
qed

theorem withRetries_policy_witness:
  "withRetries probe_sleep (scripted flaky) \<lparr>retries = Some (int 3), retryDelayMs = Some (int 1000)\<rparr> []
     = (Inr (7, 3), [Invoked, Slept 1000, Invoked, Slept 1000, Invoked])"
  using withRetries_policy[where f = flaky and n = 3 and d = 1000]
  by (simp add: withRetries_def withRetries_loop.simps flaky_def scripted_def probe_sleep_def
        calls_def)

section \<open>Theorems: the two-phase publish of Instagram and Threads\<close>

lemma fetches_simps [simp]:
  "fetches [] = 0" "fetches (Fetch r # tr) = Suc (fetches tr)" "fetches (Sleep ms # tr) = fetches tr"
  "fetches (xs @ ys) = fetches xs + fetches ys"
  by (simp_all add: fetches_def)

lemma fetch_json_reply:
  "net w req = json_reply ms txt j \<Longrightarrow> txt \<noteq> [] \<Longrightarrow>
   fetch_json net req name w =
     (Inr (\<lparr>status = 200, body = txt, parsed = Some j, resp_headers = []\<rparr>, j),
      fetched net req w)"
  by (simp add: fetch_json_def fetchWithTimeout_def json_reply_def throwIfNotOk_def ok_def
        parseJson_def)

lemma fetched_reply:
  "net w req = json_reply ms txt j \<Longrightarrow>
   fetched net req w = w\<lparr>now := now w + ms, trace := trace w @ [Fetch req]\<rparr>"
  by (simp add: fetched_def json_reply_def)

lemma poll_continue:
  assumes "now w < deadline"
    and "net w (instagram_status_request token cid) = status_reply ms s"
    and "\<not> terminal_status s"
  shows "instagram_poll net cid token deadline w =
         instagram_poll net cid token deadline
           (sleep POLL_INTERVAL_MS
              (w\<lparr>now := now w + ms, trace := trace w @ [Fetch (instagram_status_request token cid)]\<rparr>))"
  using assms
  by (subst instagram_poll.simps)
     (simp add: fetch_json_reply[where j = "JObj [(''status_code'', JStr s)]"]
        fetched_reply[where j = "JObj [(''status_code'', JStr s)]"] status_reply_def
        status_text_def str_field_def terminal_status_def)

lemma poll_done:
  assumes "now w < deadline"
    and "net w (instagram_status_request token cid) = status_reply ms s"
    and "s = ''FINISHED'' \<or> s = ''PUBLISHED''"
  shows "instagram_poll net cid token deadline w =
         (None, w\<lparr>now := now w + ms, trace := trace w @ [Fetch (instagram_status_request token cid)]\<rparr>)"
  using assms
  by (subst instagram_poll.simps)
     (auto simp add: fetch_json_reply[where j = "JObj [(''status_code'', JStr s)]"]
        fetched_reply[where j = "JObj [(''status_code'', JStr s)]"] status_reply_def
        status_text_def str_field_def)

lemma poll_failed:
  assumes "now w < deadline"
    and "net w (instagram_status_request token cid) = status_reply ms s"
    and "s = ''ERROR'' \<or> s = ''EXPIRED''"
  shows "instagram_poll net cid token deadline w =
         (Some (SocialPostingError (''Instagram container '' @ s) None (Some (take 200 (status_text s)))),
          w\<lparr>now := now w + ms, trace := trace w @ [Fetch (instagram_status_request token cid)]\<rparr>)"
  using assms
  by (subst instagram_poll.simps)
     (auto simp add: fetch_json_reply[where j = "JObj [(''status_code'', JStr s)]"]
        fetched_reply[where j = "JObj [(''status_code'', JStr s)]"] status_reply_def
        status_text_def str_field_def)

lemma script_net_at:
  "fetches (trace w) = k \<Longrightarrow> k < length rs \<Longrightarrow> script_net rs w req = rs ! k"
  by (simp add: script_net_def)

lemma instagram_publish_trace:
  assumes "instagram_publish net tok ig cid w = (res, w')"
  shows "trace w' = trace w @ [Fetch (instagram_publish_request tok ig cid)] \<or>
         (\<exists>m. trace w' = trace w @ [Fetch (instagram_publish_request tok ig cid), Sleep 1500,
                                     Fetch (get_fields (META_BASE @ ''/'' @ m) ''permalink'' tok)])"
  using assms
  by (auto simp: instagram_publish_def fetch_json_def fetchWithTimeout_def fetch_permalink_def
        fetched_def sleep_def Let_def
      split: fetch_outcome.splits option.splits sum.splits if_splits prod.splits)

lemma finalize_calls_simps [simp]:
  "finalize_calls ig [] = 0"
  "finalize_calls ig (Sleep ms # tr) = finalize_calls ig tr"
  "finalize_calls ig (xs @ ys) = finalize_calls ig xs + finalize_calls ig ys"
  "finalize_calls ig (Fetch (get_fields u f t) # tr) = finalize_calls ig tr"
  "finalize_calls ig (Fetch (instagram_status_request t c) # tr) = finalize_calls ig tr"
  "finalize_calls ig (Fetch (instagram_publish_request t ig c) # tr) = Suc (finalize_calls ig tr)"
  "finalize_calls ig (Fetch (instagram_create_request t ig u c) # tr) = finalize_calls ig tr"
  by (simp_all add: finalize_calls_def get_fields_def instagram_status_request_def
        instagram_publish_request_def instagram_create_request_def post_form_def)

lemma instagram_after_create:
  assumes cfg: "trim (pageAccessToken config) \<noteq> []"
      "truthy (map_option trim (instagramBusinessAccountId config))"
    and create: "net w (instagram_create_request (pageAccessToken config)
                   (trim (the (instagramBusinessAccountId config))) image_url content_text)
                 = id_reply e0 cid"
    and "cid \<noteq> []"
  shows "postToInstagram net config content_text image_url w =
     (let w1 = w\<lparr>now := now w + e0,
                  trace := trace w @ [Fetch (instagram_create_request (pageAccessToken config)
                     (trim (the (instagramBusinessAccountId config))) image_url content_text)]\<rparr>
      in case instagram_poll net cid (pageAccessToken config) (now w1 + POLL_MAX_WAIT_MS) w1 of
           (Some e, w2) \<Rightarrow> (Inl e, w2)
         | (None, w2) \<Rightarrow>
             instagram_publish net (pageAccessToken config)
               (trim (the (instagramBusinessAccountId config))) cid w2)"
  using assms
  by (simp add: postToInstagram_def Let_def id_reply_def id_text_def
        fetched_reply[where j = "JObj [(''id'', JStr cid)]"]
        fetch_json_reply[where j = "JObj [(''id'', JStr cid)]"] str_field_def truthy_def)

text \<open>
  Claim C5. In \<open>postToInstagram\<close>, when the container is created and the polls answer a
  non-terminal status (such as \<open>PENDING\<close>) twice and then \<open>FINISHED\<close>, within the
  waiting time, the first seven events of the run are the create call, three polls with a
  wait of the poll interval after each of the first two, and the finalize call
  (\<open>media_publish\<close>); the run makes exactly one finalize call, whatever the vendor
  answers to it. When the polls answer a non-terminal status and then \<open>ERROR\<close>, the run
  ends after the second poll without any finalize call, and the thrown error is
  \<open>Instagram container ERROR\<close>.
\<close>

theorem instagram_two_phase_machine:
  assumes cfg: "trim (pageAccessToken config) \<noteq> []"
      "truthy (map_option trim (instagramBusinessAccountId config))"
    and cid: "cid \<noteq> []"
    and pending: "\<not> terminal_status s1" "\<not> terminal_status s2"
    and time: "e1 + POLL_INTERVAL_MS + e2 + POLL_INTERVAL_MS < POLL_MAX_WAIT_MS"
  shows "(let tok = pageAccessToken config;
              ig = trim (the (instagramBusinessAccountId config));
              w' = snd (postToInstagram
                     (script_net [id_reply e0 cid, status_reply e1 s1, status_reply e2 s2,
                                  status_reply e3 ''FINISHED'', pub, perm])
                     config content_text image_url \<lparr>now = start, trace = []\<rparr>)
          in take 7 (trace w') =
               [Fetch (instagram_create_request tok ig image_url content_text),
                Fetch (instagram_status_request tok cid), Sleep POLL_INTERVAL_MS,
                Fetch (instagram_status_request tok cid), Sleep POLL_INTERVAL_MS,
                Fetch (instagram_status_request tok cid),
                Fetch (instagram_publish_request tok ig cid)] \<and>
             finalize_calls ig (trace w') = 1) \<and>
         (let tok = pageAccessToken config;
              ig = trim (the (instagramBusinessAccountId config));
              (res, w') = postToInstagram
                     (script_net [id_reply e0 cid, status_reply e1 s1,
                                  status_reply e2 ''ERROR''])
                     config content_text image_url \<lparr>now = start, trace = []\<rparr>
          in res = Inl (SocialPostingError ''Instagram container ERROR'' None (Some (take 200 (status_text ''ERROR'')))) \<and>
             trace w' =
               [Fetch (instagram_create_request tok ig image_url content_text),
                Fetch (instagram_status_request tok cid), Sleep POLL_INTERVAL_MS,
                Fetch (instagram_status_request tok cid)] \<and>
             finalize_calls ig (trace w') = 0)"
proof -
  let ?tok = "pageAccessToken config"
  let ?ig = "trim (the (instagramBusinessAccountId config))"
  let ?create = "instagram_create_request ?tok ?ig image_url content_text"
  let ?status = "instagram_status_request ?tok cid"
  let ?w0 = "\<lparr>now = start, trace = []\<rparr>"
  let ?w1 = "\<lparr>now = start + e0, trace = [Fetch ?create]\<rparr>"
  let ?w2 = "\<lparr>now = start + e0 + e1 + POLL_INTERVAL_MS,
             trace = [Fetch ?create, Fetch ?status, Sleep POLL_INTERVAL_MS]\<rparr>"
  let ?w3 = "\<lparr>now = start + e0 + e1 + POLL_INTERVAL_MS + e2 + POLL_INTERVAL_MS,
             trace = [Fetch ?create, Fetch ?status, Sleep POLL_INTERVAL_MS,
                      Fetch ?status, Sleep POLL_INTERVAL_MS]\<rparr>"
  let ?deadline = "start + e0 + POLL_MAX_WAIT_MS"
  have scenario_a: "take 7 (trace (snd (postToInstagram
                     (script_net [id_reply e0 cid, status_reply e1 s1, status_reply e2 s2,
                                  status_reply e3 ''FINISHED'', pub, perm])
                     config content_text image_url ?w0))) =
               [Fetch ?create, Fetch ?status, Sleep POLL_INTERVAL_MS,
                Fetch ?status, Sleep POLL_INTERVAL_MS, Fetch ?status,
                Fetch (instagram_publish_request ?tok ?ig cid)] \<and>
         finalize_calls ?ig (trace (snd (postToInstagram
                     (script_net [id_reply e0 cid, status_reply e1 s1, status_reply e2 s2,
                                  status_reply e3 ''FINISHED'', pub, perm])
                     config content_text image_url ?w0))) = 1"
  proof -
    let ?net = "script_net [id_reply e0 cid, status_reply e1 s1, status_reply e2 s2,
                                  status_reply e3 ''FINISHED'', pub, perm]"
    let ?w4 = "\<lparr>now = start + e0 + e1 + POLL_INTERVAL_MS + e2 + POLL_INTERVAL_MS + e3,
             trace = [Fetch ?create, Fetch ?status, Sleep POLL_INTERVAL_MS,
                      Fetch ?status, Sleep POLL_INTERVAL_MS, Fetch ?status]\<rparr>"
    have p1: "instagram_poll ?net cid ?tok ?deadline ?w1 = instagram_poll ?net cid ?tok ?deadline ?w2"
      using poll_continue[of ?w1 ?deadline ?net ?tok cid e1 s1] pending
      by (simp add: script_net_at sleep_def POLL_MAX_WAIT_MS_def)
    have p2: "instagram_poll ?net cid ?tok ?deadline ?w2 = instagram_poll ?net cid ?tok ?deadline ?w3"
      using poll_continue[of ?w2 ?deadline ?net ?tok cid e2 s2] pending time
      by (simp add: script_net_at sleep_def)
    have p3: "instagram_poll ?net cid ?tok ?deadline ?w3 = (None, ?w4)"
      using poll_done[of ?w3 ?deadline ?net ?tok cid e3 "''FINISHED''"] time
      by (simp add: script_net_at)
    have run: "postToInstagram ?net config content_text image_url ?w0 =
                 instagram_publish ?net ?tok ?ig cid ?w4"
      using instagram_after_create[of config ?net ?w0 image_url content_text e0 cid] cfg cid
      by (simp add: script_net_at p1 p2 p3)
    obtain res w' where fin: "instagram_publish ?net ?tok ?ig cid ?w4 = (res, w')"
      by (cases "instagram_publish ?net ?tok ?ig cid ?w4")
    from instagram_publish_trace[OF fin] show ?thesis
      unfolding run fin by auto
  qed
  have scenario_b: "postToInstagram
                     (script_net [id_reply e0 cid, status_reply e1 s1,
                                  status_reply e2 ''ERROR''])
                     config content_text image_url ?w0 =
         (Inl (SocialPostingError ''Instagram container ERROR'' None (Some (take 200 (status_text ''ERROR'')))),
          \<lparr>now = start + e0 + e1 + POLL_INTERVAL_MS + e2,
           trace = [Fetch ?create, Fetch ?status, Sleep POLL_INTERVAL_MS, Fetch ?status]\<rparr>)"
  proof -
    let ?net = "script_net [id_reply e0 cid, status_reply e1 s1, status_reply e2 ''ERROR'']"
    have p1: "instagram_poll ?net cid ?tok ?deadline ?w1 = instagram_poll ?net cid ?tok ?deadline ?w2"
      using poll_continue[of ?w1 ?deadline ?net ?tok cid e1 s1] pending
      by (simp add: script_net_at sleep_def POLL_MAX_WAIT_MS_def)
    have p2: "instagram_poll ?net cid ?tok ?deadline ?w2 =
         (Some (SocialPostingError ''Instagram container ERROR'' None (Some (take 200 (status_text ''ERROR'')))),
          \<lparr>now = start + e0 + e1 + POLL_INTERVAL_MS + e2,
           trace = [Fetch ?create, Fetch ?status, Sleep POLL_INTERVAL_MS, Fetch ?status]\<rparr>)"
      using poll_failed[of ?w2 ?deadline ?net ?tok cid e2 "''ERROR''"] time
      by (simp add: script_net_at)
    show ?thesis
      using instagram_after_create[of config ?net ?w0 image_url content_text e0 cid] cfg cid
      by (simp add: script_net_at p1 p2)
  qed
  show ?thesis
    using scenario_a scenario_b by (simp add: Let_def)
qed

theorem instagram_two_phase_machine_witness:
  "finalize_calls ''1784''
     (trace (snd (postToInstagram
        (script_net [id_reply 300 ''c9'', status_reply 200 ''PENDING'', status_reply 200 ''PENDING'',
                     status_reply 200 ''FINISHED'', id_reply 400 ''m7'', ig_permalink])
        ig_config ''Hello'' ''https://example.com/a.png'' \<lparr>now = 0, trace = []\<rparr>))) = 1 \<and>
   fst (postToInstagram
        (script_net [id_reply 300 ''c9'', status_reply 200 ''PENDING'', status_reply 200 ''ERROR''])
        ig_config ''Hello'' ''https://example.com/a.png'' \<lparr>now = 0, trace = []\<rparr>) =
     Inl (SocialPostingError ''Instagram container ERROR'' None (Some (status_text ''ERROR'')))"
  using instagram_two_phase_machine[of ig_config "''c9''" "''PENDING''" "''PENDING''" 200 200 300 200
       "id_reply 400 ''m7''" ig_permalink "''Hello''" "''https://example.com/a.png''" 0]
  by (simp add: ig_config_def trim_def is_space_def truthy_def status_text_def
        terminal_status_def POLL_INTERVAL_MS_def POLL_MAX_WAIT_MS_def Let_def split: prod.splits)

lemma fetch_json_Inr:
  assumes "fetch_json net req name w = (Inr (r, j), w1)"
  shows "outcome (net w req) = Resolved r" "ok r" "parseJson r name = Inr j"
    "w1 = fetched net req w"
  using assms
  by (auto simp: fetch_json_def fetchWithTimeout_def throwIfNotOk_def Let_def
      split: fetch_outcome.splits option.splits sum.splits if_splits)

lemma parseJson_context: "parseJson r name = Inr j \<Longrightarrow> parseJson r name' = Inr j"
  by (auto simp: parseJson_def split: if_splits option.splits)

lemma fetch_json_returned_id:
  assumes "fetch_json net req name w = (Inr (r, j), w1)"
  shows "returned_id (net w req) = str_field j ''id''"
  using fetch_json_Inr[OF assms] parseJson_context[of r name j "[]"]
  by (simp add: returned_id_def)

lemma instagram_publish_id:
  assumes "instagram_publish net tok ig cid w = (Inr res, w')"
  shows "returned_id (net w (instagram_publish_request tok ig cid)) = Some (post_postId res)"
    and "post_postId res \<noteq> []"
proof -
  from assms obtain r j w1 where
    fj: "fetch_json net (instagram_publish_request tok ig cid) ''Instagram'' w = (Inr (r, j), w1)"
    by (auto simp: instagram_publish_def split: prod.splits sum.splits if_splits)
  with assms have t: "truthy (str_field j ''id'')" and p: "post_postId res = the (str_field j ''id'')"
    by (auto simp: instagram_publish_def Let_def split: prod.splits sum.splits if_splits)
  from t p show "post_postId res \<noteq> []"
    by (auto simp: truthy_def split: option.splits)
  from t p fetch_json_returned_id[OF fj]
  show "returned_id (net w (instagram_publish_request tok ig cid)) = Some (post_postId res)"
    by (auto simp: truthy_def split: option.splits)
qed

lemma instagram_postId:
  assumes "postToInstagram net mc content_text image_url w = (Inr res, w')"
  shows "(let tok = pageAccessToken mc;
              ig = trim (the (instagramBusinessAccountId mc));
              create = instagram_create_request tok ig image_url content_text;
              w1 = fetched net create w
          in \<exists>cid. returned_id (net w create) = Some cid \<and> cid \<noteq> [] \<and>
                returned_id
                  (net (snd (instagram_poll net cid tok (now w1 + POLL_MAX_WAIT_MS) w1))
                     (instagram_publish_request tok ig cid)) = Some (post_postId res) \<and>
                post_postId res \<noteq> [])"
proof -
  let ?tok = "pageAccessToken mc"
  let ?ig = "trim (the (instagramBusinessAccountId mc))"
  let ?create = "instagram_create_request ?tok ?ig image_url content_text"
  from assms obtain r j w1 where
    fj: "fetch_json net ?create ''Instagram'' w = (Inr (r, j), w1)"
    by (auto simp: postToInstagram_def Let_def split: prod.splits sum.splits if_splits)
  from fetch_json_Inr(4)[OF fj] have w1: "w1 = fetched net ?create w" .
  from assms fj have t: "truthy (str_field j ''id'')"
    by (auto simp: postToInstagram_def Let_def split: prod.splits sum.splits if_splits)
  then obtain cid where cid: "str_field j ''id'' = Some cid" "cid \<noteq> []"
    by (auto simp: truthy_def split: option.splits)
  from assms fj t cid obtain w2 where
    poll: "instagram_poll net cid ?tok (now w1 + POLL_MAX_WAIT_MS) w1 = (None, w2)"
    and pub: "instagram_publish net ?tok ?ig cid w2 = (Inr res, w')"
    by (auto simp: postToInstagram_def Let_def split: prod.splits sum.splits if_splits option.splits)
  from poll have w2: "snd (instagram_poll net cid ?tok (now w1 + POLL_MAX_WAIT_MS) w1) = w2"
    by simp
  from instagram_publish_id[OF pub] fetch_json_returned_id[OF fj] cid w2
  show ?thesis
    unfolding Let_def w1[symmetric] by auto
qed

lemma threads_postId:
  assumes run: "postToThreads net tc params w = (Inr res, w')"
    and image: "truthy (map_option trim (threads_imageUrl params))"
  shows "(let create = threads_create_request tc params;
              w1 = fetched net create w
          in \<exists>cid. returned_id (net w create) = Some cid \<and> cid \<noteq> [] \<and>
                post_postId res =
                  (case returned_id (net w1 (threads_publish_request tc cid)) of
                     Some m \<Rightarrow> if m \<noteq> [] then m else cid
                   | None \<Rightarrow> cid))"
proof -
  let ?create = "threads_create_request tc params"
  from run obtain r j w1 where
    fj: "fetch_json net ?create ''Threads'' w = (Inr (r, j), w1)"
    and fin: "threads_finish net tc True r (str_field j ''id'') w1 = (Inr res, w')"
    using image
    by (auto simp: postToThreads_def Let_def split: prod.splits sum.splits if_splits)
  from fetch_json_Inr(4)[OF fj] have w1: "w1 = fetched net ?create w" .
  show ?thesis
  proof (cases "truthy (str_field j ''id'')")
    case False
    with fin show ?thesis
      by (auto simp: threads_finish_def Let_def split: prod.splits sum.splits if_splits)
  next
    case True
    then obtain cid where cid: "str_field j ''id'' = Some cid" "cid \<noteq> []"
      by (auto simp: truthy_def split: option.splits)
    from fin True cid obtain r2 j2 w2 where
      pj: "fetch_json net (threads_publish_request tc cid) ''Threads'' w1 = (Inr (r2, j2), w2)"
      and pid: "post_postId res = the (if truthy (str_field j2 ''id'') then str_field j2 ''id''
                                       else Some cid)"
      by (auto simp: threads_finish_def Let_def split: prod.splits sum.splits if_splits)
    from pid fetch_json_returned_id[OF pj]
    have "post_postId res =
            (case returned_id (net w1 (threads_publish_request tc cid)) of
               Some m \<Rightarrow> if m \<noteq> [] then m else cid
             | None \<Rightarrow> cid)"
      by (auto simp: truthy_def split: option.splits)
    with fetch_json_returned_id[OF fj] cid show ?thesis
      unfolding Let_def w1[symmetric] by auto
  qed
qed

text \<open>
  Claim C6, as amended. Whenever \<open>postToInstagram\<close> returns a result, the create call
  returned a non-empty container id, and the \<open>postId\<close> of the result is the id returned
  by the finalize call made for that container after the polling. Whenever
  \<open>postToThreads\<close> returns a result for a post with an image, the create call returned a
  non-empty container id, and the \<open>postId\<close> is the id returned by the finalize call
  (\<open>threads_publish\<close>) when that reply carries a non-empty id, and the container id
  otherwise.
\<close>

theorem two_phase_postId:
  "(postToInstagram net mc content_text image_url w = (Inr res, w') \<longrightarrow>
      (let tok = pageAccessToken mc;
           ig = trim (the (instagramBusinessAccountId mc));
           create = instagram_create_request tok ig image_url content_text;
           w1 = fetched net create w
       in \<exists>cid. returned_id (net w create) = Some cid \<and> cid \<noteq> [] \<and>
             returned_id
               (net (snd (instagram_poll net cid tok (now w1 + POLL_MAX_WAIT_MS) w1))
                  (instagram_publish_request tok ig cid)) = Some (post_postId res) \<and>
             post_postId res \<noteq> [])) \<and>
   (postToThreads net tc params w = (Inr tres, tw') \<and>
    truthy (map_option trim (threads_imageUrl params)) \<longrightarrow>
      (let create = threads_create_request tc params;
           w1 = fetched net create w
       in \<exists>cid. returned_id (net w create) = Some cid \<and> cid \<noteq> [] \<and>
             post_postId tres =
               (case returned_id (net w1 (threads_publish_request tc cid)) of
                  Some m \<Rightarrow> if m \<noteq> [] then m else cid
                | None \<Rightarrow> cid)))"
  using instagram_postId[of net mc content_text image_url w res w']
    threads_postId[of net tc params w tres tw']
  by blast

lemmas run_defs =
  postToInstagram_def instagram_publish_def instagram_poll.simps fetch_json_def
  fetchWithTimeout_def fetched_def fetch_permalink_def throwIfNotOk_def parseJson_def ok_def
  script_net_def fetches_def json_reply_def id_reply_def status_reply_def id_text_def
  status_text_def str_field_def truthy_def trim_def is_space_def sleep_def Let_def
  POLL_INTERVAL_MS_def POLL_MAX_WAIT_MS_def instagram_create_request_def
  instagram_status_request_def instagram_publish_request_def post_form_def get_fields_def
  META_BASE_def postToThreads_def threads_finish_def threads_create_request_def
  threads_publish_request_def opt_field_def THREADS_BASE_def THREADS_TEXT_MAX_LENGTH_def
  social_error_def

lemma ig_run:
  "fst (postToInstagram
        (script_net [id_reply 300 ''c9'', status_reply 200 ''PENDING'', status_reply 200 ''PENDING'',
                     status_reply 200 ''FINISHED'', id_reply 400 ''m7'', ig_permalink])
        ig_config ''Hello'' ''https://example.com/a.png'' \<lparr>now = 0, trace = []\<rparr>) =
    Inr \<lparr>post_postId = ''m7'', post_permalink = Some ''https://www.instagram.com/p/m7/''\<rparr>"
  by (simp add: run_defs ig_config_def ig_permalink_def)

text \<open>
  Claim C6 as stated fails for Threads: the finalize call is made and answered with
  status 200 and an empty JSON object, the publish succeeds, and the \<open>postId\<close> of the
  result is the container id \<open>c1\<close> of the create call.
\<close>

theorem threads_fallback_counterexample:
  "postToThreads (script_net [id_reply 100 ''c1'', empty_object_reply, empty_object_reply])
     th_config th_image_post \<lparr>now = 0, trace = []\<rparr> =
     (Inr \<lparr>post_postId = ''c1'', post_permalink = None\<rparr>,
      \<lparr>now = 300,
       trace = [Fetch (threads_create_request th_config th_image_post),
                Fetch (threads_publish_request th_config ''c1''),
                Fetch (get_fields (THREADS_BASE @ ''/c1'') ''permalink'' ''TH-TOKEN'')]\<rparr>) \<and>
   returned_id (id_reply 100 ''c1'') = Some ''c1'' \<and>
   returned_id empty_object_reply = None"
  by (simp add: run_defs th_config_def th_image_post_def empty_object_reply_def returned_id_def)

lemma th_run:
  "fst (postToThreads (script_net [id_reply 100 ''c1'', id_reply 100 ''t8'', empty_object_reply])
     th_config th_image_post \<lparr>now = 0, trace = []\<rparr>) =
     Inr \<lparr>post_postId = ''t8'', post_permalink = None\<rparr>"
  by (simp add: run_defs th_config_def th_image_post_def empty_object_reply_def)

theorem two_phase_postId_witness:
  "(let net = script_net [id_reply 300 ''c9'', status_reply 200 ''PENDING'',
                          status_reply 200 ''PENDING'', status_reply 200 ''FINISHED'',
                          id_reply 400 ''m7'', ig_permalink];
        w = \<lparr>now = 0, trace = []\<rparr>;
        tok = pageAccessToken ig_config;
        ig = trim (the (instagramBusinessAccountId ig_config));
        create = instagram_create_request tok ig ''https://example.com/a.png'' ''Hello'';
        w1 = fetched net create w
    in fst (postToInstagram net ig_config ''Hello'' ''https://example.com/a.png'' w) =
         Inr \<lparr>post_postId = ''m7'', post_permalink = Some ''https://www.instagram.com/p/m7/''\<rparr> \<and>
       (\<exists>cid. returned_id (net w create) = Some cid \<and> cid \<noteq> [] \<and>
             returned_id
               (net (snd (instagram_poll net cid tok (now w1 + POLL_MAX_WAIT_MS) w1))
                  (instagram_publish_request tok ig cid)) = Some ''m7'')) \<and>
   (let net = script_net [id_reply 100 ''c1'', id_reply 100 ''t8'', empty_object_reply];
        w = \<lparr>now = 0, trace = []\<rparr>;
        create = threads_create_request th_config th_image_post;
        w1 = fetched net create w
    in fst (postToThreads net th_config th_image_post w) =
         Inr \<lparr>post_postId = ''t8'', post_permalink = None\<rparr> \<and>
       truthy (map_option trim (threads_imageUrl th_image_post)) \<and>
       (\<exists>cid. returned_id (net w create) = Some cid \<and> cid \<noteq> [] \<and>
             ''t8'' = (case returned_id (net w1 (threads_publish_request th_config cid)) of
                         Some m \<Rightarrow> if m \<noteq> [] then m else cid
                       | None \<Rightarrow> cid)))"
proof -
  let ?net = "script_net [id_reply 300 ''c9'', status_reply 200 ''PENDING'',
                          status_reply 200 ''PENDING'', status_reply 200 ''FINISHED'',
                          id_reply 400 ''m7'', ig_permalink]"
  let ?tnet = "script_net [id_reply 100 ''c1'', id_reply 100 ''t8'', empty_object_reply]"
  let ?w = "\<lparr>now = 0, trace = []\<rparr>"
  let ?res = "\<lparr>post_postId = ''m7'', post_permalink = Some ''https://www.instagram.com/p/m7/''\<rparr>"
  let ?tres = "\<lparr>post_postId = ''t8'', post_permalink = None\<rparr>"
  obtain w' where ig: "postToInstagram ?net ig_config ''Hello'' ''https://example.com/a.png'' ?w
                        = (Inr ?res, w')"
    using ig_run by (metis prod.collapse)
  obtain tw' where th: "postToThreads ?tnet th_config th_image_post ?w = (Inr ?tres, tw')"
    using th_run by (metis prod.collapse)
  have img: "truthy (map_option trim (threads_imageUrl th_image_post))"
    by (simp add: th_image_post_def truthy_def trim_def is_space_def)
  note a = two_phase_postId[where net = ?net and mc = ig_config and content_text = "''Hello''"
         and image_url = "''https://example.com/a.png''" and w = ?w and res = ?res and w' = w']
  note b = two_phase_postId[where net = ?tnet and tc = th_config and params = th_image_post
         and w = ?w and tres = ?tres and tw' = tw']
  from a b ig th img show ?thesis
    using ig_run th_run by (simp add: Let_def)
qed

section \<open>Theorems: the ad provisioning pipeline\<close>

lemma fetches_fetched [simp]: "fetches (trace (fetched net req w)) = Suc (fetches (trace w))"
  by (simp add: fetched_def)

lemma fetch_json_world: "fetch_json net req name w = (x, w') \<Longrightarrow> w' = fetched net req w"
  by (auto simp: fetch_json_def fetchWithTimeout_def Let_def
      split: fetch_outcome.splits option.splits sum.splits)

lemma fetch_json_reply_json:
  "fetch_json net req name w = (Inr (r, j), w') \<Longrightarrow> reply_json (net w req) = Some j"
  using fetch_json_Inr[of net req name w r j w'] parseJson_context[of r name j "[]"]
  by (simp add: reply_json_def)

lemma fetch_json_no_reply_json:
  "fetch_json net req name w = (Inl e, w') \<Longrightarrow> reply_json (net w req) = None"
  by (auto simp: fetch_json_def fetchWithTimeout_def throwIfNotOk_def reply_json_def parseJson_def Let_def
      split: fetch_outcome.splits option.splits sum.splits if_splits)

lemma create_with_id_world:
  "create_with_id net req missing w = (x, w') \<Longrightarrow> w' = fetched net req w"
  by (auto simp: create_with_id_def split: prod.splits sum.splits if_splits dest: fetch_json_world)

lemma create_with_id_succeeds:
  "0 < i \<Longrightarrow> create_with_id net req missing w = (x, w') \<Longrightarrow>
   stage_succeeds i (net w req) = (\<exists>v. x = Inr v)"
  by (auto simp: create_with_id_def stage_succeeds_def
      split: prod.splits sum.splits if_splits
      dest: fetch_json_reply_json fetch_json_no_reply_json)

lemma upload_world:
  "uploadMetaAdImage net a t u w = (x, w') \<Longrightarrow> w' = fetched net (ad_image_request a t u) w"
  by (auto simp: uploadMetaAdImage_def split: prod.splits sum.splits if_splits dest: fetch_json_world)

lemma upload_succeeds:
  "uploadMetaAdImage net a t u w = (x, w') \<Longrightarrow>
   stage_succeeds 0 (net w (ad_image_request a t u)) = (\<exists>v. x = Inr v)"
  by (auto simp: uploadMetaAdImage_def stage_succeeds_def
      split: prod.splits sum.splits if_splits
      dest: fetch_json_reply_json fetch_json_no_reply_json)

lemma trace_fetched [simp]: "trace (fetched net req w) = trace w @ [Fetch req]"
  by (simp add: fetched_def)

lemma stage_requests [simp]:
  "url (ad_image_request a t u) = META_BASE @ ''/'' @ a @ ''/adimages''"
  "url (campaign_request a t n st) = META_BASE @ ''/'' @ a @ ''/campaigns''"
  "url (ad_set_request a t c n b tg p st) = META_BASE @ ''/'' @ a @ ''/adsets''"
  "url (creative_request a t p h m) = META_BASE @ ''/'' @ a @ ''/adcreatives''"
  "url (ad_request a t s c n st) = META_BASE @ ''/'' @ a @ ''/ads''"
  "http_method (ad_image_request a t u) = ''POST''"
  "http_method (campaign_request a t n st) = ''POST''"
  "http_method (ad_set_request a t c n b tg p st) = ''POST''"
  "http_method (creative_request a t p h m) = ''POST''"
  "http_method (ad_request a t s c n st) = ''POST''"
  by (simp_all add: ad_image_request_def campaign_request_def ad_set_request_def
        creative_request_def ad_request_def post_form_def)

lemma meta_pipeline_trace:
  assumes "metaRunMetaAds net config params w = (x, w')"
    and "truthy (map_option trim (adAccountId config))" "trim (pageAccessToken config) \<noteq> []"
  shows "(let reqs = requests_of (new_events w w') in
           new_events w w' = map Fetch reqs \<and>
           trace w' = trace w @ new_events w w' \<and>
           map url reqs = take (length reqs) (ad_stage_urls (ad_account (the (adAccountId config)))) \<and>
           list_all (\<lambda>r. http_method r = ''POST'') reqs \<and>
           1 \<le> length reqs \<and> length reqs \<le> 5 \<and>
           ((\<exists>v. x = Inr v) \<longrightarrow> length reqs = 5))"
  using assms
  by (auto simp: metaRunMetaAds_def Let_def new_events_def ad_stage_urls_def
        createMetaCampaign_def createMetaAdSet_def createMetaAdCreative_def
        createMetaAdRecordAndReturnId_def
      split: prod.splits sum.splits if_splits
      dest!: create_with_id_world upload_world)

lemma script_stage:
  "create_with_id (script_net rs) req missing w = (x, w') \<Longrightarrow>
   w' = fetched (script_net rs) req w \<and>
   (0 < fetches (trace w) \<and> fetches (trace w) < length rs \<longrightarrow>
      stage_succeeds (fetches (trace w)) (rs ! fetches (trace w)) = (\<exists>v. x = Inr v))"
  using create_with_id_world[of "script_net rs" req missing w x w']
    create_with_id_succeeds[of "fetches (trace w)" "script_net rs" req missing w x w']
  by (auto simp: script_net_def)

lemma script_upload:
  "uploadMetaAdImage (script_net rs) a t u w = (x, w') \<Longrightarrow>
   w' = fetched (script_net rs) (ad_image_request a t u) w \<and>
   (fetches (trace w) = 0 \<and> rs \<noteq> [] \<longrightarrow> stage_succeeds 0 (rs ! 0) = (\<exists>v. x = Inr v))"
  using upload_world[of "script_net rs" a t u w x w']
    upload_succeeds[of "script_net rs" a t u w x w']
  by (auto simp: script_net_def)

lemma meta_pipeline_first_failure:
  assumes run: "metaRunMetaAds (script_net [r0, r1, r2, r3, r4]) config params w = (x, w')"
    and cfg: "truthy (map_option trim (adAccountId config))" "trim (pageAccessToken config) \<noteq> []"
    and start: "fetches (trace w) = 0"
  shows "length (new_events w w') = min 5 (Suc (leading_successes 0 [r0, r1, r2, r3, r4])) \<and>
         ((\<exists>v. x = Inr v) = (leading_successes 0 [r0, r1, r2, r3, r4] = 5))"
proof -
  let ?net = "script_net [r0, r1, r2, r3, r4]"
  let ?acct = "ad_account (the (adAccountId config))"
  let ?tok = "pageAccessToken config"
  let ?st = "if startImmediately params = Some True then ACTIVE else PAUSED"
  note defs = metaRunMetaAds_def Let_def createMetaCampaign_def createMetaAdSet_def
    createMetaAdCreative_def createMetaAdRecordAndReturnId_def
  obtain x0 w1 where s0: "uploadMetaAdImage ?net ?acct ?tok (ads_imageUrl params) w = (x0, w1)"
    by (cases "uploadMetaAdImage ?net ?acct ?tok (ads_imageUrl params) w")
  from script_upload[OF s0] start
  have w1: "trace w1 = trace w @ [Fetch (ad_image_request ?acct ?tok (ads_imageUrl params))]"
    and ok0: "stage_succeeds 0 r0 = (\<exists>v. x0 = Inr v)"
    by simp_all
  show ?thesis
  proof (cases x0)
    case (Inl e)
    with run s0 cfg have "x = Inl e" "w' = w1" by (simp_all add: defs)
    with ok0 Inl w1 show ?thesis by (simp add: new_events_def)
  next
    case h: (Inr imageHash)
    let ?cName = "case campaignName params of Some n \<Rightarrow> n | None \<Rightarrow> ''Campaign '' @ show_nat (now w1)"
    let ?sName = "case adSetName params of Some n \<Rightarrow> n | None \<Rightarrow> ''AdSet '' @ show_nat (now w1)"
    let ?req1 = "campaign_request ?acct ?tok ?cName ?st"
    obtain x1 w2 where s1: "create_with_id ?net ?req1 ''Meta did not return campaign id'' w1 = (x1, w2)"
      by (cases "create_with_id ?net ?req1 ''Meta did not return campaign id'' w1")
    from script_stage[OF s1] w1 start
    have w2: "trace w2 = trace w1 @ [Fetch ?req1]" and ok1: "stage_succeeds 1 r1 = (\<exists>v. x1 = Inr v)"
      by simp_all
    show ?thesis
    proof (cases x1)
      case (Inl e)
      with run s0 s1 h cfg have "x = Inl e" "w' = w2" by (simp_all add: defs)
      with ok0 ok1 h Inl w1 w2 show ?thesis by (simp add: new_events_def)
    next
      case c: (Inr campaign)
      let ?req2 = "ad_set_request ?acct ?tok campaign ?sName (dailyBudget params)
                     (targetingSpec params) (pageId config) ?st"
      obtain x2 w3 where s2: "create_with_id ?net ?req2 ''Meta did not return ad set id'' w2 = (x2, w3)"
        by (cases "create_with_id ?net ?req2 ''Meta did not return ad set id'' w2")
      from script_stage[OF s2] w1 w2 start
      have w3: "trace w3 = trace w2 @ [Fetch ?req2]" and ok2: "stage_succeeds 2 r2 = (\<exists>v. x2 = Inr v)"
        by (simp_all add: numeral_2_eq_2)
      show ?thesis
      proof (cases x2)
        case (Inl e)
        with run s0 s1 s2 h c cfg have "x = Inl e" "w' = w3" by (simp_all add: defs)
        with ok0 ok1 ok2 h c Inl w1 w2 w3 show ?thesis by (simp add: new_events_def numeral_2_eq_2)
      next
        case a: (Inr adSet)
        let ?req3 = "creative_request ?acct ?tok (pageId config) imageHash (ads_content params)"
        obtain x3 w4 where s3: "create_with_id ?net ?req3 ''Meta did not return creative id'' w3 = (x3, w4)"
          by (cases "create_with_id ?net ?req3 ''Meta did not return creative id'' w3")
        from script_stage[OF s3] w1 w2 w3 start
        have w4: "trace w4 = trace w3 @ [Fetch ?req3]" and ok3: "stage_succeeds 3 r3 = (\<exists>v. x3 = Inr v)"
          by (simp_all add: numeral_3_eq_3)
        show ?thesis
        proof (cases x3)
          case (Inl e)
          with run s0 s1 s2 s3 h c a cfg have "x = Inl e" "w' = w4" by (simp_all add: defs)
          with ok0 ok1 ok2 ok3 h c a Inl w1 w2 w3 w4 show ?thesis
            by (simp add: new_events_def numeral_2_eq_2 numeral_3_eq_3)
        next
          case cr: (Inr creative)
          let ?req4 = "ad_request ?acct ?tok adSet creative ?sName ?st"
          obtain x4 w5 where s4: "create_with_id ?net ?req4 ''Meta did not return ad id'' w4 = (x4, w5)"
            by (cases "create_with_id ?net ?req4 ''Meta did not return ad id'' w4")
          have four: "Suc (Suc (Suc (Suc 0))) = 4" by simp
          from script_stage[OF s4] w1 w2 w3 w4 start
          have w5: "trace w5 = trace w4 @ [Fetch ?req4]" and ok4: "stage_succeeds 4 r4 = (\<exists>v. x4 = Inr v)"
            by (simp_all add: four)
          from run s0 s1 s2 s3 s4 h c a cr cfg have fin: "w' = w5" "(\<exists>v. x = Inr v) = (\<exists>v. x4 = Inr v)"
            by (auto simp add: defs split: sum.splits)
          with ok0 ok1 ok2 ok3 ok4 h c a cr w1 w2 w3 w4 w5 show ?thesis
            by (simp add: new_events_def numeral_2_eq_2 numeral_3_eq_3 four)
        qed
      qed
    qed
  qed
qed

lemma trim_nonempty: "trim s \<noteq> [] \<Longrightarrow> s \<noteq> []"
  by (auto simp: trim_def)

lemma requests_of_map_Fetch [simp]: "requests_of (map Fetch rs) = rs"
  by (induction rs) simp_all

lemma runMetaAds_trace:
  assumes "runMetaAds net config params w = (res, w')"
  shows "(let reqs = requests_of (new_events w w') in
           trace w' = trace w @ map Fetch reqs \<and>
           length reqs \<le> 5 \<and>
           map url reqs =
             take (length reqs) (ad_stage_urls (ad_account (the (adAccountId (the (meta config)))))) \<and>
           list_all (\<lambda>r. http_method r = ''POST'') reqs \<and>
           (ads_error res = None \<longrightarrow> length reqs = 5) \<and>
           (ads_error res \<noteq> None \<longrightarrow>
              campaignId res = [] \<and> adSetId res = [] \<and> adId res = [] \<and> ads_status res = PAUSED))"
proof (cases "ads_ready config")
  case False
  with assms have "w' = w" "res = ads_failure (the (ads_error res))"
    by (auto simp: runMetaAds_def ads_ready_def metaRunMetaAds_def ads_failure_def
        split: option.splits if_splits)
  then have "w' = w" "ads_error res \<noteq> None" "campaignId res = []" "adSetId res = []"
    "adId res = []" "ads_status res = PAUSED"
    by (auto simp: ads_failure_def) (metis ads_failure_def ads_result.select_convs)+
  then show ?thesis by (simp add: new_events_def)
next
  case True
  then obtain mc where mc: "meta config = Some mc" "trim (pageAccessToken mc) \<noteq> []"
    "pageId mc \<noteq> []" "truthy (map_option trim (adAccountId mc))"
    by (auto simp: ads_ready_def split: option.splits)
  obtain x where x: "metaRunMetaAds net mc params w = (x, w')"
    and res: "res = (case x of Inr r \<Rightarrow> r | Inl e \<Rightarrow> ads_failure (err_message e))"
    using assms mc trim_nonempty[OF mc(2)]
    by (auto simp: runMetaAds_def split: prod.splits sum.splits)
  have ok: "\<And>r. x = Inr r \<Longrightarrow> ads_error r = None"
    using x mc
    by (auto simp: metaRunMetaAds_def Let_def split: prod.splits sum.splits if_splits)
  from meta_pipeline_trace[OF x mc(4) mc(2)] mc res ok show ?thesis
    by (cases x) (auto simp: Let_def ads_failure_def)
qed

lemma runMetaAds_first_failure:
  assumes run: "runMetaAds (script_net [r0, r1, r2, r3, r4]) config params w = (res, w')"
    and ready: "ads_ready config" and start: "fetches (trace w) = 0"
  shows "length (new_events w w') = min 5 (Suc (leading_successes 0 [r0, r1, r2, r3, r4])) \<and>
         (ads_error res = None) = (leading_successes 0 [r0, r1, r2, r3, r4] = 5)"
proof -
  from ready obtain mc where mc: "meta config = Some mc" "trim (pageAccessToken mc) \<noteq> []"
    "pageId mc \<noteq> []" "truthy (map_option trim (adAccountId mc))"
    by (auto simp: ads_ready_def split: option.splits)
  obtain x where x: "metaRunMetaAds (script_net [r0, r1, r2, r3, r4]) mc params w = (x, w')"
    and res: "res = (case x of Inr r \<Rightarrow> r | Inl e \<Rightarrow> ads_failure (err_message e))"
    using run mc trim_nonempty[OF mc(2)]
    by (auto simp: runMetaAds_def split: prod.splits sum.splits)
  have ok: "\<And>r. x = Inr r \<Longrightarrow> ads_error r = None"
    using x mc
    by (auto simp: metaRunMetaAds_def Let_def split: prod.splits sum.splits if_splits)
  from res ok have "(ads_error res = None) = (\<exists>v. x = Inr v)"
    by (cases x) (auto simp: ads_failure_def)
  with meta_pipeline_first_failure[OF x mc(4) mc(2) start] show ?thesis
    by simp
qed

text \<open>
  Claim C7, as amended. Every request \<open>runMetaAds\<close> makes is a \<open>POST\<close>, and the
  endpoints requested are an initial segment of image upload, campaign, ad set, creative,
  ad, in this order: nothing is deleted and no stage runs out of order. A result without
  an error made all five requests; a result with an error has empty \<open>campaignId\<close>,
  \<open>adSetId\<close> and \<open>adId\<close> and status \<open>PAUSED\<close>, whatever was created before.
  Over a script of five replies and a configuration that passes the checks, the run makes
  one request more than the number of leading stages that succeed (at most five): the
  first failing stage is the last one attempted, and the result has no error exactly when
  all five succeed.
\<close>

theorem runMetaAds_pipeline:
  "(runMetaAds net config params w = (res, w') \<longrightarrow>
      (let reqs = requests_of (new_events w w') in
         trace w' = trace w @ map Fetch reqs \<and>
         length reqs \<le> 5 \<and>
         map url reqs =
           take (length reqs) (ad_stage_urls (ad_account (the (adAccountId (the (meta config)))))) \<and>
         list_all (\<lambda>r. http_method r = ''POST'') reqs \<and>
         (ads_error res = None \<longrightarrow> length reqs = 5) \<and>
         (ads_error res \<noteq> None \<longrightarrow>
            campaignId res = [] \<and> adSetId res = [] \<and> adId res = [] \<and> ads_status res = PAUSED))) \<and>
   (runMetaAds (script_net [r0, r1, r2, r3, r4]) config params w = (sres, sw') \<and>
    ads_ready config \<and> fetches (trace w) = 0 \<longrightarrow>
      length (new_events w sw') = min 5 (Suc (leading_successes 0 [r0, r1, r2, r3, r4])) \<and>
      (ads_error sres = None) = (leading_successes 0 [r0, r1, r2, r3, r4] = 5))"
  using runMetaAds_trace[of net config params w res w']
    runMetaAds_first_failure[of r0 r1 r2 r3 r4 config params w sres sw']
  by blast

lemmas ads_defs =
  runMetaAds_def metaRunMetaAds_def uploadMetaAdImage_def createMetaCampaign_def
  createMetaAdSet_def createMetaAdCreative_def createMetaAdRecordAndReturnId_def
  create_with_id_def first_image_hash_def ad_account_def ads_failure_def
  ad_image_request_def campaign_request_def ad_set_request_def creative_request_def
  ad_request_def status_string_def api_error_message_def field.simps

lemma ads_run:
  "runMetaAds (script_net [hash_reply, id_reply 100 ''cmp_1'', rejected_reply, id_reply 100 ''cr_1'',
                           id_reply 100 ''ad_1''])
     ads_config an_ad \<lparr>now = 0, trace = []\<rparr> =
     (\<lparr>campaignId = [], adSetId = [], adId = [], ads_status = PAUSED,
       ads_error = Some ''Invalid parameter''\<rparr>,
      \<lparr>now = 300,
       trace = [Fetch (ad_image_request ''act_42'' ''PAGE-TOKEN'' ''https://example.com/ad.png''),
                Fetch (campaign_request ''act_42'' ''PAGE-TOKEN'' ''Spring'' PAUSED),
                Fetch (ad_set_request ''act_42'' ''PAGE-TOKEN'' ''cmp_1'' ''Set'' 500 (JObj [])
                         ''1001'' PAUSED)]\<rparr>)"
  by (simp add: run_defs ads_defs ads_config_def an_ad_def hash_reply_def rejected_reply_def)

text \<open>
  Claim C7 as stated fails where it says that the error comes with the ids already
  created: the image is uploaded, the campaign \<open>cmp_1\<close> is created, the ad set is
  rejected, and the result carries the error with an empty \<open>campaignId\<close>.
\<close>

theorem ads_partial_ids_counterexample:
  "runMetaAds (script_net [hash_reply, id_reply 100 ''cmp_1'', rejected_reply])
     ads_config an_ad \<lparr>now = 0, trace = []\<rparr> =
     (\<lparr>campaignId = [], adSetId = [], adId = [], ads_status = PAUSED,
       ads_error = Some ''Invalid parameter''\<rparr>,
      \<lparr>now = 300,
       trace = [Fetch (ad_image_request ''act_42'' ''PAGE-TOKEN'' ''https://example.com/ad.png''),
                Fetch (campaign_request ''act_42'' ''PAGE-TOKEN'' ''Spring'' PAUSED),
                Fetch (ad_set_request ''act_42'' ''PAGE-TOKEN'' ''cmp_1'' ''Set'' 500 (JObj [])
                         ''1001'' PAUSED)]\<rparr>) \<and>
   returned_id (id_reply 100 ''cmp_1'') = Some ''cmp_1''"
  by (simp add: run_defs ads_defs ads_config_def an_ad_def hash_reply_def rejected_reply_def
        returned_id_def)

theorem runMetaAds_pipeline_witness:
  "(let net = script_net [hash_reply, id_reply 100 ''cmp_1'', rejected_reply, id_reply 100 ''cr_1'',
                          id_reply 100 ''ad_1''];
        w = \<lparr>now = 0, trace = []\<rparr>;
        (res, w') = runMetaAds net ads_config an_ad w
    in ads_ready ads_config \<and> fetches (trace w) = 0 \<and>
       leading_successes 0 [hash_reply, id_reply 100 ''cmp_1'', rejected_reply, id_reply 100 ''cr_1'',
                            id_reply 100 ''ad_1''] = 2 \<and>
       length (new_events w w') = 3 \<and>
       ads_error res = Some ''Invalid parameter'' \<and> campaignId res = [])"
proof -
  let ?rs = "[hash_reply, id_reply 100 ''cmp_1'', rejected_reply, id_reply 100 ''cr_1'',
              id_reply 100 ''ad_1'']"
  let ?w = "\<lparr>now = 0, trace = []\<rparr>"
  obtain res w' where run: "runMetaAds (script_net ?rs) ads_config an_ad ?w = (res, w')"
    by (cases "runMetaAds (script_net ?rs) ads_config an_ad ?w")
  have ready: "ads_ready ads_config"
    by (simp add: ads_ready_def ads_config_def trim_def is_space_def truthy_def)
  have lead: "leading_successes 0 ?rs = 2"
    by (simp add: stage_succeeds_def reply_json_def hash_reply_def rejected_reply_def id_reply_def
          id_text_def json_reply_def ok_def parseJson_def first_image_hash_def str_field_def truthy_def)
  have acct: "ad_account (the (adAccountId (the (meta ads_config)))) = ''act_42''"
    by (simp add: ads_config_def ad_account_def)
  have err: "ads_error res = Some ''Invalid parameter''"
    using run ads_run by auto
  from runMetaAds_pipeline[where net = "script_net ?rs" and config = ads_config and params = an_ad
      and w = ?w and res = res and w' = w' and ?r0.0 = hash_reply and ?r1.0 = "id_reply 100 ''cmp_1''"
      and ?r2.0 = rejected_reply and ?r3.0 = "id_reply 100 ''cr_1''" and ?r4.0 = "id_reply 100 ''ad_1''"
      and sres = res and sw' = w'] run ready lead acct err
  show ?thesis
    by (simp add: Let_def)
qed

section \<open>Theorems: deletePost and replyToComments\<close>

text \<open>
  Claim C9, as amended. \<open>deletePost\<close> on channel \<open>i\<close> never raises and reaches no
  vendor: for every configuration, post id and world it returns \<open>success = false\<close> with
  the error \<open>Instagram does not support deleting posts via API\<close> and leaves the world as
  it was. The result has the two fields \<open>success\<close> and \<open>error\<close> and no error kind.
\<close>

theorem deletePost_instagram:
  "deletePost net config \<lparr>del_channel = CodeI, del_postId = post\<rparr> w =
     (\<lparr>success = False, del_error = Some ''Instagram does not support deleting posts via API''\<rparr>, w)"
  by (simp add: deletePost_def instagramDeletePost_def social_error_def)

theorem deletePost_instagram_witness:
  "fst (deletePost (script_net []) ads_config \<lparr>del_channel = CodeI, del_postId = ''17900''\<rparr>
          \<lparr>now = 0, trace = []\<rparr>) =
     \<lparr>success = False, del_error = Some ''Instagram does not support deleting posts via API''\<rparr> \<and>
   trace (snd (deletePost (script_net []) ads_config \<lparr>del_channel = CodeI, del_postId = ''17900''\<rparr>
          \<lparr>now = 0, trace = []\<rparr>)) = []"
  using deletePost_instagram[of "script_net []" ads_config "''17900''" "\<lparr>now = 0, trace = []\<rparr>"]
  by simp

text \<open>
  Claim C9 as stated fails where it says the failure is distinguishable by an error kind:
  the error Instagram's adapter throws has no code, and a Facebook deletion that the
  vendor rejects with the same words returns the very same result.
\<close>

theorem deletePost_no_kind_counterexample:
  "fst (deletePost (script_net [same_words_reply]) ads_config
          \<lparr>del_channel = CodeF, del_postId = ''1001_55''\<rparr> \<lparr>now = 0, trace = []\<rparr>) =
   fst (deletePost (script_net [same_words_reply]) ads_config
          \<lparr>del_channel = CodeI, del_postId = ''17900''\<rparr> \<lparr>now = 0, trace = []\<rparr>) \<and>
   instagramDeletePost (meta ads_config) ''17900'' =
     Inl (SocialPostingError ''Instagram does not support deleting posts via API'' None None)"
  by (simp add: deletePost_def instagramDeletePost_def social_error_def metaDeletePost_def
        delete_call_def delete_outcome_def ads_config_def same_words_reply_def run_defs
        api_error_message_def)

lemma reply_chunks_single:
  "reply_chunks net config opt [req] 0 st = reply_one net config st req"
proof -
  have "\<not> batch_limit opt < 1" using batch_limit_pos[of opt] by simp
  then obtain k where k: "batch_limit opt = Suc k"
    by (cases "batch_limit opt") auto
  show ?thesis
    by (subst reply_chunks.simps, subst reply_chunks.simps) (simp add: k)
qed

text \<open>
  Claim C8, at the input where the code departs from it. A LinkedIn reply request with a
  post id and no comment id, on a client with a LinkedIn access token, is not skipped:
  whatever the vendor answers, the one request is attempted (one vendor call) and ends in
  \<open>results\<close> or in \<open>failed\<close>.
\<close>

theorem replyToComments_linkedin_without_comment:
  "(let (res, w') = replyToComments net li_config [li_reply_without_comment] batchLimit w;
        attempt_request = linkedin_comment_request (the (linkedin li_config)) ''urn:li:share:1''
                            ''Thanks'' None
    in batch_skipped res = [] \<and>
       length (batch_results res) + length (batch_failed res) = 1 \<and>
       new_events w w' = [Fetch attempt_request])"
  by (auto simp: replyToComments_def reply_chunks_single reply_one_def li_config_def
        li_reply_without_comment_def truthy_def attempted_def linkedInReplyToComment_def
        trim_def is_space_def fetchWithTimeout_def fetched_def new_events_def Let_def
      split: prod.splits sum.splits fetch_outcome.splits option.splits)

theorem replyToComments_linkedin_without_comment_witness:
  "replyToComments (script_net [li_comment_created]) li_config [li_reply_without_comment] None
     \<lparr>now = 0, trace = []\<rparr> =
     (\<lparr>batch_results = [\<lparr>reply_channel = ''LinkedIn'', reply_code = CodeL, reply_commentId = None,
                           replyId = Some ''6789''\<rparr>],
       batch_failed = [], batch_skipped = [], batch_status = Full\<rparr>,
      \<lparr>now = 100,
       trace = [Fetch (linkedin_comment_request (the (linkedin li_config)) ''urn:li:share:1''
                         ''Thanks'' None)]\<rparr>)"
  using replyToComments_linkedin_without_comment[of "script_net [li_comment_created]" None
          "\<lparr>now = 0, trace = []\<rparr>"]
  by (simp add: replyToComments_def reply_chunks_single reply_one_def li_config_def
        li_reply_without_comment_def truthy_def attempted_def linkedInReplyToComment_def
        trim_def is_space_def fetchWithTimeout_def fetched_def script_net_def fetches_def
        li_comment_created_def throwIfNotOk_def ok_def CODE_TO_PLATFORM_LABEL_def Let_def)

section \<open>Theorems: cross-posting\<close>

text \<open>
  What one turn of the loop of \<open>crossPost\<close> adds to the two lists. The failure branch
  pushes one result with an error and one entry of \<open>failed\<close>; a post that went through
  pushes one result without an error; and when the listener for finished platforms throws
  after a push, the \<open>catch\<close> block pushes a second result for the same platform.
\<close>

lemma push_failure_lists:
  assumes "push_failure options c ct fm rm st = (t, st')"
  shows "st_results st' = st_results st @
           [\<lparr>platform = CODE_TO_PLATFORM_LABEL c, code = c, postId = None, error = Some rm,
             content = Some ct, permalink = None, postedAt = None, attempt = None\<rparr>]"
    and "st_failed st' = st_failed st @
           [\<lparr>failed_platform = CODE_TO_PLATFORM_LABEL c, failed_error = fm\<rparr>]"
    and "st_maxAttempt st' = st_maxAttempt st"
  using assms by (auto simp: push_failure_def Let_def split: prod.splits)

lemma notify_done_quiet: "quiet options \<Longrightarrow> fst (notify_done options c pr w) = None"
  by (auto simp: quiet_def notify_done_def split: option.splits)

lemma push_failure_quiet:
  "quiet options \<Longrightarrow> fst (push_failure options c ct fm rm st) = None"
  using notify_done_quiet[of options c _ "st_world st"]
  by (auto simp: push_failure_def Let_def split: prod.splits) (metis fst_conv)

lemma withRetries_loop_value:
  "withRetries_loop sl fn n d a le s = (Inr (v, k), s') \<Longrightarrow> \<exists>s0 s1. fn s0 = (Inr v, s1)"
proof (induction sl fn n d a le s rule: withRetries_loop.induct)
  case (1 sl fn n d a le s)
  note run = "1.prems"[unfolded withRetries_loop.simps[of sl fn n d a le s]]
  obtain x s1 where fs: "fn s = (x, s1)" by (cases "fn s")
  show ?case
  proof (cases x)
    case (Inr r)
    with run fs have "r = v" by (auto split: if_splits)
    with fs Inr show ?thesis by blast
  next
    case (Inl e)
    with run fs have go: "a \<le> n + 1" "a \<le> n \<and> isRetryableError e"
      and rest: "withRetries_loop sl fn n d (a + 1) (Some e) (sl d s1) = (Inr (v, k), s')"
      by (auto split: if_splits)
    from "1.IH"[OF go(1) fs[symmetric] Inl go(2) rest] show ?thesis .
  qed
qed

lemma withRetries_value:
  "withRetries sl fn opts s = (Inr (v, k), s') \<Longrightarrow> \<exists>s0 s1. fn s0 = (Inr v, s1)"
  by (auto simp: withRetries_def Let_def dest: withRetries_loop_value)

lemma notify_done_cases:
  obtains t w' where "notify_done options c pr w = (t, w')"
  by (cases "notify_done options c pr w") auto

lemma doPost_value:
  "doPost c ct adapter w = (Inr pr, w') \<Longrightarrow>
     code pr = c \<and> error pr = None \<and> content pr = Some ct \<and>
     (\<exists>res. postId pr = Some (post_postId res) \<and> adapter w = (Inr res, w'))"
  by (auto simp: doPost_def split: prod.splits sum.splits)

lemma post_with_retries_value:
  assumes "post_with_retries params post w = (Inr (pr, k), w')"
  shows "\<exists>w0 w1. post w0 = (Inr pr, w1)"
  using assms
  by (auto simp: post_with_retries_def Let_def split: if_splits prod.splits sum.splits
      dest: withRetries_value)

lemma run_adapter_lists:
  assumes run: "run_adapter options params c ct adapter st = (t, st')"
  shows "st_failed st' = st_failed st"
    and "(t \<noteq> None \<and> st_results st' = st_results st) \<or>
         (\<exists>pr res w0 w1. st_results st' = st_results st @ [pr] \<and> code pr = c \<and>
             error pr = None \<and> content pr = Some ct \<and>
             postId pr = Some (post_postId res) \<and> adapter w0 = (Inr res, w1))"
    and "quiet options \<Longrightarrow> t = None \<or> st_results st' = st_results st"
proof -
  obtain r w1 where inner: "post_with_retries params (doPost c ct adapter) (st_world st) = (r, w1)"
    by (cases "post_with_retries params (doPost c ct adapter) (st_world st)")
  show "st_failed st' = st_failed st"
    using run inner
    by (auto simp: run_adapter_def Let_def split: prod.splits sum.splits)
  show "(t \<noteq> None \<and> st_results st' = st_results st) \<or>
         (\<exists>pr res w0 w1. st_results st' = st_results st @ [pr] \<and> code pr = c \<and>
             error pr = None \<and> content pr = Some ct \<and>
             postId pr = Some (post_postId res) \<and> adapter w0 = (Inr res, w1))"
  proof (cases r)
    case (Inl e)
    with run inner show ?thesis
      by (auto simp: run_adapter_def Let_def split: prod.splits sum.splits)
  next
    case (Inr pk)
    obtain pr k where pk: "pk = (pr, k)" by (cases pk)
    from post_with_retries_value[OF inner[unfolded Inr pk]]
    obtain w0 w0' where d: "doPost c ct adapter w0 = (Inr pr, w0')" by blast
    from doPost_value[OF d] obtain res where pr: "code pr = c" "error pr = None"
      "content pr = Some ct" "postId pr = Some (post_postId res)" "adapter w0 = (Inr res, w0')"
      by blast
    from run inner Inr pk have "st_results st' = st_results st @ [pr\<lparr>attempt := Some k\<rparr>]"
      by (auto simp: run_adapter_def Let_def split: prod.splits sum.splits)
    with pr show ?thesis by auto
  qed
  show "t = None \<or> st_results st' = st_results st" if "quiet options"
  proof (cases r)
    case (Inl e)
    with run inner show ?thesis
      by (auto simp: run_adapter_def Let_def split: prod.splits sum.splits)
  next
    case (Inr pk)
    obtain pr k where pk: "pk = (pr, k)" by (cases pk)
    from run inner Inr pk have "t = fst (notify_done options c (pr\<lparr>attempt := Some k\<rparr>) w1)"
      by (auto simp: run_adapter_def Let_def split: prod.splits sum.splits)
    with notify_done_quiet[OF that] show ?thesis by auto
  qed
qed

lemma appended_trans:
  "appended img c ct st st1 new1 \<Longrightarrow> appended img c ct st1 st' new2 \<Longrightarrow>
   appended img c ct st st' (new1 @ new2)"
  by (auto simp: appended_def)

lemma appended_world [simp]:
  "appended img c ct (st\<lparr>st_world := w\<rparr>) st' new = appended img c ct st st' new"
  "appended img c ct st (st'\<lparr>st_world := w\<rparr>) new = appended img c ct st st' new"
  by (auto simp: appended_def)

lemma appended_refl [simp]: "appended img c ct st st []"
  by (simp add: appended_def)

lemma push_failure_appended:
  assumes "push_failure options c ct fm rm st = (t, st')"
  shows "\<exists>x. appended img c ct st st' [x]"
  using push_failure_lists[OF assms]
  by (simp add: appended_def threads_guard_respected_def has_error_def)

lemma not_truthy_trim: "\<not> truthy i \<Longrightarrow> \<not> truthy (map_option trim i)"
  by (cases i) (simp_all add: truthy_def trim_def)

lemma postToThreads_refuses:
  assumes "too_long (Some (threads_content params)) \<or>
           (trim (threads_content params) = [] \<and> \<not> truthy (threads_imageUrl params))"
  shows "\<exists>e. postToThreads net cfg params w = (Inl e, w)"
  using assms not_truthy_trim[of "threads_imageUrl params"]
  by (auto simp: postToThreads_def too_long_def Let_def)

lemma run_adapter_appended:
  assumes run: "run_adapter options params c ct adapter st = (t, st')"
    and refuses: "c = CodeT \<Longrightarrow> too_long (Some ct) \<or> (trim ct = [] \<and> \<not> truthy img) \<Longrightarrow>
                  \<forall>w. \<exists>e. adapter w = (Inl e, w)"
  shows "(t \<noteq> None \<and> appended img c ct st st' []) \<or> (\<exists>x. appended img c ct st st' [x])"
proof -
  from run_adapter_lists(2)[OF run]
  consider "t \<noteq> None" "st_results st' = st_results st"
    | pr res w0 w1 where "st_results st' = st_results st @ [pr]" "code pr = c" "error pr = None"
        "content pr = Some ct" "postId pr = Some (post_postId res)" "adapter w0 = (Inr res, w1)"
    by blast
  then show ?thesis
  proof cases
    case 1
    with run_adapter_lists(1)[OF run] show ?thesis by (simp add: appended_def)
  next
    case 2
    have "threads_guard_respected img pr"
    proof (cases "c = CodeT \<and> (too_long (Some ct) \<or> (trim ct = [] \<and> \<not> truthy img))")
      case True
      with refuses 2(6) show ?thesis by (metis Pair_inject sum.distinct(1))
    next
      case False
      with 2 show ?thesis by (auto simp: threads_guard_respected_def blank_def)
    qed
    with 2 run_adapter_lists(1)[OF run] have "appended img c ct st st' [pr]"
      by (simp add: appended_def has_error_def)
    then show ?thesis by blast
  qed
qed

lemma attempt_platform_appended:
  assumes "attempt_platform net li config options params img c ct st = (t, st')"
  shows "(t \<noteq> None \<and> appended img c ct st st' []) \<or> (\<exists>x. appended img c ct st st' [x])"
proof (cases c)
  case CodeF
  with assms show ?thesis
    by (auto simp: attempt_platform_def split: if_splits
        dest: push_failure_appended run_adapter_appended)
next
  case CodeI
  with assms show ?thesis
    by (auto simp: attempt_platform_def split: if_splits
        dest: push_failure_appended run_adapter_appended)
next
  case CodeL
  with assms show ?thesis
    by (auto simp: attempt_platform_def Let_def split: if_splits
        dest: push_failure_appended run_adapter_appended)
next
  case CodeT
  define uid where "uid = (case threadsUserId params of
                        Some u \<Rightarrow> Some (trim u)
                      | None \<Rightarrow> map_option (\<lambda>tc. trim (threads_userId tc)) (threads config))"
  define tok where "tok = (case threadsAccessToken params of
                        Some t \<Rightarrow> Some (trim t)
                      | None \<Rightarrow> map_option (\<lambda>tc. trim (threads_accessToken tc)) (threads config))"
  show ?thesis
  proof (cases "\<not> truthy uid \<or> \<not> truthy tok")
    case True
    with assms CodeT have "push_failure options c ct
        ''Threads config missing (userId, accessToken) or pass in params''
        ''Threads config missing (userId, accessToken)'' st = (t, st')"
      by (simp add: attempt_platform_def Let_def uid_def tok_def)
    from push_failure_appended[OF this] show ?thesis by blast
  next
    case False
    let ?p = "\<lparr>threads_content = ct, threads_imageUrl = img, altText = param_altText params,
               linkAttachment = param_linkAttachment params\<rparr>"
    let ?cfg = "\<lparr>threads_userId = the uid, threads_accessToken = the tok\<rparr>"
    from False assms CodeT
    have run: "run_adapter options params c ct (postToThreads net ?cfg ?p) st = (t, st')"
      by (simp add: attempt_platform_def Let_def uid_def tok_def)
    have "\<forall>w. \<exists>e. postToThreads net ?cfg ?p w = (Inl e, w)"
      if "too_long (Some ct) \<or> (trim ct = [] \<and> \<not> truthy img)"
      using postToThreads_refuses[of ?p net ?cfg] that by simp
    with run_adapter_appended[OF run, of img] show ?thesis by blast
  qed
qed

lemma push_failure_quiet_None:
  "quiet options \<Longrightarrow> push_failure options c ct fm rm st = (t, st') \<Longrightarrow> t = None"
  using push_failure_quiet[of options c ct fm rm st] by simp

lemma attempt_platform_quiet:
  assumes "quiet options"
    and "attempt_platform net li config options params img c ct st = (t, st')"
  shows "t = None \<or> st_results st' = st_results st"
  using assms
  by (cases c)
     (auto simp: attempt_platform_def Let_def split: if_splits
       dest: push_failure_quiet_None run_adapter_lists(3))

lemma post_one_appended:
  assumes "post_one net li config options params img c st = (t, st')"
  shows "\<exists>ct new. appended img c ct st st' new \<and> (quiet options \<and> t = None \<longrightarrow> length new = 1)"
proof -
  obtain x w1 where prep: "prepare_content options params c (st_world st) = (x, w1)"
    by (cases "prepare_content options params c (st_world st)")
  show ?thesis
  proof (cases x)
    case (Inl e)
    with assms prep have "t = Some e" "st' = st\<lparr>st_world := w1\<rparr>"
      by (auto simp: post_one_def)
    then have "appended img c [] st st' []" "t \<noteq> None" by simp_all
    then show ?thesis by blast
  next
    case (Inr ct)
    obtain s w2 where start: "notify_start options c w1 = (s, w2)"
      by (cases "notify_start options c w1")
    show ?thesis
    proof (cases s)
      case (Some e)
      with assms prep Inr start have "t = Some e" "st' = st\<lparr>st_world := w2\<rparr>"
        by (auto simp: post_one_def)
      then have "appended img c ct st st' []" "t \<noteq> None" by simp_all
      then show ?thesis by blast
    next
      case None
      obtain t1 st1 where att:
        "attempt_platform net li config options params img c ct (st\<lparr>st_world := w2\<rparr>) = (t1, st1)"
        by (cases "attempt_platform net li config options params img c ct (st\<lparr>st_world := w2\<rparr>)")
      from attempt_platform_appended[OF att]
      have step: "(t1 \<noteq> None \<and> appended img c ct st st1 []) \<or> (\<exists>x. appended img c ct st st1 [x])"
        by simp
      show ?thesis
      proof (cases t1)
        case None
        with assms prep Inr start \<open>s = None\<close> att have fin: "t = None" "st' = st1"
          by (auto simp: post_one_def)
        from step None obtain x where "appended img c ct st st1 [x]" by auto
        with fin have "appended img c ct st st' [x] \<and> length [x] = 1" by simp
        then show ?thesis by blast
      next
        case (Some err)
        with assms prep Inr start \<open>s = None\<close> att
        have catch: "push_failure options c ct (err_message err) (err_message err) st1 = (t, st')"
          by (auto simp: post_one_def)
        from push_failure_appended[OF catch] obtain y where y: "appended img c ct st1 st' [y]" ..
        from step show ?thesis
        proof
          assume "t1 \<noteq> None \<and> appended img c ct st st1 []"
          with appended_trans[OF _ y, of st "[]"] have "appended img c ct st st' [y]" by simp
          then show ?thesis by force
        next
          assume "\<exists>x. appended img c ct st st1 [x]"
          then obtain x where x: "appended img c ct st st1 [x]" ..
          from appended_trans[OF x y] have a: "appended img c ct st st' [x, y]" by simp
          have "\<not> quiet options"
          proof
            assume q: "quiet options"
            from attempt_platform_quiet[OF q att] Some x show False
              by (simp add: appended_def)
          qed
          with a show ?thesis by blast
        qed
      qed
    qed
  qed
qed

lemma appended_codes:
  "appended img c ct st st' new \<Longrightarrow> length new = 1 \<Longrightarrow> map code new = [c]"
  by (cases new) (auto simp: appended_def)

lemma appended_limit:
  "appended img c ct st st' new \<Longrightarrow> list_all (threads_guard_respected img) new"
  by (auto simp: appended_def list_all_iff)

lemma cross_loop_appended:
  "cross_loop net li config options params img cs st = (t, st') \<Longrightarrow>
   \<exists>new. st_results st' = st_results st @ new \<and> list_all (threads_guard_respected img) new \<and>
         length (st_failed st') = length (st_failed st) + length (filter has_error new) \<and>
         (quiet options \<and> t = None \<longrightarrow> map code new = cs)"
proof (induction cs arbitrary: st)
  case Nil
  then show ?case by simp
next
  case (Cons c cs)
  obtain t1 st1 where one: "post_one net li config options params img c st = (t1, st1)"
    by (cases "post_one net li config options params img c st")
  from post_one_appended[OF one] obtain ct new1
    where a: "appended img c ct st st1 new1"
      and q: "quiet options \<and> t1 = None \<longrightarrow> length new1 = 1"
    by blast
  show ?case
  proof (cases t1)
    case (Some e)
    with Cons.prems one have "t = Some e" "st' = st1" by simp_all
    with a show ?thesis
      by (intro exI[of _ new1]) (simp add: appended_def list_all_iff)
  next
    case None
    with Cons.prems one have rest: "cross_loop net li config options params img cs st1 = (t, st')"
      by simp
    from Cons.IH[OF rest] obtain new2
      where b: "st_results st' = st_results st1 @ new2" "list_all (threads_guard_respected img) new2"
        "length (st_failed st') = length (st_failed st1) + length (filter has_error new2)"
        "quiet options \<and> t = None \<longrightarrow> map code new2 = cs"
      by blast
    have "quiet options \<and> t = None \<longrightarrow> map code (new1 @ new2) = c # cs"
      using appended_codes[OF a] q b(4) None by simp
    with a b show ?thesis
      by (intro exI[of _ "new1 @ new2"]) (auto simp: appended_def list_all_iff)
  qed
qed

lemma crossPost_returns:
  assumes "crossPost net li config options params w = (Inr r, w')"
  shows "\<exists>img w1 st. cross_loop net li config options params img (postOn params)
            \<lparr>st_results = [], st_failed = [], st_maxAttempt = 1, st_world = w1\<rparr> = (None, st) \<and>
          platformResults r = st_results st \<and> failed r = st_failed st \<and>
          batchStatus r = derive_status (st_results st) (st_failed st) \<and>
          (no_image params \<longrightarrow> \<not> truthy img)"
  using assms
  by (fastforce simp: crossPost_def Let_def no_image_def
      split: if_splits prod.splits sum.splits option.splits)

lemma crossPost_lists:
  assumes "crossPost net li config options params w = (Inr r, w')"
  shows "\<forall>x \<in> set (platformResults r).
           code x = CodeT \<and> (too_long (content x) \<or> (blank (content x) \<and> no_image params))
             \<longrightarrow> has_error x \<and> postId x = None"
    and "length (failed r) = length (filter has_error (platformResults r))"
    and "quiet options \<Longrightarrow> map code (platformResults r) = postOn params"
    and "batchStatus r = derive_status (platformResults r) (failed r)"
proof -
  from crossPost_returns[OF assms] obtain img w1 st
    where loop: "cross_loop net li config options params img (postOn params)
            \<lparr>st_results = [], st_failed = [], st_maxAttempt = 1, st_world = w1\<rparr> = (None, st)"
      and r: "platformResults r = st_results st" "failed r = st_failed st"
        "batchStatus r = derive_status (st_results st) (st_failed st)"
      and img: "no_image params \<longrightarrow> \<not> truthy img"
    by blast
  from cross_loop_appended[OF loop] r
  have "list_all (threads_guard_respected img) (platformResults r)"
    and rest: "length (failed r) = length (filter has_error (platformResults r))"
      "quiet options \<Longrightarrow> map code (platformResults r) = postOn params"
      "batchStatus r = derive_status (platformResults r) (failed r)"
    by auto
  with img show "\<forall>x \<in> set (platformResults r).
           code x = CodeT \<and> (too_long (content x) \<or> (blank (content x) \<and> no_image params))
             \<longrightarrow> has_error x \<and> postId x = None"
    by (auto simp: list_all_iff threads_guard_respected_def)
  from rest show "length (failed r) = length (filter has_error (platformResults r))"
    and "quiet options \<Longrightarrow> map code (platformResults r) = postOn params"
    and "batchStatus r = derive_status (platformResults r) (failed r)"
    by auto
qed

text \<open>Runs of \<open>crossPost\<close> on scripted networks.\<close>

lemmas cross_defs =
  crossPost_def post_one_def prepare_content_def notify_start_def notify_done_def
  attempt_platform_def run_adapter_def post_with_retries_def doPost_def push_failure_def
  derive_status_def appendHashtags_def normalizeHashtags_def sanitizeContent_def
  replace_cr_def threads_only_def th_config_def plain_options_def text_post_def
  storing_options_def failing_store_def start_world_def err_message.simps
  CODE_TO_PLATFORM_LABEL_def

lemma partial_run:
  "crossPost (script_net [id_reply 100 ''t8'', empty_object_reply]) linkedin_offline
          threads_only plain_options (text_post\<lparr>postOn := [CodeF, CodeT]\<rparr>) start_world =
   (Inr \<lparr>platformResults =
          [\<lparr>platform = ''Facebook'', code = CodeF, postId = None,
            error = Some ''Meta config missing (pageAccessToken, pageId)'',
            content = Some ''Hello'', permalink = None, postedAt = None, attempt = None\<rparr>,
           \<lparr>platform = ''Threads'', code = CodeT, postId = Some ''t8'', error = None,
            content = Some ''Hello'', permalink = None, postedAt = Some 200, attempt = Some 1\<rparr>],
        failed = [\<lparr>failed_platform = ''Facebook'',
                   failed_error = ''Meta config missing (pageAccessToken, pageId)''\<rparr>],
        batchStatus = Partial, maxAttempt = None\<rparr>,
    \<lparr>now = 200, trace = map Fetch [threads_create_request th_config
        \<lparr>threads_content = ''Hello'', threads_imageUrl = None, altText = None, linkAttachment = None\<rparr>,
        get_fields (THREADS_BASE @ ''/t8'') ''permalink'' ''TH-TOKEN'']\<rparr>)"
  by (simp add: cross_defs run_defs empty_object_reply_def)

lemma dropWhile_letters: "\<not> P c \<Longrightarrow> dropWhile P (replicate n c) = replicate n c"
  by (cases n) simp_all

lemma trim_letters: "\<not> is_space c \<Longrightarrow> trim (replicate n c) = replicate n c"
  by (simp add: trim_def dropWhile_letters)

lemma trim_th_config:
  "trim (threads_userId th_config) = ''77''" "trim (threads_accessToken th_config) = ''TH-TOKEN''"
  "trim ''77'' = ''77''" "trim ''TH-TOKEN'' = ''TH-TOKEN''"
  by (simp_all add: th_config_def trim_def is_space_def)

lemma replace_crlf_letters: "c \<noteq> CHR 0x0D \<Longrightarrow> replace_crlf (replicate n c) = replicate n c"
proof (induction n)
  case 0
  then show ?case by simp
next
  case (Suc n)
  then show ?case by (cases n) simp_all
qed

lemma sanitize_long_text: "sanitizeContent long_text = long_text"
  by (simp add: sanitizeContent_def long_text_def replace_crlf_letters replace_cr_def
      trim_letters is_space_def)

lemma trim_long_text: "trim long_text = long_text"
  by (simp add: long_text_def trim_letters is_space_def)

lemma length_long_text: "length long_text = 501"
  by (simp add: long_text_def)

lemma long_text_nonempty: "long_text \<noteq> []"
  using length_long_text by auto

lemmas long_defs =
  crossPost_def post_one_def prepare_content_def notify_start_def notify_done_def
  attempt_platform_def run_adapter_def post_with_retries_def doPost_def push_failure_def
  derive_status_def appendHashtags_def normalizeHashtags_def
  threads_only_def trim_th_config plain_options_def text_post_def
  start_world_def err_message.simps CODE_TO_PLATFORM_LABEL_def

lemma long_text_run:
  "crossPost (script_net []) linkedin_offline threads_only plain_options
          (text_post\<lparr>param_content := long_text\<rparr>) start_world =
   (Inr \<lparr>platformResults =
          [\<lparr>platform = ''Threads'', code = CodeT, postId = None,
            error = Some ''Threads post text cannot exceed 500 characters'',
            content = Some long_text, permalink = None, postedAt = None, attempt = None\<rparr>],
        failed = [\<lparr>failed_platform = ''Threads'',
                   failed_error = ''Threads post text cannot exceed 500 characters''\<rparr>],
        batchStatus = Failed, maxAttempt = None\<rparr>, start_world)"
  by (simp add: long_defs sanitize_long_text trim_long_text length_long_text long_text_nonempty
      postToThreads_def truthy_def THREADS_TEXT_MAX_LENGTH_def social_error_def Let_def
      show_nat.simps)

lemma postToThreads_guard:
  assumes "too_long (Some (threads_content p)) \<or>
           (trim (threads_content p) = [] \<and> \<not> truthy (map_option trim (threads_imageUrl p)))"
  shows "\<exists>m. postToThreads net cfg p w = (Inl (SocialPostingError m None None), w)"
  using assms by (auto simp: postToThreads_def Let_def too_long_def social_error_def)

text \<open>
  Claim C1, for a client whose listener for finished platforms does not throw (or that has
  none): whenever \<open>crossPost\<close> returns, \<open>platformResults\<close> holds exactly one result for
  each element of \<open>postOn\<close>, in the order of \<open>postOn\<close>, whatever the configuration, the
  network and the adapters do. (When the content adapter, the start listener or the image
  upload throws, \<open>crossPost\<close> throws and returns no list.)
\<close>

theorem crossPost_one_result_each:
  assumes "quiet options"
    and "crossPost net li config options params w = (Inr r, w')"
  shows "map code (platformResults r) = postOn params"
  using crossPost_lists(3)[OF assms(2) assms(1)] .

theorem crossPost_one_result_each_witness:
  "quiet plain_options \<and>
   (\<exists>r w'. crossPost (script_net [id_reply 100 ''t8'', empty_object_reply]) linkedin_offline
              threads_only plain_options (text_post\<lparr>postOn := [CodeF, CodeT]\<rparr>) start_world =
            (Inr r, w') \<and>
           map code (platformResults r) = [CodeF, CodeT] \<and>
           map error (platformResults r) =
             [Some ''Meta config missing (pageAccessToken, pageId)'', None])"
proof -
  have q: "quiet plain_options"
    by (simp add: quiet_def plain_options_def)
  from crossPost_one_result_each[OF q partial_run] partial_run q show ?thesis
    by (simp add: text_post_def)
qed

text \<open>
  Claim C1 fails on the code when the listener throws: \<open>onPlatformDone\<close> is called
  inside the \<open>try\<close> block, after the result was pushed, and the \<open>catch\<close> block pushes
  again. Here Threads is the one platform asked for and the post goes through with the id
  \<open>t8\<close>; the listener throws on it; the batch returned holds two results for Threads, the
  post and a failure, lists Threads in \<open>failed\<close>, and is \<open>partial\<close>.
\<close>

theorem crossPost_throwing_listener:
  "fst (crossPost (script_net [id_reply 100 ''t8'', empty_object_reply]) linkedin_offline
          threads_only storing_options text_post start_world) =
   Inr \<lparr>platformResults =
          [\<lparr>platform = ''Threads'', code = CodeT, postId = Some ''t8'', error = None,
            content = Some ''Hello'', permalink = None, postedAt = Some 200, attempt = Some 1\<rparr>,
           \<lparr>platform = ''Threads'', code = CodeT, postId = None, error = Some ''store unavailable'',
            content = Some ''Hello'', permalink = None, postedAt = None, attempt = None\<rparr>],
        failed = [\<lparr>failed_platform = ''Threads'', failed_error = ''store unavailable''\<rparr>],
        batchStatus = Partial, maxAttempt = None\<rparr>"
  by (simp add: cross_defs run_defs empty_object_reply_def)

text \<open>
  Claim C2, as amended. Whenever \<open>crossPost\<close> returns, \<open>batchStatus\<close> is \<open>full\<close>
  exactly when \<open>failed\<close> is empty; it is \<open>failed\<close> exactly when \<open>failed\<close> is not empty
  and no result has a post id; it is \<open>partial\<close> exactly when \<open>failed\<close> is not empty and
  some result has a post id. \<open>failed\<close> has one entry for each result that carries an
  error, so the status is a function of the list of results alone.
\<close>

theorem crossPost_batchStatus:
  assumes "crossPost net li config options params w = (Inr r, w')"
  shows "(batchStatus r = Full \<longleftrightarrow> failed r = []) \<and>
         (batchStatus r = Failed \<longleftrightarrow>
            failed r \<noteq> [] \<and> filter has_postId (platformResults r) = []) \<and>
         (batchStatus r = Partial \<longleftrightarrow>
            failed r \<noteq> [] \<and> filter has_postId (platformResults r) \<noteq> []) \<and>
         length (failed r) = length (filter has_error (platformResults r)) \<and>
         batchStatus r = outcome_status (platformResults r)"
proof -
  note l = crossPost_lists(2)[OF assms] and d = crossPost_lists(4)[OF assms]
  have same: "(\<lambda>r. truthy (postId r)) = has_postId"
    by (simp add: has_postId_def fun_eq_iff)
  from l have e: "failed r = [] \<longleftrightarrow> filter has_error (platformResults r) = []"
    by (metis length_0_conv)
  show ?thesis
    using l e by (simp add: d derive_status_def outcome_status_def same)
qed

theorem crossPost_batchStatus_witness:
  "\<exists>r w'. crossPost (script_net [id_reply 100 ''t8'', empty_object_reply]) linkedin_offline
              threads_only plain_options (text_post\<lparr>postOn := [CodeF, CodeT]\<rparr>) start_world =
            (Inr r, w') \<and>
          batchStatus r = Partial \<and> length (failed r) = 1 \<and>
          map has_postId (platformResults r) = [False, True] \<and>
          map has_error (platformResults r) = [True, False]"
  using crossPost_batchStatus[OF partial_run] partial_run
  by (simp add: has_postId_def has_error_def truthy_def)

text \<open>
  Claim C2 as stated fails on the empty list: with \<open>postOn = []\<close> no result has a post id,
  and the status is \<open>full\<close>, not \<open>failed\<close>.
\<close>

theorem crossPost_empty_counterexample:
  "fst (crossPost (script_net []) linkedin_offline threads_only plain_options
          (text_post\<lparr>postOn := []\<rparr>) start_world) =
   Inr \<lparr>platformResults = [], failed = [], batchStatus = Full, maxAttempt = None\<rparr>"
  by (simp add: cross_defs)

text \<open>
  Claim C3, as amended. When \<open>imageBuffer\<close> is not empty, no image URL is given and the
  client has no \<open>uploadImage\<close> option, \<open>crossPost\<close> throws
  \<open>imageBuffer provided but no uploadImage option; pass imageUrl or set uploadImage in options\<close>
  before it turns to any platform: the call fails as a whole, whatever \<open>postOn\<close> holds,
  and the world is left as it was.
\<close>

theorem crossPost_buffer_without_upload:
  assumes "imageBuffer params = Some b" and "b \<noteq> []"
    and "\<not> truthy (map_option trim (imageUrl params))"
    and "uploadImage options = None"
  shows "crossPost net li config options params w =
         (Inl (JsError (''imageBuffer provided but no uploadImage option; '' @
                        ''pass imageUrl or set uploadImage in options'')), w)"
  using assms by (simp add: crossPost_def Let_def)

theorem crossPost_buffer_without_upload_witness:
  "crossPost (script_net []) linkedin_offline ads_config plain_options
     (text_post\<lparr>postOn := [CodeF, CodeI], imageBuffer := Some [137, 80, 78, 71]\<rparr>) start_world =
   (Inl (JsError (''imageBuffer provided but no uploadImage option; '' @
                  ''pass imageUrl or set uploadImage in options'')), start_world)"
  using crossPost_buffer_without_upload[of
      "text_post\<lparr>postOn := [CodeF, CodeI], imageBuffer := Some [137, 80, 78, 71]\<rparr>"
      "[137, 80, 78, 71]" plain_options "script_net []" linkedin_offline ads_config start_world]
  by (simp add: text_post_def plain_options_def truthy_def)

text \<open>
  Claim C3 as stated fails: a text post for Threads alone, which needs no image, with an
  image buffer and no \<open>uploadImage\<close> option returns no batch; the call throws and
  reaches no platform.
\<close>

theorem crossPost_buffer_counterexample:
  "fst (crossPost (script_net []) linkedin_offline threads_only plain_options
          (text_post\<lparr>imageBuffer := Some [137, 80, 78, 71]\<rparr>) start_world) =
     Inl (JsError (''imageBuffer provided but no uploadImage option; '' @
                   ''pass imageUrl or set uploadImage in options'')) \<and>
   postOn text_post = [CodeT] \<and>
   trace (snd (crossPost (script_net []) linkedin_offline threads_only plain_options
          (text_post\<lparr>imageBuffer := Some [137, 80, 78, 71]\<rparr>) start_world)) = []"
  by (simp add: cross_defs truthy_def)

lemma blank_run:
  "crossPost (script_net []) linkedin_offline threads_only plain_options
          (text_post\<lparr>param_content := blank_text\<rparr>) start_world =
   (Inr \<lparr>platformResults =
          [\<lparr>platform = ''Threads'', code = CodeT, postId = None,
            error = Some ''Threads post requires content or image'',
            content = Some [], permalink = None, postedAt = None, attempt = None\<rparr>],
        failed = [\<lparr>failed_platform = ''Threads'',
                   failed_error = ''Threads post requires content or image''\<rparr>],
        batchStatus = Failed, maxAttempt = None\<rparr>, start_world)"
  by (simp add: cross_defs run_defs blank_text_def)

text \<open>
  Claim C10. When the trimmed text is longer than 500 characters, or when the text is blank
  and there is no image, \<open>postToThreads\<close> throws a \<open>SocialPostingError\<close> and leaves the
  world as it was: no request was sent. And in every batch \<open>crossPost\<close> returns, a result
  for channel \<open>t\<close> whose content is longer than 500 characters, or whose content is blank
  when the call gave no image (no image URL that is not blank and no image bytes), carries
  an error and no post id.
\<close>

theorem threads_text_limit:
  "(too_long (Some (threads_content p)) \<or>
    (trim (threads_content p) = [] \<and> \<not> truthy (map_option trim (threads_imageUrl p)))
      \<longrightarrow> (\<exists>m. postToThreads net cfg p w = (Inl (SocialPostingError m None None), w))) \<and>
   (crossPost net' li config options params w0 = (Inr r, w') \<longrightarrow>
      (\<forall>x \<in> set (platformResults r).
          code x = CodeT \<and> (too_long (content x) \<or> (blank (content x) \<and> no_image params))
            \<longrightarrow> error x \<noteq> None \<and> postId x = None))"
proof (intro conjI impI)
  assume "too_long (Some (threads_content p)) \<or>
    (trim (threads_content p) = [] \<and> \<not> truthy (map_option trim (threads_imageUrl p)))"
  then show "\<exists>m. postToThreads net cfg p w = (Inl (SocialPostingError m None None), w)"
    by (rule postToThreads_guard)
next
  assume "crossPost net' li config options params w0 = (Inr r, w')"
  from crossPost_lists(1)[OF this]
  show "\<forall>x \<in> set (platformResults r).
          code x = CodeT \<and> (too_long (content x) \<or> (blank (content x) \<and> no_image params))
            \<longrightarrow> error x \<noteq> None \<and> postId x = None"
    by (simp add: has_error_def)
qed

theorem threads_text_limit_witness:
  "too_long (Some long_text) \<and> blank (Some []) \<and>
   no_image (text_post\<lparr>param_content := blank_text\<rparr>) \<and>
   (\<exists>m. postToThreads (script_net []) th_config
           \<lparr>threads_content = long_text, threads_imageUrl = None, altText = None,
            linkAttachment = None\<rparr> start_world =
         (Inl (SocialPostingError m None None), start_world)) \<and>
   (\<exists>m. postToThreads (script_net []) th_config
           \<lparr>threads_content = blank_text, threads_imageUrl = None, altText = None,
            linkAttachment = None\<rparr> start_world =
         (Inl (SocialPostingError m None None), start_world)) \<and>
   (\<exists>r w'. crossPost (script_net []) linkedin_offline threads_only plain_options
              (text_post\<lparr>param_content := long_text\<rparr>) start_world = (Inr r, w') \<and>
           map code (platformResults r) = [CodeT] \<and>
           map content (platformResults r) = [Some long_text] \<and>
           map error (platformResults r) =
             [Some ''Threads post text cannot exceed 500 characters''] \<and>
           map postId (platformResults r) = [None]) \<and>
   (\<exists>r w'. crossPost (script_net []) linkedin_offline threads_only plain_options
              (text_post\<lparr>param_content := blank_text\<rparr>) start_world = (Inr r, w') \<and>
           map code (platformResults r) = [CodeT] \<and>
           map content (platformResults r) = [Some []] \<and>
           map error (platformResults r) = [Some ''Threads post requires content or image''] \<and>
           map postId (platformResults r) = [None])"
proof -
  have long: "too_long (Some long_text)"
    by (simp add: too_long_def trim_long_text length_long_text THREADS_TEXT_MAX_LENGTH_def)
  have blank: "blank (Some [])" "trim blank_text = []"
    by (simp_all add: blank_def blank_text_def trim_def is_space_def)
  have none: "no_image (text_post\<lparr>param_content := blank_text\<rparr>)"
    by (simp add: no_image_def text_post_def truthy_def)
  note a = threads_text_limit[where p = "\<lparr>threads_content = long_text, threads_imageUrl = None,
               altText = None, linkAttachment = None\<rparr>"
             and net = "script_net []" and cfg = th_config and w = start_world
             and net' = "script_net []" and li = linkedin_offline and config = threads_only
             and options = plain_options and params = "text_post\<lparr>param_content := long_text\<rparr>"
             and ?w0.0 = start_world and w' = start_world
             and r = "\<lparr>platformResults =
                 [\<lparr>platform = ''Threads'', code = CodeT, postId = None,
                   error = Some ''Threads post text cannot exceed 500 characters'',
                   content = Some long_text, permalink = None, postedAt = None, attempt = None\<rparr>],
                 failed = [\<lparr>failed_platform = ''Threads'',
                   failed_error = ''Threads post text cannot exceed 500 characters''\<rparr>],
                 batchStatus = Failed, maxAttempt = None\<rparr>"]
  note b = threads_text_limit[where p = "\<lparr>threads_content = blank_text, threads_imageUrl = None,
               altText = None, linkAttachment = None\<rparr>"
             and net = "script_net []" and cfg = th_config and w = start_world
             and net' = "script_net []" and li = linkedin_offline and config = threads_only
             and options = plain_options and params = "text_post\<lparr>param_content := blank_text\<rparr>"
             and ?w0.0 = start_world and w' = start_world
             and r = "\<lparr>platformResults =
                 [\<lparr>platform = ''Threads'', code = CodeT, postId = None,
                   error = Some ''Threads post requires content or image'',
                   content = Some [], permalink = None, postedAt = None, attempt = None\<rparr>],
                 failed = [\<lparr>failed_platform = ''Threads'',
                   failed_error = ''Threads post requires content or image''\<rparr>],
                 batchStatus = Failed, maxAttempt = None\<rparr>"]
  from a b long blank none long_text_run blank_run show ?thesis
    by (simp add: truthy_def)
qed

end
